theory Spec2Isabelle
  imports Complex_Main
begin

section \<open>Python strings\<close>

text \<open>
  Statement text is modelled as \<open>string\<close> (a list of characters) restricted to ASCII:
  the statements handled by the repository are English bank statements, and the
  character classes below (\<open>\d\<close>, \<open>\s\<close>, \<open>\w\<close>, \<open>str.lower\<close>, \<open>str.strip\<close>) are
  Python's classes cut down to the ASCII range. Amounts are Python floats in the source;
  here they are the real numbers that the decimal strings denote, which is all that the
  sign tests and \<open>abs\<close> of the source depend on.
\<close>

definition digit_chars :: string where
  "digit_chars = ''0123456789''"

definition lower_chars :: string where
  "lower_chars = ''abcdefghijklmnopqrstuvwxyz''"

definition upper_chars :: string where
  "upper_chars = ''ABCDEFGHIJKLMNOPQRSTUVWXYZ''"

definition alpha_chars :: string where
  "alpha_chars = upper_chars @ lower_chars"

text \<open>\<open>str.isspace\<close> on ASCII: tab, newline, vertical tab, form feed, carriage return,
  the four separators 0x1C..0x1F and the space.\<close>

definition space_chars :: string where
  "space_chars = [CHR 0x09, CHR 0x0A, CHR 0x0B, CHR 0x0C, CHR 0x0D,
                  CHR 0x1C, CHR 0x1D, CHR 0x1E, CHR 0x1F, CHR 0x20]"

definition word_chars :: string where
  "word_chars = alpha_chars @ digit_chars @ ''_''"

definition is_digit :: "char \<Rightarrow> bool" where
  "is_digit c = (c \<in> set digit_chars)"

definition is_space :: "char \<Rightarrow> bool" where
  "is_space c = (c \<in> set space_chars)"

text \<open>\<open>str.lower\<close>, one character.\<close>

fun lower_char :: "char \<Rightarrow> char" where
  "lower_char c =
     (case map_of (zip upper_chars lower_chars) c of Some l \<Rightarrow> l | None \<Rightarrow> c)"

definition lower :: "string \<Rightarrow> string" where
  "lower s = map lower_char s"

text \<open>\<open>s.startswith(p)\<close>.\<close>

fun startswith :: "string \<Rightarrow> string \<Rightarrow> bool" where
  "startswith s [] = True"
| "startswith [] (p # ps) = False"
| "startswith (c # cs) (p # ps) = (c = p \<and> startswith cs ps)"

text \<open>\<open>p in s\<close> for strings: \<open>p\<close> occurs in \<open>s\<close> as a contiguous substring.\<close>

fun contains :: "string \<Rightarrow> string \<Rightarrow> bool" where
  "contains [] p = (p = [])"
| "contains (c # cs) p = (startswith (c # cs) p \<or> contains cs p)"

text \<open>\<open>s.strip()\<close>: whitespace removed at both ends.\<close>

definition lstrip :: "string \<Rightarrow> string" where
  "lstrip s = dropWhile is_space s"

definition rstrip :: "string \<Rightarrow> string" where
  "rstrip s = rev (dropWhile is_space (rev s))"

definition strip :: "string \<Rightarrow> string" where
  "strip s = rstrip (lstrip s)"

text \<open>\<open>s.replace(old, new)\<close>: the occurrences of \<open>old\<close> are replaced from left to right,
  without overlap; an empty \<open>old\<close> matches before every character and at the end.\<close>

fun replace_ne :: "string \<Rightarrow> string \<Rightarrow> string \<Rightarrow> string" where
  "replace_ne old new [] = []"
| "replace_ne old new (c # cs) =
     (if old \<noteq> [] \<and> startswith (c # cs) old
      then new @ replace_ne old new (drop (length old) (c # cs))
      else c # replace_ne old new cs)"

definition replace :: "string \<Rightarrow> string \<Rightarrow> string \<Rightarrow> string" where
  "replace s old new =
     (if old = [] then new @ concat (map (\<lambda>c. c # new) s) else replace_ne old new s)"

text \<open>\<open>s.find(p)\<close>: the index of the first occurrence, \<open>None\<close> for Python's -1.\<close>

fun find_from :: "nat \<Rightarrow> string \<Rightarrow> string \<Rightarrow> nat option" where
  "find_from i [] p = (if p = [] then Some i else None)"
| "find_from i (c # cs) p = (if startswith (c # cs) p then Some i else find_from (Suc i) cs p)"

definition find_str :: "string \<Rightarrow> string \<Rightarrow> nat option" where
  "find_str s p = find_from 0 s p"

text \<open>\<open>s.zfill(2)\<close>: zeros are added on the left, after a leading sign.\<close>

definition zfill2 :: "string \<Rightarrow> string" where
  "zfill2 s =
     (case s of
        [] \<Rightarrow> ''00''
      | [c] \<Rightarrow> if c = CHR ''+'' \<or> c = CHR ''-'' then [c, CHR ''0''] else [CHR ''0'', c]
      | _ \<Rightarrow> s)"

text \<open>\<open>s.split(sep)\<close> for a one-character separator.\<close>

fun split_on :: "char \<Rightarrow> string \<Rightarrow> string list" where
  "split_on sep [] = [[]]"
| "split_on sep (c # cs) =
     (case split_on sep cs of
        [] \<Rightarrow> [[c]]
      | w # ws \<Rightarrow> if c = sep then [] # w # ws else (c # w) # ws)"

text \<open>\<open>s.split()\<close>: the maximal runs of non-whitespace characters.\<close>

fun split_ws_acc :: "string \<Rightarrow> string \<Rightarrow> string list" where
  "split_ws_acc cur [] = (if cur = [] then [] else [rev cur])"
| "split_ws_acc cur (c # cs) =
     (if is_space c then (if cur = [] then split_ws_acc [] cs else rev cur # split_ws_acc [] cs)
      else split_ws_acc (c # cur) cs)"

definition split_ws :: "string \<Rightarrow> string list" where
  "split_ws s = split_ws_acc [] s"

text \<open>\<open>' '.join(parts)\<close>.\<close>

fun join_sp :: "string list \<Rightarrow> string" where
  "join_sp [] = []"
| "join_sp [w] = w"
| "join_sp (w # ws) = w @ '' '' @ join_sp ws"

section \<open>Regular expressions\<close>

text \<open>
  The source recognises dates and amounts with Python's \<open>re\<close> module. The patterns it
  uses are written here as terms of \<open>rx\<close> and run by a backtracking matcher that tries
  the alternatives in the order \<open>re\<close> does: the left branch of \<open>|\<close> first, a greedy
  repetition longest first, a lazy one shortest first. A repetition step has to
  consume a character; the bodies of all repetitions below do.
\<close>

datatype cls = OneOf string | NoneOf string

fun in_cls :: "cls \<Rightarrow> char \<Rightarrow> bool" where
  "in_cls (OneOf cs) c = (c \<in> set cs)"
| "in_cls (NoneOf cs) c = (c \<notin> set cs)"

datatype rx =
    Ch cls
  | Eps
  | Cat rx rx
  | Alt rx rx
  | Rep rx nat "nat option" bool
  | Grp nat rx
  | Bol
  | Eol
  | Wb

text \<open>A matcher state: the character before the position (\<open>None\<close> at the start of the
  string), the text still to read, and the groups captured so far, latest first.\<close>

record mstate =
  prev :: "char option"
  rest :: string
  caps :: "(nat \<times> string) list"

definition consume :: "cls \<Rightarrow> mstate \<Rightarrow> mstate list" where
  "consume k s =
     (case rest s of
        [] \<Rightarrow> []
      | c # cs \<Rightarrow> if in_cls k c then [s\<lparr>prev := Some c, rest := cs\<rparr>] else [])"

text \<open>\<open>r{lo,hi}\<close> (\<open>hi = None\<close>: unbounded), given the matcher \<open>f\<close> of \<open>r\<close>.\<close>

function rep_from ::
  "(mstate \<Rightarrow> mstate list) \<Rightarrow> bool \<Rightarrow> nat \<Rightarrow> nat option \<Rightarrow> mstate \<Rightarrow> mstate list" where
  "rep_from f greedy lo hi s =
     (let stop = (if lo = 0 then [s] else []);
          more = (if hi = Some 0 then []
                  else concat (map (\<lambda>s'. rep_from f greedy (lo - 1) (map_option (\<lambda>h. h - 1) hi) s')
                         (filter (\<lambda>s'. length (rest s') < length (rest s)) (f s))))
      in if greedy then more @ stop else stop @ more)"
  by pat_completeness auto
termination
  by (relation "measure (\<lambda>(f, g, lo, hi, s). length (rest s))") auto

declare rep_from.simps [simp del]

text \<open>All the ways \<open>r\<close> matches at the state, in the order \<open>re\<close> tries them.
  \<open>Bol\<close> is \<open>^\<close>, \<open>Eol\<close> is \<open>$\<close> (the end of the string, or just before a newline that
  ends it) and \<open>Wb\<close> is \<open>\b\<close>.\<close>

primrec rmatch :: "rx \<Rightarrow> mstate \<Rightarrow> mstate list" where
  "rmatch (Ch k) s = consume k s"
| "rmatch Eps s = [s]"
| "rmatch (Cat a b) s = concat (map (rmatch b) (rmatch a s))"
| "rmatch (Alt a b) s = rmatch a s @ rmatch b s"
| "rmatch (Rep r lo hi greedy) s = rep_from (rmatch r) greedy lo hi s"
| "rmatch (Grp n r) s =
     map (\<lambda>s'. s'\<lparr>caps := (n, take (length (rest s) - length (rest s')) (rest s)) # caps s'\<rparr>)
       (rmatch r s)"
| "rmatch Bol s = (if prev s = None then [s] else [])"
| "rmatch Eol s = (if rest s = [] \<or> rest s = [CHR 0x0A] then [s] else [])"
| "rmatch Wb s =
     (if (case prev s of None \<Rightarrow> False | Some c \<Rightarrow> c \<in> set word_chars)
         \<noteq> (case rest s of [] \<Rightarrow> False | c # _ \<Rightarrow> c \<in> set word_chars)
      then [s] else [])"

text \<open>Pattern notation: a sequence, a literal text, \<open>r{n}\<close>, \<open>r+\<close>, \<open>r*\<close>, \<open>r?\<close>,
  and a literal text matched ignoring case.\<close>

definition rx_seq :: "rx list \<Rightarrow> rx" where
  "rx_seq rs = foldr Cat rs Eps"

definition rx_lit :: "string \<Rightarrow> rx" where
  "rx_lit s = rx_seq (map (\<lambda>c. Ch (OneOf [c])) s)"

definition upper_char :: "char \<Rightarrow> char" where
  "upper_char c = (case map_of (zip lower_chars upper_chars) c of Some u \<Rightarrow> u | None \<Rightarrow> c)"

definition rx_lit_i :: "string \<Rightarrow> rx" where
  "rx_lit_i s = rx_seq (map (\<lambda>c. Ch (OneOf [lower_char c, upper_char c])) s)"

definition rx_times :: "nat \<Rightarrow> rx \<Rightarrow> rx" where
  "rx_times n r = Rep r n (Some n) True"

definition rx_between :: "nat \<Rightarrow> nat \<Rightarrow> rx \<Rightarrow> rx" where
  "rx_between lo hi r = Rep r lo (Some hi) True"

definition rx_plus :: "rx \<Rightarrow> rx" where
  "rx_plus r = Rep r 1 None True"

definition rx_star :: "rx \<Rightarrow> rx" where
  "rx_star r = Rep r 0 None True"

definition rx_star_lazy :: "rx \<Rightarrow> rx" where
  "rx_star_lazy r = Rep r 0 None False"

definition rx_at_least :: "nat \<Rightarrow> rx \<Rightarrow> rx" where
  "rx_at_least n r = Rep r n None True"

definition rx_opt :: "rx \<Rightarrow> rx" where
  "rx_opt r = Rep r 0 (Some 1) True"

definition rx_alts :: "rx list \<Rightarrow> rx" where
  "rx_alts rs = (case rs of [] \<Rightarrow> Eps | _ \<Rightarrow> foldr Alt (butlast rs) (last rs))"

text \<open>\<open>\d\<close>, \<open>\s\<close>, \<open>\W\<close>, \<open>[A-Za-z]\<close> and \<open>.\<close>.\<close>

definition rx_digit :: rx where "rx_digit = Ch (OneOf digit_chars)"
definition rx_space :: rx where "rx_space = Ch (OneOf space_chars)"
definition rx_nonword :: rx where "rx_nonword = Ch (NoneOf word_chars)"
definition rx_alpha :: rx where "rx_alpha = Ch (OneOf alpha_chars)"
definition rx_any :: rx where "rx_any = Ch (NoneOf [CHR 0x0A])"

text \<open>A match: where it starts, the text matched (group 0) and the state after it.\<close>

record rmatched =
  mstart :: nat
  whole :: string
  final :: mstate

definition mgroup :: "rmatched \<Rightarrow> nat \<Rightarrow> string option" where
  "mgroup m n = map_of (caps (final m)) n"

definition first_match :: "rx \<Rightarrow> char option \<Rightarrow> nat \<Rightarrow> string \<Rightarrow> rmatched option" where
  "first_match r p i s =
     (case rmatch r \<lparr>prev = p, rest = s, caps = []\<rparr> of
        [] \<Rightarrow> None
      | m # _ \<Rightarrow> Some \<lparr>mstart = i, whole = take (length s - length (rest m)) s, final = m\<rparr>)"

text \<open>\<open>re.match(r, s)\<close>: a match at the start of the string.\<close>

definition re_match :: "rx \<Rightarrow> string \<Rightarrow> rmatched option" where
  "re_match r s = first_match r None 0 s"

text \<open>\<open>re.search(r, s)\<close>: the match at the leftmost position that has one.\<close>

fun search_from :: "rx \<Rightarrow> char option \<Rightarrow> nat \<Rightarrow> string \<Rightarrow> rmatched option" where
  "search_from r p i [] = first_match r p i []"
| "search_from r p i (c # cs) =
     (case first_match r p i (c # cs) of
        Some m \<Rightarrow> Some m
      | None \<Rightarrow> search_from r (Some c) (i + 1) cs)"

definition re_search :: "rx \<Rightarrow> string \<Rightarrow> rmatched option" where
  "re_search r s = search_from r None 0 s"

text \<open>\<open>re.findall(r, s)\<close> for a pattern without groups: the texts of the successive
  matches, each search starting where the match before it ended.\<close>

function findall_from :: "rx \<Rightarrow> char option \<Rightarrow> string \<Rightarrow> string list" where
  "findall_from r p [] = (case first_match r p 0 [] of Some m \<Rightarrow> [whole m] | None \<Rightarrow> [])"
| "findall_from r p (c # cs) =
     (case first_match r p 0 (c # cs) of
        None \<Rightarrow> findall_from r (Some c) cs
      | Some m \<Rightarrow>
          if whole m \<noteq> [] \<and> length (rest (final m)) < length (c # cs)
          then whole m # findall_from r (prev (final m)) (rest (final m))
          else whole m # findall_from r (Some c) cs)"
  by pat_completeness auto
termination
  by (relation "measure (\<lambda>(r, p, s). length s)") auto

definition re_findall :: "rx \<Rightarrow> string \<Rightarrow> string list" where
  "re_findall r s = findall_from r None s"

text \<open>\<open>re.sub(r, '', s)\<close>: every match removed.\<close>

function sub_from :: "rx \<Rightarrow> char option \<Rightarrow> string \<Rightarrow> string" where
  "sub_from r p [] = []"
| "sub_from r p (c # cs) =
     (case first_match r p 0 (c # cs) of
        None \<Rightarrow> c # sub_from r (Some c) cs
      | Some m \<Rightarrow>
          if whole m \<noteq> [] \<and> length (rest (final m)) < length (c # cs)
          then sub_from r (prev (final m)) (rest (final m))
          else c # sub_from r (Some c) cs)"
  by pat_completeness auto
termination
  by (relation "measure (\<lambda>(r, p, s). length s)") auto

definition re_sub_empty :: "rx \<Rightarrow> string \<Rightarrow> string" where
  "re_sub_empty r s = sub_from r None s"

section \<open>Amounts\<close>

definition digit_vals :: "int list" where
  "digit_vals = [0, 1, 2, 3, 4, 5, 6, 7, 8, 9]"

definition digit_val :: "char \<Rightarrow> int" where
  "digit_val c = (case map_of (zip digit_chars digit_vals) c of Some v \<Rightarrow> v | None \<Rightarrow> 0)"

text \<open>\<open>int(s)\<close> on a string of decimal digits.\<close>

fun digits_val :: "int \<Rightarrow> string \<Rightarrow> int" where
  "digits_val acc [] = acc"
| "digits_val acc (c # cs) = digits_val (10 * acc + digit_val c) cs"

text \<open>
  Python's \<open>float(s)\<close> on the strings \<open>clean_amount\<close> passes to it, which hold only
  digits, periods and dashes: an optional sign, then digits with at most one period and at
  least one digit. \<open>None\<close> is the \<open>ValueError\<close>.
\<close>

definition float_unsigned :: "string \<Rightarrow> real option" where
  "float_unsigned s =
     (let ip = takeWhile is_digit s; r = dropWhile is_digit s in
      if r = [] then (if ip = [] then None else Some (of_int (digits_val 0 ip)))
      else if hd r = CHR ''.'' \<and> list_all is_digit (tl r) \<and> (ip \<noteq> [] \<or> tl r \<noteq> [])
      then Some (of_int (digits_val 0 ip) + of_int (digits_val 0 (tl r)) / 10 ^ length (tl r))
      else None)"

definition py_float :: "string \<Rightarrow> real option" where
  "py_float s =
     (if startswith s ''-'' then map_option uminus (float_unsigned (tl s))
      else if startswith s ''+'' then float_unsigned (tl s)
      else float_unsigned s)"

text \<open>\<open>BankProcessor.clean_amount\<close>.\<close>

definition clean_amount :: "string \<Rightarrow> real" where
  "clean_amount amount_str =
     (if amount_str = [] then 0
      else
        let is_negative = (CHR ''('' \<in> set amount_str \<or> startswith amount_str ''-'');
            cleaned = filter (\<lambda>c. c \<in> set (digit_chars @ ''.,()-'')) amount_str;
            final_cleaned = replace (replace (replace cleaned '','' '''') ''('' '''') '')'' ''''
        in if startswith final_cleaned ''-''
           then (case py_float final_cleaned of Some v \<Rightarrow> v | None \<Rightarrow> 0)
           else (case py_float final_cleaned of
                   Some amount \<Rightarrow> if is_negative then - amount else amount
                 | None \<Rightarrow> 0))"

section \<open>Dates\<close>

definition month_abbrs :: "string list" where
  "month_abbrs = [''jan'', ''feb'', ''mar'', ''apr'', ''may'', ''jun'',
                  ''jul'', ''aug'', ''sep'', ''oct'', ''nov'', ''dec'']"

text \<open>The \<open>month_map\<close> dictionary of the source, as an association list.\<close>

definition month_map :: "(string \<times> string) list" where
  "month_map = [(''jan'', ''01''), (''feb'', ''02''), (''mar'', ''03''), (''apr'', ''04''),
                (''may'', ''05''), (''jun'', ''06''), (''jul'', ''07''), (''aug'', ''08''),
                (''sep'', ''09''), (''oct'', ''10''), (''nov'', ''11''), (''dec'', ''12'')]"

text \<open>The text of a group that took part in the match.\<close>

definition grp :: "rmatched \<Rightarrow> nat \<Rightarrow> string" where
  "grp m n = (case mgroup m n of Some g \<Rightarrow> g | None \<Rightarrow> [])"

subsection \<open>The library's \<open>datetime.strptime\<close>\<close>

text \<open>
  \<open>clean_date\<close> tries eight \<open>strptime\<close> formats built from the directives \<open>%b\<close>, \<open>%d\<close>,
  \<open>%m\<close>, \<open>%Y\<close>, a blank and the literals period, dash and slash. The library turns a
  format into a regular expression (a blank becomes \<open>\s+\<close>, \<open>%d\<close> becomes
  \<open>(3[0-1]|[1-2]\d|0[1-9]|[1-9]| [1-9])\<close>, \<open>%m\<close> becomes \<open>(1[0-2]|0[1-9]|[1-9])\<close>, \<open>%Y\<close>
  becomes \<open>\d\d\d\d\<close>, \<open>%b\<close> the month abbreviations of the locale, case ignored),
  matches it at the start of the string, raises \<open>ValueError\<close> when the match does not
  end at the end of the string, and raises it again when the day does not exist in the
  month of the year (1900 when the format has no year). \<open>None\<close> is that \<open>ValueError\<close>.
\<close>

datatype directive = Pb | Pd | Pm | PY | Blank | Lt char

definition directive_rx :: "directive \<Rightarrow> rx" where
  "directive_rx d =
     (case d of
        Pb \<Rightarrow> Grp 1 (rx_alts (map rx_lit_i month_abbrs))
      | Pd \<Rightarrow> Grp 2 (rx_alts [rx_seq [rx_lit ''3'', Ch (OneOf ''01'')],
                             rx_seq [Ch (OneOf ''12''), rx_digit],
                             rx_seq [rx_lit ''0'', Ch (OneOf ''123456789'')],
                             Ch (OneOf ''123456789''),
                             rx_seq [rx_lit '' '', Ch (OneOf ''123456789'')]])
      | Pm \<Rightarrow> Grp 3 (rx_alts [rx_seq [rx_lit ''1'', Ch (OneOf ''012'')],
                             rx_seq [rx_lit ''0'', Ch (OneOf ''123456789'')],
                             Ch (OneOf ''123456789'')])
      | PY \<Rightarrow> Grp 4 (rx_times 4 rx_digit)
      | Blank \<Rightarrow> rx_plus rx_space
      | Lt c \<Rightarrow> rx_lit [c])"

definition format_rx :: "directive list \<Rightarrow> rx" where
  "format_rx fmt = rx_seq (map directive_rx fmt)"

text \<open>\<open>list.index\<close>, counting from 1.\<close>

fun index1 :: "string list \<Rightarrow> string \<Rightarrow> int" where
  "index1 [] x = 0"
| "index1 (y # ys) x = (if x = y then 1 else 1 + index1 ys x)"

definition is_leap :: "int \<Rightarrow> bool" where
  "is_leap y = (y mod 4 = 0 \<and> (y mod 100 \<noteq> 0 \<or> y mod 400 = 0))"

definition days_in_month :: "int \<Rightarrow> int \<Rightarrow> int" where
  "days_in_month y m =
     (if m = 2 then (if is_leap y then 29 else 28)
      else if m = 4 \<or> m = 6 \<or> m = 9 \<or> m = 11 then 30 else 31)"

text \<open>The month and the day of the parsed date.\<close>

definition strptime :: "directive list \<Rightarrow> string \<Rightarrow> (int \<times> int) option" where
  "strptime fmt data_string =
     (case re_match (format_rx fmt) data_string of
        None \<Rightarrow> None
      | Some found \<Rightarrow>
          if rest (final found) \<noteq> [] then None
          else
            let month = (case mgroup found 1 of
                           Some b \<Rightarrow> index1 month_abbrs (lower b)
                         | None \<Rightarrow> digits_val 0 (grp found 3));
                day = digits_val 0 (lstrip (grp found 2));
                year = (case mgroup found 4 of Some y \<Rightarrow> digits_val 0 y | None \<Rightarrow> 1900)
            in if 1 \<le> year \<and> 1 \<le> day \<and> day \<le> days_in_month year month
               then Some (month, day) else None)"

text \<open>\<open>'%02d' % n\<close> for \<open>1 \<le> n \<le> 99\<close>.\<close>

definition digit_char :: "int \<Rightarrow> char" where
  "digit_char n =
     (case map_of (zip digit_vals digit_chars) n of Some c \<Rightarrow> c | None \<Rightarrow> CHR ''0'')"

definition two_digits :: "int \<Rightarrow> string" where
  "two_digits n = [digit_char (n div 10 mod 10), digit_char (n mod 10)]"

text \<open>\<open>date_obj.strftime('%m-%d')\<close>.\<close>

definition strftime_md :: "int \<times> int \<Rightarrow> string" where
  "strftime_md md = two_digits (fst md) @ ''-'' @ two_digits (snd md)"

subsection \<open>\<open>BankProcessor.clean_date\<close>\<close>

text \<open>The list \<open>formats\<close>: \<open>'%b %d %Y'\<close>, \<open>'%b.%d %Y'\<close>, \<open>'%b-%d %Y'\<close>, \<open>'%b %d'\<close>,
  \<open>'%b.%d'\<close>, \<open>'%m/%d/%Y'\<close>, \<open>'%d/%m/%Y'\<close>, \<open>'%m/%d'\<close>.\<close>

definition formats :: "directive list list" where
  "formats =
     [[Pb, Blank, Pd, Blank, PY],
      [Pb, Lt CHR ''.'', Pd, Blank, PY],
      [Pb, Lt CHR ''-'', Pd, Blank, PY],
      [Pb, Blank, Pd],
      [Pb, Lt CHR ''.'', Pd],
      [Pm, Lt CHR ''/'', Pd, Lt CHR ''/'', PY],
      [Pd, Lt CHR ''/'', Pm, Lt CHR ''/'', PY],
      [Pm, Lt CHR ''/'', Pd]]"

text \<open>The loop over the formats: the first one that parses the string gives the result.\<close>

fun try_formats :: "directive list list \<Rightarrow> string \<Rightarrow> string option" where
  "try_formats [] s = None"
| "try_formats (fmt # fmts) s =
     (case strptime fmt s of
        Some md \<Rightarrow> Some (strftime_md md)
      | None \<Rightarrow> try_formats fmts s)"

text \<open>\<open>([A-Za-z]{3})\.?(\d{1,2})\<close>\<close>

definition month_day_pattern :: rx where
  "month_day_pattern =
     rx_seq [Grp 1 (rx_times 3 rx_alpha), rx_opt (rx_lit ''.''), Grp 2 (rx_between 1 2 rx_digit)]"

definition clean_date :: "string \<Rightarrow> string" where
  "clean_date date_str =
     (if date_str = [] then ''01-01''
      else
        case try_formats formats (strip date_str) of
          Some d \<Rightarrow> d
        | None \<Rightarrow>
            (case re_search month_day_pattern (lower date_str) of
               Some m \<Rightarrow>
                 (let month_str = lower (take 3 (grp m 1));
                      day_str = zfill2 (grp m 2)
                  in case map_of month_map month_str of
                       Some mm \<Rightarrow> mm @ ''-'' @ day_str
                     | None \<Rightarrow> take 5 (strip date_str))
             | None \<Rightarrow> take 5 (strip date_str)))"

text \<open>The canonical form \<open>MM-DD\<close>: two digits, a dash, two digits.\<close>

definition is_mmdd :: "string \<Rightarrow> bool" where
  "is_mmdd s =
     (length s = 5 \<and> is_digit (s ! 0) \<and> is_digit (s ! 1) \<and> s ! 2 = CHR ''-'' \<and>
      is_digit (s ! 3) \<and> is_digit (s ! 4))"

section \<open>Transaction records and documents\<close>

text \<open>
  A transaction is a Python dictionary in the source. The keys that every extractor sets
  and nothing reads back are plain fields; a key that the orchestrator looks up or tests
  for, or that only some extractors set, is an optional field, \<open>None\<close> when the
  dictionary has no such key. For \<open>balance\<close> and \<open>cad_amount\<close>, which nothing reads,
  \<open>None\<close> is also the key with Python's \<open>None\<close> for its value. The value of
  \<open>exchange_rate_info\<close> is the text \<open>f"CAD ${cad_amount} @ {exchange_rate}"\<close>; it is kept as
  its two parts, the amount and the rate as written in the statement, and \<open>None\<close> is
  also the empty text. The key \<open>note\<close> is the field \<open>note_value\<close>.
\<close>

record tx =
  date :: string
  description :: string
  amount :: "real option"
  page :: nat
  bank :: "string option"
  confidence :: "real option"
  transaction_type :: "string option"
  is_spending :: "bool option"
  abs_amount :: "real option"
  processing_method :: "string option"
  confidence_level :: "string option"
  balance :: "real option"
  posting_date :: "string option"
  reference :: "string option"
  extraction_method :: "string option"
  note_value :: "string option"
  reward_earned :: "real option"
  location :: "string option"
  currency :: "string option"
  cad_amount :: "real option"
  exchange_rate_info :: "(real \<times> string) option"
  deducted_amount :: "real option"
  added_amount :: "real option"

text \<open>The dictionary with the keys \<open>date\<close>, \<open>description\<close>, \<open>amount\<close>, \<open>page\<close>, \<open>bank\<close> and
  \<open>confidence\<close>.\<close>

definition new_tx :: "string \<Rightarrow> string \<Rightarrow> real \<Rightarrow> nat \<Rightarrow> string \<Rightarrow> real \<Rightarrow> tx" where
  "new_tx d desc a pg b c =
     \<lparr>date = d, description = desc, amount = Some a, page = pg, bank = Some b,
      confidence = Some c, transaction_type = None, is_spending = None, abs_amount = None,
      processing_method = None, confidence_level = None, balance = None,
      posting_date = None, reference = None, extraction_method = None, note_value = None,
      reward_earned = None, location = None, currency = None, cad_amount = None,
      exchange_rate_info = None, deducted_amount = None, added_amount = None\<rparr>"

text \<open>
  A PDF file as the source sees it through \<open>pdfplumber\<close>: its path and, when the file can
  be opened, the result of \<open>extract_text()\<close> for each page (\<open>None\<close> or a string).
  \<open>content = None\<close> stands for a file that \<open>pdfplumber.open\<close> raises on.
\<close>

record pdf_file =
  path :: string
  content :: "string option list option"

text \<open>\<open>os.path.basename\<close>: the text after the last slash.\<close>

definition basename :: "string \<Rightarrow> string" where
  "basename p = rev (takeWhile (\<lambda>c. c \<noteq> CHR ''/'') (rev p))"

text \<open>\<open>text.split('\n')\<close>.\<close>

definition split_lines :: "string \<Rightarrow> string list" where
  "split_lines text = split_on (CHR 0x0A) text"

text \<open>\<open>any(k in s for k in ks)\<close>.\<close>

definition any_in :: "string list \<Rightarrow> string \<Rightarrow> bool" where
  "any_in ks s = list_ex (contains s) ks"

text \<open>The loop \<open>for page_num, page in enumerate(pdf.pages, 1)\<close> shared by the extractors:
  a page without text is skipped, the records of the others are collected in page order;
  a file that cannot be opened raises inside the extractor's \<open>try\<close>, which returns \<open>[]\<close>.\<close>

definition over_pages :: "(nat \<Rightarrow> string \<Rightarrow> tx list) \<Rightarrow> pdf_file \<Rightarrow> tx list" where
  "over_pages per_page f =
     (case content f of
        None \<Rightarrow> []
      | Some pages \<Rightarrow>
          concat (map (\<lambda>(page_num, page).
                         case page of
                           None \<Rightarrow> []
                         | Some text \<Rightarrow> if text = [] then [] else per_page page_num text)
                    (enumerate 1 pages)))"

text \<open>A bank processor: its name, its \<open>can_process(text, filename)\<close> and its
  \<open>extract_transactions\<close>.\<close>

record processor =
  bank_name :: string
  can_process :: "string \<Rightarrow> string \<Rightarrow> bool"
  extract_transactions :: "pdf_file \<Rightarrow> tx list"

section \<open>TD Bank: sections\<close>

text \<open>\<open>^\d{2}/\d{2}\<close>\<close>

definition td_start_pattern :: rx where
  "td_start_pattern = rx_seq [Bol, rx_times 2 rx_digit, rx_lit ''/'', rx_times 2 rx_digit]"

definition is_td_transaction :: "string \<Rightarrow> bool" where
  "is_td_transaction line = (re_match td_start_pattern line \<noteq> None)"

text \<open>\<open>^(\d{2}/\d{2})\s+(.*?)\s+([\d,]+\.?\d{2})$\<close>\<close>

definition td_line_pattern :: rx where
  "td_line_pattern =
     rx_seq [Bol, Grp 1 (rx_seq [rx_times 2 rx_digit, rx_lit ''/'', rx_times 2 rx_digit]),
             rx_plus rx_space, Grp 2 (rx_star_lazy rx_any), rx_plus rx_space,
             Grp 3 (rx_seq [rx_plus (Ch (OneOf (digit_chars @ '',''))), rx_opt (rx_lit ''.''),
                            rx_times 2 rx_digit]),
             Eol]"

definition parse_td_transaction :: "string \<Rightarrow> nat \<Rightarrow> string \<Rightarrow> tx option" where
  "parse_td_transaction line page_num section =
     (case re_match td_line_pattern line of
        None \<Rightarrow> None
      | Some m \<Rightarrow>
          let d = clean_date (grp m 1);
              desc = strip (grp m 2);
              a = clean_amount (grp m 3);
              (ttype, spending) =
                 (if section = ''credits'' then (''credit'', False)
                  else if section = ''debits'' then (''debit'', True)
                  else (''credit'', False))
          in Some ((new_tx d desc a page_num ''TD Bank'' 0.9)
                     \<lparr>transaction_type := Some ttype, is_spending := Some spending,
                      abs_amount := Some \<bar>a\<bar>, processing_method := Some ''td_bank_processor'',
                      confidence_level := Some ''high''\<rparr>))"

text \<open>The loop over the lines of a page, with the section current at the line.\<close>

fun td_lines :: "nat \<Rightarrow> string option \<Rightarrow> string list \<Rightarrow> tx list" where
  "td_lines page_num current_section [] = []"
| "td_lines page_num current_section (l # ls) =
     (let line = strip l in
      if line = ''Credits'' then td_lines page_num (Some ''credits'') ls
      else if line = ''Debits'' then td_lines page_num (Some ''debits'') ls
      else if contains line ''DAILY ACCOUNT ACTIVITY'' then td_lines page_num (Some ''credits'') ls
      else
        (case current_section of
           None \<Rightarrow> []
         | Some section \<Rightarrow>
             if section \<noteq> [] \<and> is_td_transaction line
             then (case parse_td_transaction line page_num section of
                     None \<Rightarrow> [] | Some t \<Rightarrow> [t])
             else [])
        @ td_lines page_num current_section ls)"

definition td_page :: "nat \<Rightarrow> string \<Rightarrow> tx list" where
  "td_page page_num text = td_lines page_num None (split_lines text)"

definition TDProcessor :: processor where
  "TDProcessor =
     \<lparr>bank_name = ''TD Bank'',
      can_process = (\<lambda>text filename.
         any_in [''STATEMENT OF ACCOUNT'', ''TD Personal'', ''Primary Account''] text),
      extract_transactions = over_pages td_page\<rparr>"

section \<open>EQ Bank and the BMO credit card: records without a classification\<close>

text \<open>The date and time of the run, which \<open>datetime.now()\<close> reads.\<close>

record clock =
  now_year :: int
  now_month :: int

text \<open>\<open>str(n)\<close> for an integer \<open>n \<ge> 0\<close>.\<close>

function str_pos :: "int \<Rightarrow> string" where
  "str_pos n =
     (if n < 10 then [digit_char n] else str_pos (n div 10) @ [digit_char (n mod 10)])"
  by pat_completeness auto
termination
  by (relation "measure nat") auto

declare str_pos.simps [simp del]

definition rx_amount_digits :: rx where
  "rx_amount_digits = rx_plus (Ch (OneOf (digit_chars @ '','')))"

text \<open>\<open>^[A-Za-z]{3}\s+\d{1,2}\<close> and \<open>-?\$[\d,]+\.?\d{2}\<close>\<close>

definition eq_date_pattern :: rx where
  "eq_date_pattern = rx_seq [Bol, rx_times 3 rx_alpha, rx_plus rx_space, rx_between 1 2 rx_digit]"

definition eq_amount_pattern :: rx where
  "eq_amount_pattern =
     rx_seq [rx_opt (rx_lit ''-''), rx_lit ''$'', rx_amount_digits, rx_opt (rx_lit ''.''),
             rx_times 2 rx_digit]"

definition is_eq_transaction :: "string \<Rightarrow> bool" where
  "is_eq_transaction line =
     (re_search eq_date_pattern line \<noteq> None \<and> re_search eq_amount_pattern line \<noteq> None)"

text \<open>\<open>^([A-Za-z]{3}\s+\d{1,2})\s+(.*?)\s+(-?\$[\d,]+\.?\d{2})$\<close>\<close>

definition eq_line_pattern :: rx where
  "eq_line_pattern =
     rx_seq [Bol, Grp 1 (rx_seq [rx_times 3 rx_alpha, rx_plus rx_space, rx_between 1 2 rx_digit]),
             rx_plus rx_space, Grp 2 (rx_star_lazy rx_any), rx_plus rx_space,
             Grp 3 (rx_seq [rx_opt (rx_lit ''-''), rx_lit ''$'', rx_amount_digits,
                            rx_opt (rx_lit ''.''), rx_times 2 rx_digit]),
             Eol]"

definition parse_eq_transaction :: "clock \<Rightarrow> string \<Rightarrow> nat \<Rightarrow> tx option" where
  "parse_eq_transaction now line page_num =
     (case re_match eq_line_pattern line of
        None \<Rightarrow> None
      | Some m \<Rightarrow>
          let current_year = now_year now;
              statement_year = (if now_month now \<le> 3 then current_year - 1 else current_year);
              date_str = grp m 1 @ '' '' @ str_pos statement_year;
              d = clean_date date_str;
              desc = strip (grp m 2);
              a = clean_amount (grp m 3)
          in if contains (lower desc) ''withdrawals'' \<or> contains (lower desc) ''deposits''
             then None
             else Some (new_tx d desc a page_num ''EQ Bank'' 0.95))"

definition eq_page :: "clock \<Rightarrow> nat \<Rightarrow> string \<Rightarrow> tx list" where
  "eq_page now page_num text =
     concat (map (\<lambda>l. let line = strip l in
                        if is_eq_transaction line
                        then (case parse_eq_transaction now line page_num of
                                None \<Rightarrow> [] | Some t \<Rightarrow> [t])
                        else [])
               (split_lines text))"

definition EQBankProcessor :: "clock \<Rightarrow> processor" where
  "EQBankProcessor now =
     \<lparr>bank_name = ''EQ Bank'',
      can_process = (\<lambda>text filename. any_in [''EQ Bank'', ''Cash Card'', ''Equitable Bank''] text),
      extract_transactions = over_pages (eq_page now)\<rparr>"

text \<open>\<open>[A-Za-z]{3}\.\d{1,2}\<close>, and with it
  \<open>^[A-Za-z]{3}\.\d{1,2}\s+[A-Za-z]{3}\.\d{1,2}\<close> and
  \<open>^([A-Za-z]{3}\.\d{1,2})\s+([A-Za-z]{3}\.\d{1,2})\s+(.*)\<close>\<close>

definition bmo_date :: rx where
  "bmo_date = rx_seq [rx_times 3 rx_alpha, rx_lit ''.'', rx_between 1 2 rx_digit]"

definition bmo_start_pattern :: rx where
  "bmo_start_pattern = rx_seq [Bol, bmo_date, rx_plus rx_space, bmo_date]"

definition is_bmo_transaction :: "string \<Rightarrow> bool" where
  "is_bmo_transaction line = (re_match bmo_start_pattern line \<noteq> None)"

definition bmo_date_pattern :: rx where
  "bmo_date_pattern =
     rx_seq [Bol, Grp 1 bmo_date, rx_plus rx_space, Grp 2 bmo_date, rx_plus rx_space,
             Grp 3 (rx_star rx_any)]"

text \<open>\<open>([\d,]+\.\d{2})\s*$\<close> and \<open>(\d{10,})\s*[\d,]+\.\d{2}\s*$\<close>\<close>

definition bmo_amount_pattern :: rx where
  "bmo_amount_pattern =
     rx_seq [Grp 1 (rx_seq [rx_amount_digits, rx_lit ''.'', rx_times 2 rx_digit]),
             rx_star rx_space, Eol]"

definition bmo_ref_pattern :: rx where
  "bmo_ref_pattern =
     rx_seq [Grp 1 (rx_at_least 10 rx_digit), rx_star rx_space, rx_amount_digits, rx_lit ''.'',
             rx_times 2 rx_digit, rx_star rx_space, Eol]"

definition parse_bmo_transaction :: "string \<Rightarrow> nat \<Rightarrow> tx option" where
  "parse_bmo_transaction line page_num =
     (case re_match bmo_date_pattern line of
        None \<Rightarrow> None
      | Some m \<Rightarrow>
          let trans_date = clean_date (grp m 1);
              post_date = clean_date (grp m 2);
              remaining_text = strip (grp m 3)
          in case re_search bmo_amount_pattern remaining_text of
               None \<Rightarrow> None
             | Some amount_match \<Rightarrow>
                 let a = clean_amount (grp amount_match 1);
                     description_end = mstart amount_match;
                     desc0 = strip (take description_end remaining_text);
                     ref = (case re_search bmo_ref_pattern remaining_text of
                              Some ref_match \<Rightarrow> grp ref_match 1 | None \<Rightarrow> []);
                     desc = (if ref \<noteq> [] then strip (replace desc0 ref []) else desc0)
                 in if any_in [''total'', ''interest'', ''fee'', ''balance'', ''payment'',
                               ''credit limit''] (lower desc)
                    then None
                    else Some ((new_tx trans_date desc a page_num ''BMO'' 0.9)
                                 \<lparr>posting_date := Some post_date, reference := Some ref\<rparr>))"

definition bmo_page :: "nat \<Rightarrow> string \<Rightarrow> tx list" where
  "bmo_page page_num text =
     concat (map (\<lambda>l. let line = strip l in
                        if is_bmo_transaction line
                        then (case parse_bmo_transaction line page_num of
                                None \<Rightarrow> [] | Some t \<Rightarrow> [t])
                        else [])
               (split_lines text))"

definition BMOProcessor :: processor where
  "BMOProcessor =
     \<lparr>bank_name = ''BMO'',
      can_process = (\<lambda>text filename.
         any_in [''BMO'', ''MasterCard'', ''CardNumber'', ''CustomerName''] text),
      extract_transactions = over_pages bmo_page\<rparr>"

section \<open>RBC bank accounts: carried dates\<close>

text \<open>\<open>(\d{1,2}\s+([A-Za-z]{3}))\<close>\<close>

definition rbc_date_pattern :: rx where
  "rbc_date_pattern =
     Grp 1 (rx_seq [rx_between 1 2 rx_digit, rx_plus rx_space, Grp 2 (rx_times 3 rx_alpha)])"

text \<open>\<open>(\d{1,2})\s+([a-zA-Z]{3})\<close>\<close>

definition rbc_day_month_pattern :: rx where
  "rbc_day_month_pattern =
     rx_seq [Grp 1 (rx_between 1 2 rx_digit), rx_plus rx_space, Grp 2 (rx_times 3 rx_alpha)]"

definition parse_rbc_date :: "string \<Rightarrow> string" where
  "parse_rbc_date date_str =
     (case re_match rbc_day_month_pattern (lower date_str) of
        None \<Rightarrow> ''Unknown''
      | Some m \<Rightarrow>
          (let day = zfill2 (grp m 1); month_abbr = grp m 2
           in case map_of month_map month_abbr of
                Some mm \<Rightarrow> mm @ ''-'' @ day
              | None \<Rightarrow> ''Unknown''))"

text \<open>\<open>[\d,]+\.\d{2}\<close> and \<open>^\W+|\W+$\<close>\<close>

definition amount_pattern :: rx where
  "amount_pattern = rx_seq [rx_amount_digits, rx_lit ''.'', rx_times 2 rx_digit]"

definition edge_nonword_pattern :: rx where
  "edge_nonword_pattern =
     Alt (rx_seq [Bol, rx_plus rx_nonword]) (rx_seq [rx_plus rx_nonword, Eol])"

definition rbc_skip_patterns :: "string list" where
  "rbc_skip_patterns =
     [''date'', ''description'', ''withdrawals'', ''deposits'', ''balance'',
      ''details of your account'', ''continued'', ''opening balance'', ''closing balance'',
      ''total deposits'', ''total withdrawals'', ''summary'', ''from.*to.*'', ''rbc'',
      ''fee electronic'', ''multiproduct rebate'', ''monthly fee'']"

definition parse_rbc_transaction_line :: "string \<Rightarrow> string \<Rightarrow> nat \<Rightarrow> tx option" where
  "parse_rbc_transaction_line d line page_num =
     (if line = [] \<or> length (strip line) < 5 then None
      else
        let line_lower = lower line in
        if any_in rbc_skip_patterns line_lower then None
        else
          case re_findall amount_pattern line of
            [] \<Rightarrow> None
          | amount_match # _ \<Rightarrow>
              let a = clean_amount amount_match in
              if a \<le> 0 then None
              else
                let desc0 = strip (case find_str line amount_match of
                                     Some desc_end \<Rightarrow> take desc_end line
                                   | None \<Rightarrow> take (length line - 1) line);
                    desc = join_sp (split_ws (re_sub_empty edge_nonword_pattern desc0))
                in if length desc < 3 then None
                   else
                     let (ttype, spending) =
                           (if any_in [''e-transfer'', ''autodeposit'', ''deposit'', ''rebate'',
                                       ''refund''] line_lower
                            then (''credit'', False)
                            else if any_in [''interac purchase'', ''contactless interac purchase'',
                                            ''online banking payment'', ''loan payment'',
                                            ''atm withdrawal'', ''fee'', ''charge'',
                                            ''misc payment''] line_lower
                            then (''debit'', True)
                            else if any_in [''subway'', ''tim hortons'', ''wal-mart'', ''esso'',
                                            ''phoenix'', ''costco'', ''staples'', ''nike'',
                                            ''shoppers'', ''fortinos'', ''afrocan''] line_lower
                            then (''debit'', True)
                            else (''debit'', True))
                     in if d = [] \<or> d = ''Unknown'' then None
                        else Some ((new_tx d desc a page_num ''RBC Bank'' 0.85)
                                     \<lparr>transaction_type := Some ttype,
                                      is_spending := Some spending,
                                      abs_amount := Some \<bar>a\<bar>,
                                      processing_method := Some ''rbc_bank_processor'',
                                      confidence_level := Some ''medium''\<rparr>))"

definition valid_months :: "string list" where
  "valid_months = [''jan'', ''feb'', ''mar'', ''apr'', ''may'', ''jun'',
                   ''jul'', ''aug'', ''sep'', ''oct'', ''nov'', ''dec'']"

text \<open>The test for a date in a line: the first match of the date pattern, accepted when
  its three letters are a month (\<open>found_date\<close> in the source).\<close>

definition rbc_date_match :: "string \<Rightarrow> rmatched option" where
  "rbc_date_match line =
     (case re_search rbc_date_pattern line of
        None \<Rightarrow> None
      | Some date_match \<Rightarrow>
          if lower (grp date_match 2) \<in> set valid_months then Some date_match else None)"

text \<open>One turn of the loop over the lines of a page: the date carried after the line
  and the records the line adds. \<open>current_date = None\<close> is the state before any date.\<close>

definition rbc_line :: "nat \<Rightarrow> string option \<Rightarrow> string \<Rightarrow> string option \<times> tx list" where
  "rbc_line page_num current_date l =
     (let line = strip l in
      if line = [] then (current_date, [])
      else if any_in [''date'', ''description'', ''withdrawals'', ''deposits'', ''balance'']
                (lower line)
      then (current_date, [])
      else
        case rbc_date_match line of
          Some date_match \<Rightarrow>
            (let new_date = parse_rbc_date (grp date_match 1);
                 clean_line = strip (replace line (grp date_match 1) [])
             in (Some new_date,
                 if clean_line \<noteq> []
                 then (case parse_rbc_transaction_line new_date clean_line page_num of
                         None \<Rightarrow> [] | Some t \<Rightarrow> [t])
                 else []))
        | None \<Rightarrow>
            (current_date,
             case current_date of
               None \<Rightarrow> []
             | Some d \<Rightarrow>
                 if d \<noteq> []
                 then (case parse_rbc_transaction_line d line page_num of
                         None \<Rightarrow> [] | Some t \<Rightarrow> [t])
                 else []))"

fun rbc_lines :: "nat \<Rightarrow> string option \<Rightarrow> string list \<Rightarrow> tx list" where
  "rbc_lines page_num current_date [] = []"
| "rbc_lines page_num current_date (l # ls) =
     (case rbc_line page_num current_date l of
        (next_date, found) \<Rightarrow> found @ rbc_lines page_num next_date ls)"

definition rbc_page :: "nat \<Rightarrow> string \<Rightarrow> tx list" where
  "rbc_page page_num text =
     (if contains text ''Details of your account activity''
      then rbc_lines page_num None (split_lines text) else [])"

definition RBCBankProcessor :: processor where
  "RBCBankProcessor =
     \<lparr>bank_name = ''RBC Bank'',
      can_process = (\<lambda>text filename.
         any_in [''Royal Bank of Canada'', ''RBC Day to Day Banking'', ''account statement''] text
         \<and> \<not> contains (lower filename) ''visa''),
      extract_transactions = over_pages rbc_page\<rparr>"

section \<open>Tangerine savings accounts: records over several lines\<close>

text \<open>\<open>^\d{2}\s[A-Za-z]{3}\s\d{4}\<close>\<close>

definition tangerine_date_pattern :: rx where
  "tangerine_date_pattern =
     rx_seq [Bol, rx_times 2 rx_digit, rx_space, rx_times 3 rx_alpha, rx_space,
             rx_times 4 rx_digit]"

definition is_tangerine_transaction :: "string \<Rightarrow> bool" where
  "is_tangerine_transaction line = (re_match tangerine_date_pattern line \<noteq> None)"

text \<open>\<open>^[\d,]+\.?\d{2}$\<close>, and \<open>[\d,]+\.?\d{2}$\<close> given to \<open>re.match\<close>\<close>

definition tangerine_amount_token :: rx where
  "tangerine_amount_token =
     rx_seq [Bol, rx_amount_digits, rx_opt (rx_lit ''.''), rx_times 2 rx_digit, Eol]"

definition tangerine_amount_end :: rx where
  "tangerine_amount_end =
     rx_seq [rx_amount_digits, rx_opt (rx_lit ''.''), rx_times 2 rx_digit, Eol]"

definition is_complete_tangerine_transaction :: "string \<Rightarrow> bool" where
  "is_complete_tangerine_transaction line =
     (let parts = split_ws line in
      if length parts < 6 then False
      else if re_match tangerine_date_pattern line = None then False
      else length (filter (\<lambda>p. re_match tangerine_amount_token p \<noteq> None) parts) \<ge> 2)"

definition parse_tangerine_date :: "string \<Rightarrow> string" where
  "parse_tangerine_date date_str =
     (let parts = split_ws date_str in
      if length parts \<ge> 3
      then (let day = zfill2 (parts ! 0); month_abbr = lower (parts ! 1)
            in case map_of month_map month_abbr of
                 Some month_num \<Rightarrow> month_num @ ''-'' @ day
               | None \<Rightarrow> ''Unknown'')
      else ''Unknown'')"

text \<open>The classification by the words of the description, which both parsers end with;
  the fallback on the sign differs between them and is their argument \<open>by_sign\<close>.\<close>

definition tangerine_classify :: "string \<Rightarrow> string \<times> bool \<Rightarrow> string \<times> bool" where
  "tangerine_classify description_lower by_sign =
     (if any_in [''interest paid'', ''deposit'', ''transfer in'', ''e-transfer from'',
                 ''interac e-transfer from''] description_lower
      then (''credit'', False)
      else if any_in [''withdrawal'', ''transfer to'', ''internet withdrawal'', ''fee'',
                      ''charge''] description_lower
      then (''debit'', True)
      else by_sign)"

definition tangerine_record ::
  "string \<Rightarrow> string \<Rightarrow> real \<Rightarrow> real \<Rightarrow> nat \<Rightarrow> string \<times> bool \<Rightarrow> tx" where
  "tangerine_record d desc a bal page_num cls =
     (new_tx d desc a page_num ''Tangerine'' 0.85)
       \<lparr>balance := Some bal, transaction_type := Some (fst cls), is_spending := Some (snd cls),
        abs_amount := Some \<bar>a\<bar>, processing_method := Some ''tangerine_processor'',
        confidence_level := Some ''medium''\<rparr>"

definition parse_tangerine_transaction :: "string \<Rightarrow> nat \<Rightarrow> tx option" where
  "parse_tangerine_transaction line page_num =
     (let parts = split_ws line in
      if length parts < 4 then None
      else
        let date_str = parts ! 0 @ '' '' @ parts ! 1 @ '' '' @ parts ! 2;
            d = parse_tangerine_date date_str;
            amounts = filter (\<lambda>p. re_match tangerine_amount_end p \<noteq> None) (drop 3 parts);
            description_parts = filter (\<lambda>p. re_match tangerine_amount_end p = None) (drop 3 parts)
        in if length amounts < 2 then None
           else
             let desc = join_sp description_parts;
                 a = clean_amount (amounts ! 0);
                 bal = clean_amount (amounts ! 1)
             in if any_in [''opening balance'', ''closing balance''] (lower desc) \<and> a = 0
                then None
                else Some (tangerine_record d desc a bal page_num
                             (tangerine_classify (lower desc)
                                (if a > 0 then (''credit'', False) else (''debit'', True)))))"

text \<open>
  The state of the look-ahead loop of \<open>_parse_tangerine_multiline_transaction\<close>:
  \<open>description\<close>, \<open>amount\<close>, \<open>balance\<close> (each \<open>None\<close> until found) and \<open>lines_consumed\<close>.
\<close>

type_synonym assembly = "string option \<times> real option \<times> real option \<times> nat"

text \<open>\<open>not description\<close>: \<open>None\<close> or the empty string.\<close>

definition no_text :: "string option \<Rightarrow> bool" where
  "no_text d = (d = None \<or> d = Some [])"

text \<open>The loop \<open>while idx < len(lines) and lines_consumed < 5\<close>, over the lines from
  \<open>start_idx + 1\<close> on.\<close>

fun look_ahead :: "string list \<Rightarrow> assembly \<Rightarrow> assembly" where
  "look_ahead [] st = st"
| "look_ahead (l # ls) (desc, a, bal, lines_consumed) =
     (if lines_consumed < 5
      then
        (let next_line = strip l in
         if next_line = [] then look_ahead ls (desc, a, bal, lines_consumed + 1)
         else if re_match tangerine_date_pattern next_line \<noteq> None
         then (desc, a, bal, lines_consumed)
         else
           let amounts_in_line = re_findall amount_pattern next_line in
           if length amounts_in_line \<ge> 2 \<and> a = None
           then (desc, Some (clean_amount (amounts_in_line ! 0)),
                 Some (clean_amount (amounts_in_line ! 1)), lines_consumed + 1)
           else if no_text desc \<and> \<not> list_ex is_digit next_line
           then look_ahead ls (Some next_line, a, bal, lines_consumed + 1)
           else look_ahead ls (desc, a, bal, lines_consumed + 1))
      else (desc, a, bal, lines_consumed))"

text \<open>What the first line gives: the date and, when the line goes on after the date,
  the description and possibly the amount and the balance.\<close>

definition first_line :: "string \<Rightarrow> string option \<times> string option \<times> real option \<times> real option" where
  "first_line current_line =
     (if re_match tangerine_date_pattern current_line \<noteq> None
      then
        (let parts = split_ws current_line in
         if length parts \<ge> 3
         then
           (let date_str = parts ! 0 @ '' '' @ parts ! 1 @ '' '' @ parts ! 2 in
            if length parts > 3
            then
              (let remaining_parts = drop 3 parts;
                   amounts_in_line =
                     filter (\<lambda>p. re_match tangerine_amount_token p \<noteq> None) remaining_parts
               in if length amounts_in_line \<ge> 2
                  then (Some date_str,
                        Some (join_sp (filter (\<lambda>p. re_match tangerine_amount_token p = None)
                                         remaining_parts)),
                        Some (clean_amount (amounts_in_line ! 0)),
                        Some (clean_amount (amounts_in_line ! 1)))
                  else (Some date_str, Some (join_sp remaining_parts), None, None))
            else (Some date_str, None, None, None))
         else (None, None, None, None))
      else (None, None, None, None))"

text \<open>The end of \<open>_parse_tangerine_multiline_transaction\<close>, once the date, the
  description, the amount and the balance have been collected.\<close>

definition finish_multiline ::
  "string \<Rightarrow> string \<Rightarrow> real \<Rightarrow> real \<Rightarrow> nat \<Rightarrow> nat \<Rightarrow> tx option \<times> nat" where
  "finish_multiline date_str desc a bal page_num lines_consumed =
     (let d = parse_tangerine_date date_str in
      if any_in [''opening balance'', ''closing balance''] (lower desc) \<and> a = 0
      then (None, lines_consumed)
      else (Some (tangerine_record d desc a bal page_num
                    (tangerine_classify (lower desc)
                       (if a > 0 then ''credit'' else ''debit'', a \<le> 0))),
            lines_consumed))"

text \<open>\<open>_parse_tangerine_multiline_transaction(lines, start_idx, page_num)\<close>, for
  \<open>start_idx < len(lines)\<close> as the caller has it; outside that range \<open>lines[start_idx]\<close>
  raises and the handler makes the function return \<open>(None, 1)\<close>.\<close>

definition parse_tangerine_multiline_transaction ::
  "string list \<Rightarrow> nat \<Rightarrow> nat \<Rightarrow> tx option \<times> nat" where
  "parse_tangerine_multiline_transaction lines start_idx page_num =
     (if start_idx \<ge> length lines then (None, 1)
      else
        let current_line = strip (lines ! start_idx) in
        if is_complete_tangerine_transaction current_line
        then (parse_tangerine_transaction current_line page_num, 1)
        else
          case first_line current_line of
            (date_str, desc0, a0, bal0) \<Rightarrow>
              (case look_ahead (drop (start_idx + 1) lines) (desc0, a0, bal0, 1) of
                 (desc1, a, bal, lines_consumed) \<Rightarrow>
                   let desc =
                         (if no_text desc1 \<and> start_idx > 0
                          then (let prev_line = strip (lines ! (start_idx - 1)) in
                                if prev_line \<noteq> [] \<and> re_match tangerine_date_pattern prev_line = None
                                then Some prev_line else desc1)
                          else desc1)
                   in case (date_str, desc, a, bal) of
                        (Some ds, Some de, Some av, Some bv) \<Rightarrow>
                          if ds \<noteq> [] \<and> de \<noteq> []
                          then finish_multiline ds de av bv page_num lines_consumed
                          else (None, 1)
                      | _ \<Rightarrow> (None, 1)))"

text \<open>The second component of the result is \<open>lines_consumed\<close>, which starts at 1 and
  only grows; the loop over the lines of a page below advances by it.\<close>

lemma look_ahead_consumed:
  "look_ahead ls (desc, a, bal, n) = (desc', a', bal', n') \<Longrightarrow> n \<le> n'"
proof (induction ls arbitrary: desc a bal n)
  case Nil
  then show ?case by simp
next
  case (Cons l ls)
  show ?case
  proof (cases "n < 5")
    case False
    with Cons.prems show ?thesis by simp
  next
    case True
    with Cons.prems Cons.IH show ?thesis
      by (fastforce simp: Let_def split: if_splits)
  qed
qed

lemma lines_consumed_positive:
  "parse_tangerine_multiline_transaction lines start_idx page_num = (t, n) \<Longrightarrow> 1 \<le> n"
  unfolding parse_tangerine_multiline_transaction_def finish_multiline_def Let_def
  by (auto split: if_splits prod.splits option.splits dest: look_ahead_consumed)

text \<open>The loop \<open>while i < len(lines)\<close> of \<open>extract_transactions\<close>, with the flag
  \<open>in_transaction_section\<close>.\<close>

function tangerine_loop :: "nat \<Rightarrow> string list \<Rightarrow> bool \<Rightarrow> nat \<Rightarrow> tx list" where
  "tangerine_loop page_num lines in_transaction_section i =
     (if i < length lines
      then
        (let line = strip (lines ! i) in
         if (contains line ''Transaction Date'' \<and> contains line ''Transaction Description'')
            \<or> (contains line ''Transaction Date'' \<and> contains line ''Amount'')
         then tangerine_loop page_num lines True (i + 1)
         else if contains line ''Current Interest Rate'' \<or> contains line ''The Details -''
         then tangerine_loop page_num lines False (i + 1)
         else if in_transaction_section \<and> is_tangerine_transaction line
         then (case parse_tangerine_multiline_transaction lines i page_num of
                 (t, lines_consumed) \<Rightarrow>
                   (case t of None \<Rightarrow> [] | Some r \<Rightarrow> [r])
                   @ tangerine_loop page_num lines in_transaction_section (i + lines_consumed))
         else tangerine_loop page_num lines in_transaction_section (i + 1))
      else [])"
  by pat_completeness auto
termination
  by (relation "measure (\<lambda>(page_num, lines, sec, i). length lines - i)")
     (auto dest: lines_consumed_positive[OF sym])

declare tangerine_loop.simps [simp del]

definition tangerine_page :: "nat \<Rightarrow> string \<Rightarrow> tx list" where
  "tangerine_page page_num text = tangerine_loop page_num (split_lines text) False 0"

definition TangerineProcessor :: processor where
  "TangerineProcessor =
     \<lparr>bank_name = ''Tangerine'',
      can_process = (\<lambda>text filename.
         any_in [''www.tangerine.ca'', ''Orange Key'', ''Tangerine Savings''] text),
      extract_transactions = over_pages tangerine_page\<rparr>"

section \<open>More of Python's strings and patterns\<close>

text \<open>\<open>[A-Z]\<close>, \<open>[a-z]\<close> and \<open>\w\<close>.\<close>

definition rx_upper :: rx where "rx_upper = Ch (OneOf upper_chars)"
definition rx_lower :: rx where "rx_lower = Ch (OneOf lower_chars)"
definition rx_word :: rx where "rx_word = Ch (OneOf word_chars)"

text \<open>\<open>\$?\<close>, and the amounts \<open>[\d,]+\.\d{2}\<close> and \<open>[\d,]+\.?\d{2}\<close> as parts of longer
  patterns.\<close>

definition rx_opt_dollar :: rx where "rx_opt_dollar = rx_opt (rx_lit ''$'')"

definition rx_amount :: rx where
  "rx_amount = rx_seq [rx_amount_digits, rx_lit ''.'', rx_times 2 rx_digit]"

definition rx_amount_loose :: rx where
  "rx_amount_loose = rx_seq [rx_amount_digits, rx_opt (rx_lit ''.''), rx_times 2 rx_digit]"

text \<open>\<open>str.upper\<close> and \<open>str.isupper\<close>: a cased character, and none in lower case.\<close>

definition upper :: "string \<Rightarrow> string" where
  "upper s = map upper_char s"

definition isupper :: "string \<Rightarrow> bool" where
  "isupper s = (list_ex (\<lambda>c. c \<in> set upper_chars) s \<and> \<not> list_ex (\<lambda>c. c \<in> set lower_chars) s)"

text \<open>\<open>s[i:j]\<close> for integers \<open>i\<close> and \<open>j\<close>: an index below zero counts from the end, and
  both are cut to the length of the string.\<close>

definition slice :: "string \<Rightarrow> int \<Rightarrow> int \<Rightarrow> string" where
  "slice s i j =
     (let n = int (length s);
          lo = (if i < 0 then max (i + n) 0 else min i n);
          hi = (if j < 0 then max (j + n) 0 else min j n)
      in take (nat (hi - lo)) (drop (nat lo) s))"

text \<open>\<open>s.find(p)\<close> as Python's integer, -1 when \<open>p\<close> does not occur.\<close>

definition find_int :: "string \<Rightarrow> string \<Rightarrow> int" where
  "find_int s p = (case find_str s p of Some k \<Rightarrow> int k | None \<Rightarrow> - 1)"

text \<open>\<open>s.replace(old, new, 1)\<close>: the first occurrence only.\<close>

fun replace_first :: "string \<Rightarrow> string \<Rightarrow> string \<Rightarrow> string" where
  "replace_first [] old new = (if old = [] then new else [])"
| "replace_first (c # cs) old new =
     (if startswith (c # cs) old then new @ drop (length old) (c # cs)
      else c # replace_first cs old new)"

text \<open>\<open>s.rstrip(chars)\<close>.\<close>

definition rstrip_chars :: "string \<Rightarrow> string \<Rightarrow> string" where
  "rstrip_chars s chars = rev (dropWhile (\<lambda>c. c \<in> set chars) (rev s))"

text \<open>\<open>int(s)\<close> for a string of decimal digits; \<open>None\<close> is the \<open>ValueError\<close>. The strings
  that reach \<open>int\<close> in the source hold no sign, blank or underscore.\<close>

definition int_of_digits :: "string \<Rightarrow> int option" where
  "int_of_digits s = (if s \<noteq> [] \<and> list_all is_digit s then Some (digits_val 0 s) else None)"

text \<open>\<open>f"{n:02d}"\<close> for \<open>n \<ge> 0\<close>.\<close>

definition format_02d :: "int \<Rightarrow> string" where
  "format_02d n = (if n < 10 then CHR ''0'' # str_pos n else str_pos n)"

text \<open>The successive matches of \<open>re.findall\<close> and \<open>re.finditer\<close>, for a pattern with
  groups: each search starts where the match before it ended.\<close>

function finditer_from :: "rx \<Rightarrow> char option \<Rightarrow> nat \<Rightarrow> string \<Rightarrow> rmatched list" where
  "finditer_from r p i [] = (case first_match r p i [] of Some m \<Rightarrow> [m] | None \<Rightarrow> [])"
| "finditer_from r p i (c # cs) =
     (case first_match r p i (c # cs) of
        None \<Rightarrow> finditer_from r (Some c) (i + 1) cs
      | Some m \<Rightarrow>
          if whole m \<noteq> [] \<and> length (rest (final m)) < length (c # cs)
          then m # finditer_from r (prev (final m)) (i + length (whole m)) (rest (final m))
          else m # finditer_from r (Some c) (i + 1) cs)"
  by pat_completeness auto
termination
  by (relation "measure (\<lambda>(r, p, i, s). length s)") auto

definition re_finditer :: "rx \<Rightarrow> string \<Rightarrow> rmatched list" where
  "re_finditer r s = finditer_from r None 0 s"

text \<open>The month and day of a date text, looked up in \<open>month_map\<close>: the lines
  \<open>if month_abbr in month_map: return f"{month_map[month_abbr]}-{day}"\<close> that the date
  parsers of the extractors end with.\<close>

definition month_day :: "string \<Rightarrow> string \<Rightarrow> string option" where
  "month_day month_abbr day =
     (case map_of month_map month_abbr of
        Some month_num \<Rightarrow> Some (month_num @ ''-'' @ day)
      | None \<Rightarrow> None)"

text \<open>The loop over the lines of a page that the card and account extractors below share:
  a header line sets \<open>in_transaction_section\<close>, a line with a stop word clears it, both
  with \<open>continue\<close>; any other line is parsed when the extractor accepts it.\<close>

fun section_lines ::
  "(string \<Rightarrow> bool) \<Rightarrow> (string \<Rightarrow> bool) \<Rightarrow> (bool \<Rightarrow> string \<Rightarrow> bool) \<Rightarrow> (string \<Rightarrow> tx option) \<Rightarrow>
   bool \<Rightarrow> string list \<Rightarrow> tx list" where
  "section_lines header stop accept parse in_transaction_section [] = []"
| "section_lines header stop accept parse in_transaction_section (l # ls) =
     (let line = strip l in
      if header line then section_lines header stop accept parse True ls
      else if stop line then section_lines header stop accept parse False ls
      else (if accept in_transaction_section line
            then (case parse line of None \<Rightarrow> [] | Some t \<Rightarrow> [t])
            else [])
           @ section_lines header stop accept parse in_transaction_section ls)"

text \<open>The loop without a section: every line that the extractor accepts is parsed.\<close>

definition plain_lines :: "(string \<Rightarrow> bool) \<Rightarrow> (string \<Rightarrow> tx option) \<Rightarrow> string \<Rightarrow> tx list" where
  "plain_lines accept parse text =
     concat (map (\<lambda>l. let line = strip l in
                        if accept line then (case parse line of None \<Rightarrow> [] | Some t \<Rightarrow> [t])
                        else [])
               (split_lines text))"

section \<open>RBC Visa, Amex and the Scotia credit card: records without a classification\<close>

text \<open>The source defines the class \<open>RBCVisaProcessor\<close> twice, with the same text; the
  second definition is the one in force at \<open>SmartDocumentProcessor.__init__\<close>.
  Its patterns are \<open>^[A-Z]{3}\d{2}\s+[A-Z]{3}\d{2}\<close> and
  \<open>^([A-Z]{3}\d{2})\s+([A-Z]{3}\d{2})\s+(.*?)\s+\$?([\d,]+\.?\d{2})$\<close>.\<close>

definition rbc_visa_date :: rx where
  "rbc_visa_date = rx_seq [rx_times 3 rx_upper, rx_times 2 rx_digit]"

definition rbc_visa_start_pattern :: rx where
  "rbc_visa_start_pattern = rx_seq [Bol, rbc_visa_date, rx_plus rx_space, rbc_visa_date]"

definition is_rbc_visa_transaction :: "string \<Rightarrow> bool" where
  "is_rbc_visa_transaction line = (re_match rbc_visa_start_pattern line \<noteq> None)"

definition rbc_visa_line_pattern :: rx where
  "rbc_visa_line_pattern =
     rx_seq [Bol, Grp 1 rbc_visa_date, rx_plus rx_space, Grp 2 rbc_visa_date, rx_plus rx_space,
             Grp 3 (rx_star_lazy rx_any), rx_plus rx_space, rx_opt_dollar,
             Grp 4 rx_amount_loose, Eol]"

definition parse_rbc_visa_transaction :: "string \<Rightarrow> nat \<Rightarrow> tx option" where
  "parse_rbc_visa_transaction line page_num =
     (case re_match rbc_visa_line_pattern line of
        None \<Rightarrow> None
      | Some m \<Rightarrow>
          let trans_date = clean_date (grp m 1);
              post_date = clean_date (grp m 2);
              desc = strip (grp m 3);
              a = clean_amount (grp m 4)
          in Some ((new_tx trans_date desc a page_num ''RBC Visa'' 0.9)
                     \<lparr>posting_date := Some post_date\<rparr>))"

definition rbc_visa_page :: "nat \<Rightarrow> string \<Rightarrow> tx list" where
  "rbc_visa_page page_num text =
     plain_lines is_rbc_visa_transaction (\<lambda>line. parse_rbc_visa_transaction line page_num) text"

text \<open>Amex: \<open>^[A-Za-z]{3,9}\d{1,2}\s+[A-Z]\<close>,
  \<open>^([A-Za-z]{3,9}\d{1,2})\s+(.*?)\s+([\d,]+\.?\d{2})$\<close> and, for the date,
  \<open>([A-Za-z]{3,9})(\d{1,2})\<close>.\<close>

definition amex_start_pattern :: rx where
  "amex_start_pattern =
     rx_seq [Bol, rx_between 3 9 rx_alpha, rx_between 1 2 rx_digit, rx_plus rx_space, rx_upper]"

definition is_amex_transaction :: "string \<Rightarrow> bool" where
  "is_amex_transaction line = (re_match amex_start_pattern line \<noteq> None)"

definition amex_line_pattern :: rx where
  "amex_line_pattern =
     rx_seq [Bol, Grp 1 (rx_seq [rx_between 3 9 rx_alpha, rx_between 1 2 rx_digit]),
             rx_plus rx_space, Grp 2 (rx_star_lazy rx_any), rx_plus rx_space,
             Grp 3 rx_amount_loose, Eol]"

definition amex_date_pattern :: rx where
  "amex_date_pattern = rx_seq [Grp 1 (rx_between 3 9 rx_alpha), Grp 2 (rx_between 1 2 rx_digit)]"

text \<open>The \<open>month_map\<close> of \<open>_parse_amex_date\<close>, in the order of the dictionary, which is
  the order its loop tries the names in.\<close>

definition amex_month_map :: "(string \<times> string) list" where
  "amex_month_map =
     [(''january'', ''01''), (''february'', ''02''), (''march'', ''03''), (''april'', ''04''),
      (''may'', ''05''), (''june'', ''06''), (''july'', ''07''), (''august'', ''08''),
      (''september'', ''09''), (''october'', ''10''), (''november'', ''11''),
      (''december'', ''12'')]"

definition parse_amex_date :: "string \<Rightarrow> string" where
  "parse_amex_date date_str =
     (case re_match amex_date_pattern date_str of
        None \<Rightarrow> ''01-01''
      | Some m \<Rightarrow>
          let month_name = lower (grp m 1);
              day = zfill2 (grp m 2)
          in case List.find (\<lambda>(full_month, month_num). startswith full_month (lower month_name))
                    amex_month_map of
               Some (full_month, month_num) \<Rightarrow> month_num @ ''-'' @ day
             | None \<Rightarrow> ''01-01'')"

definition parse_amex_transaction :: "string \<Rightarrow> nat \<Rightarrow> tx option" where
  "parse_amex_transaction line page_num =
     (case re_match amex_line_pattern line of
        None \<Rightarrow> None
      | Some m \<Rightarrow>
          let raw_date = grp m 1;
              d = parse_amex_date raw_date;
              desc = strip (grp m 2);
              a = clean_amount (grp m 3)
          in if any_in [''total'', ''balance'', ''payment''] (lower desc) then None
             else Some (new_tx d desc a page_num ''Amex'' 0.85))"

definition amex_page :: "nat \<Rightarrow> string \<Rightarrow> tx list" where
  "amex_page page_num text =
     plain_lines is_amex_transaction (\<lambda>line. parse_amex_transaction line page_num) text"

text \<open>The Scotia credit card: \<open>\$?[\d,]+\.\d{2}\<close> (with the digits as group 1 where the
  amount is read), \<open>\w{3}[-\s]\d{1,2}\<close>, \<open>\b\d{3}\b\s*\<close> and, for the date,
  \<open>([a-zA-Z]{3})[-\s](\d{1,2})\<close>.\<close>

definition dollar_amount_pattern :: rx where
  "dollar_amount_pattern = rx_seq [rx_opt_dollar, Grp 1 rx_amount]"

definition scotia_date_pattern :: rx where
  "scotia_date_pattern =
     Grp 1 (rx_seq [rx_times 3 rx_word, Ch (OneOf (''-'' @ space_chars)), rx_between 1 2 rx_digit])"

definition scotia_number_pattern :: rx where
  "scotia_number_pattern = rx_seq [Wb, rx_times 3 rx_digit, Wb, rx_star rx_space]"

definition scotia_month_day_pattern :: rx where
  "scotia_month_day_pattern =
     rx_seq [Grp 1 (rx_times 3 rx_alpha), Ch (OneOf (''-'' @ space_chars)),
             Grp 2 (rx_between 1 2 rx_digit)]"

definition is_scotia_transaction :: "string \<Rightarrow> bool" where
  "is_scotia_transaction line =
     (if any_in [''beginning points'', ''points earned'', ''total'', ''balance'', ''statement'',
                 ''account'', ''summary'', ''payment due'', ''payments/credits'',
                 ''purchases/charges'', ''based on your'', ''rewards points'',
                 ''eligible purchases'', ''credit limit''] (lower line)
      then False
      else
        let has_amount = (re_search dollar_amount_pattern line \<noteq> None);
            has_date = (re_search scotia_date_pattern line \<noteq> None)
        in has_amount \<and> has_date \<and> length line > 15)"

definition parse_scotia_date :: "string \<Rightarrow> string" where
  "parse_scotia_date date_str =
     (case re_match scotia_month_day_pattern (lower date_str) of
        None \<Rightarrow> ''Unknown''
      | Some m \<Rightarrow>
          let month_abbr = grp m 1;
              day = zfill2 (grp m 2)
          in case month_day month_abbr day of Some d \<Rightarrow> d | None \<Rightarrow> ''Unknown'')"

definition parse_scotia_transaction :: "string \<Rightarrow> nat \<Rightarrow> tx option" where
  "parse_scotia_transaction line page_num =
     (case re_search dollar_amount_pattern line of
        None \<Rightarrow> None
      | Some amount_match \<Rightarrow>
          let a = clean_amount (grp amount_match 1);
              amount_start = mstart amount_match;
              desc0 = strip (take amount_start line);
              (d, desc1) =
                 (case re_search scotia_date_pattern desc0 of
                    Some date_match \<Rightarrow>
                      (parse_scotia_date (grp date_match 1),
                       strip (replace desc0 (grp date_match 1) []))
                  | None \<Rightarrow> (''Unknown'', desc0));
              desc = strip (re_sub_empty scotia_number_pattern desc1)
          in if length desc < 3 then None
             else Some (new_tx d desc a page_num ''Scotia Credit Card'' 0.8))"

definition scotia_page :: "nat \<Rightarrow> string \<Rightarrow> tx list" where
  "scotia_page page_num text =
     plain_lines is_scotia_transaction (\<lambda>line. parse_scotia_transaction line page_num) text"

section \<open>Scotiabank accounts\<close>

text \<open>\<open>(Dec|Jan|Feb|Mar|Apr|May|Jun|Jul|Aug|Sep|Oct|Nov)(\d{1,2})\<close>, the same anchored and
  followed by blanks, \<open>^(Dec|Jan|...|Nov)\d{1,2}\s*\<close>, and \<open>([a-zA-Z]{3})(\d{1,2})\<close>.\<close>

definition scotia_bank_months :: rx where
  "scotia_bank_months =
     rx_alts (map rx_lit [''Dec'', ''Jan'', ''Feb'', ''Mar'', ''Apr'', ''May'', ''Jun'', ''Jul'',
                          ''Aug'', ''Sep'', ''Oct'', ''Nov''])"

definition scotia_bank_date_pattern :: rx where
  "scotia_bank_date_pattern = rx_seq [Grp 1 scotia_bank_months, Grp 2 (rx_between 1 2 rx_digit)]"

definition scotia_bank_prefix_pattern :: rx where
  "scotia_bank_prefix_pattern =
     rx_seq [Bol, Grp 1 scotia_bank_months, rx_between 1 2 rx_digit, rx_star rx_space]"

definition scotia_bank_month_day_pattern :: rx where
  "scotia_bank_month_day_pattern =
     rx_seq [Grp 1 (rx_times 3 rx_alpha), Grp 2 (rx_between 1 2 rx_digit)]"

definition parse_scotia_bank_date :: "string \<Rightarrow> string" where
  "parse_scotia_bank_date date_str =
     (case re_match scotia_bank_month_day_pattern (lower date_str) of
        None \<Rightarrow> ''Unknown''
      | Some m \<Rightarrow>
          let month_abbr = grp m 1;
              day = zfill2 (grp m 2)
          in case month_day month_abbr day of Some d \<Rightarrow> d | None \<Rightarrow> ''Unknown'')"

definition is_scotia_bank_transaction :: "string \<Rightarrow> bool" where
  "is_scotia_bank_transaction line =
     (if any_in [''opening balance'', ''closing balance'', ''minus total withdrawals'',
                 ''plus total deposits'', ''plustotal deposits'', ''minustotal withdrawals'',
                 ''balance brought forward'', ''your basic banking account summary'']
           (lower line)
      then False
      else
        let has_bank_pattern =
              any_in [''mb-billpayment'', ''mb-transfer'', ''withdrawal'', ''deposit'',
                      ''fees/dues'', ''servicecharge'', ''point of salepurchase'',
                      ''debit memo'', ''mutual funds'', ''error correction'', ''ei canada'']
                (lower line);
            has_amount = (re_search dollar_amount_pattern line \<noteq> None)
        in has_bank_pattern \<and> has_amount \<and> length line > 10)"

definition parse_scotia_bank_transaction :: "string \<Rightarrow> string option \<Rightarrow> nat \<Rightarrow> tx option" where
  "parse_scotia_bank_transaction line current_date page_num =
     (case re_search dollar_amount_pattern line of
        None \<Rightarrow> None
      | Some amount_match \<Rightarrow>
          let a = clean_amount (grp amount_match 1);
              amount_start = mstart amount_match;
              desc0 = strip (take amount_start line);
              d = (case current_date of
                     None \<Rightarrow> ''Unknown''
                   | Some cd \<Rightarrow> if cd \<noteq> [] then cd else ''Unknown'');
              desc = strip (re_sub_empty scotia_bank_prefix_pattern desc0)
          in if length desc < 3 then None
             else
               let description_lower = lower desc;
                   (ttype, spending) =
                     (if any_in [''deposit'', ''transfer from'', ''interest'', ''credit'',
                                 ''refund''] description_lower
                      then (''credit'', False)
                      else (''debit'', True))
               in Some ((new_tx d desc a page_num ''Scotiabank'' 0.85)
                          \<lparr>transaction_type := Some ttype, is_spending := Some spending,
                           abs_amount := Some \<bar>a\<bar>,
                           processing_method := Some ''scotiabank_processor'',
                           confidence_level := Some ''medium''\<rparr>))"

text \<open>One turn of the loop over the lines of a page: the date carried after the line
  and the records the line adds.\<close>

definition scotia_bank_line :: "nat \<Rightarrow> string option \<Rightarrow> string \<Rightarrow> string option \<times> tx list" where
  "scotia_bank_line page_num current_date l =
     (let line = strip l;
          next_date =
            (case re_search scotia_bank_date_pattern line of
               Some date_match \<Rightarrow>
                 (let month_abbr = grp date_match 1;
                      day = zfill2 (grp date_match 2)
                  in Some (parse_scotia_bank_date (month_abbr @ day)))
             | None \<Rightarrow> current_date)
      in (next_date,
          if is_scotia_bank_transaction line
          then (case parse_scotia_bank_transaction line next_date page_num of
                  None \<Rightarrow> [] | Some t \<Rightarrow> [t])
          else []))"

fun scotia_bank_lines :: "nat \<Rightarrow> string option \<Rightarrow> string list \<Rightarrow> tx list" where
  "scotia_bank_lines page_num current_date [] = []"
| "scotia_bank_lines page_num current_date (l # ls) =
     (case scotia_bank_line page_num current_date l of
        (next_date, found) \<Rightarrow> found @ scotia_bank_lines page_num next_date ls)"

definition scotia_bank_page :: "nat \<Rightarrow> string \<Rightarrow> tx list" where
  "scotia_bank_page page_num text = scotia_bank_lines page_num None (split_lines text)"

section \<open>Wise: the statement period\<close>

text \<open>\<open>Date:\s*(\w+\s+\d+,\s+\d+)\s+to\s+(\w+\s+\d+,\s+\d+)\<close>, \<open>\$[\d,]+\.\d{2}\<close> and
  \<open>(.*?)\s+\$?([\d,]+\.\d{2})$\<close>.\<close>

definition wise_day :: rx where
  "wise_day =
     rx_seq [rx_plus rx_word, rx_plus rx_space, rx_plus rx_digit, rx_lit '','', rx_plus rx_space,
             rx_plus rx_digit]"

definition wise_period_pattern :: rx where
  "wise_period_pattern =
     rx_seq [rx_lit ''Date:'', rx_star rx_space, Grp 1 wise_day, rx_plus rx_space, rx_lit ''to'',
             rx_plus rx_space, Grp 2 wise_day]"

definition wise_amount_pattern :: rx where
  "wise_amount_pattern = rx_seq [rx_lit ''$'', rx_amount]"

definition wise_line_pattern :: rx where
  "wise_line_pattern =
     rx_seq [Grp 1 (rx_star_lazy rx_any), rx_plus rx_space, rx_opt_dollar, Grp 2 rx_amount, Eol]"

text \<open>\<open>_extract_statement_period\<close>: the end of the period, read with the format
  \<open>"%b %d, %Y"\<close>; \<open>None\<close> when the line has no period.\<close>

definition extract_statement_period :: "string \<Rightarrow> string option" where
  "extract_statement_period line =
     (case re_search wise_period_pattern line of
        None \<Rightarrow> None
      | Some m \<Rightarrow>
          let end_date = grp m 2
          in case strptime [Pb, Blank, Pd, Lt CHR '','', Blank, PY] end_date of
               Some date_obj \<Rightarrow> Some (strftime_md date_obj)
             | None \<Rightarrow> Some ''03-23'')"

definition is_wise_transaction :: "string \<Rightarrow> bool" where
  "is_wise_transaction line =
     (let has_amount = (re_search wise_amount_pattern line \<noteq> None) in
      if \<not> has_amount then False
      else if any_in [''total balance'', ''statement'', ''xxxx-xxxx'', ''as of''] (lower line)
      then False
      else any_in [''card payments'', ''moneysent'', ''top up'', ''topup'', ''atm withdrawals'',
                   ''exchange in'', ''exchange out'', ''revolut fees'', ''payment'',
                   ''withdrawal''] (lower line))"

definition parse_wise_transaction :: "string \<Rightarrow> nat \<Rightarrow> string option \<Rightarrow> tx option" where
  "parse_wise_transaction line page_num statement_period =
     (case re_match wise_line_pattern line of
        None \<Rightarrow> None
      | Some m \<Rightarrow>
          let desc = strip (grp m 1);
              a = clean_amount (grp m 2)
          in if a = 0 then None
             else
               let d = (case statement_period of
                          None \<Rightarrow> ''03-23''
                        | Some sp \<Rightarrow> if sp \<noteq> [] then sp else ''03-23'')
               in Some ((new_tx d desc a page_num ''Wise'' 0.8)
                          \<lparr>note_value := Some ''category_summary''\<rparr>))"

text \<open>The first loop over the lines of a page: the first line with "Date:" and "to"
  sets \<open>statement_period\<close>, also to \<open>None\<close>, and ends the loop.\<close>

fun wise_period :: "string list \<Rightarrow> string option \<Rightarrow> string option" where
  "wise_period [] statement_period = statement_period"
| "wise_period (line # ls) statement_period =
     (if contains line ''Date:'' \<and> contains line ''to'' then extract_statement_period line
      else wise_period ls statement_period)"

text \<open>The loop over the pages: \<open>statement_period\<close> is set before it and lives through
  it.\<close>

fun wise_pages :: "nat \<Rightarrow> string option \<Rightarrow> string option list \<Rightarrow> tx list" where
  "wise_pages page_num statement_period [] = []"
| "wise_pages page_num statement_period (p # ps) =
     (case p of
        None \<Rightarrow> wise_pages (page_num + 1) statement_period ps
      | Some text \<Rightarrow>
          if text = [] then wise_pages (page_num + 1) statement_period ps
          else
            let lines = split_lines text;
                period = wise_period lines statement_period
            in plain_lines is_wise_transaction
                 (\<lambda>line. parse_wise_transaction line page_num period) text
               @ wise_pages (page_num + 1) period ps)"

definition wise_extract_transactions :: "pdf_file \<Rightarrow> tx list" where
  "wise_extract_transactions f =
     (case content f of None \<Rightarrow> [] | Some pages \<Rightarrow> wise_pages 1 None pages)"

section \<open>Cards classified by the sign of the amount\<close>

subsection \<open>Simplii\<close>

text \<open>\<open>^[A-Za-z]{3}\s+\d{1,2}\s+[A-Za-z]{3}\s+\d{1,2}\s+\<close>,
  \<open>(\d{1,3}(?:,\d{3})*\.\d{2})$\<close> and \<open>([A-Za-z]{3})\s+(\d{1,2})\<close>.\<close>

definition simplii_start_pattern :: rx where
  "simplii_start_pattern =
     rx_seq [Bol, rx_times 3 rx_alpha, rx_plus rx_space, rx_between 1 2 rx_digit, rx_plus rx_space,
             rx_times 3 rx_alpha, rx_plus rx_space, rx_between 1 2 rx_digit, rx_plus rx_space]"

definition simplii_amount_pattern :: rx where
  "simplii_amount_pattern =
     rx_seq [Grp 1 (rx_seq [rx_between 1 3 rx_digit,
                            rx_star (rx_seq [rx_lit '','', rx_times 3 rx_digit]),
                            rx_lit ''.'', rx_times 2 rx_digit]),
             Eol]"

definition simplii_date_pattern :: rx where
  "simplii_date_pattern =
     rx_seq [Grp 1 (rx_times 3 rx_alpha), rx_plus rx_space, Grp 2 (rx_between 1 2 rx_digit)]"

definition is_simplii_transaction :: "string \<Rightarrow> bool" where
  "is_simplii_transaction line =
     (if any_in [''card number'', ''total for'', ''total payments'', ''your payments'',
                 ''spend categories'', ''description'', ''amount($)'', ''identifies cash back'']
           (lower line)
      then False
      else
        let has_date_pattern = (re_match simplii_start_pattern line \<noteq> None);
            has_amount = (re_search simplii_amount_pattern line \<noteq> None)
        in has_date_pattern \<and> has_amount \<and> length line > 20)"

definition parse_simplii_date :: "string \<Rightarrow> string" where
  "parse_simplii_date date_str =
     (let parts = split_ws date_str in
      if length parts \<ge> 2
      then (let month_abbr = lower (parts ! 0);
                day = zfill2 (parts ! 1)
            in case month_day month_abbr day of Some d \<Rightarrow> d | None \<Rightarrow> ''Unknown'')
      else ''Unknown'')"

text \<open>The words of the description before the first category word.\<close>

definition simplii_clean_description :: "string \<Rightarrow> string" where
  "simplii_clean_description desc =
     (if any_in [''Hotel, Entertainment'', ''Personal and Household'', ''Home and Office''] desc
      then
        (let parts = split_ws desc;
             clean_parts =
               takeWhile (\<lambda>part. part \<notin> set [''Hotel,'', ''Personal'', ''Home'', ''Entertainment'',
                                              ''Household'', ''Office'', ''BC'', ''ON'']) parts
         in if clean_parts \<noteq> [] then join_sp clean_parts else desc)
      else desc)"

definition parse_simplii_transaction :: "string \<Rightarrow> nat \<Rightarrow> tx option" where
  "parse_simplii_transaction line page_num =
     (let date_matches = re_finditer simplii_date_pattern line in
      if length date_matches < 2 then None
      else
        let trans_date = grp (date_matches ! 0) 1 @ '' '' @ grp (date_matches ! 0) 2;
            post_date = grp (date_matches ! 1) 1 @ '' '' @ grp (date_matches ! 1) 2
        in case re_search simplii_amount_pattern line of
             None \<Rightarrow> None
           | Some amount_match \<Rightarrow>
               let a = clean_amount (grp amount_match 1);
                   desc_start = find_int line post_date + int (length post_date);
                   desc_end = int (mstart amount_match);
                   desc = simplii_clean_description (strip (slice line desc_start desc_end));
                   parsed_trans_date = parse_simplii_date trans_date
               in Some ((new_tx parsed_trans_date desc a page_num ''Simplii'' 0.9)
                          \<lparr>posting_date := Some (parse_simplii_date post_date),
                           transaction_type := Some (if a > 0 then ''debit'' else ''credit''),
                           is_spending := Some (a > 0),
                           abs_amount := Some \<bar>a\<bar>,
                           processing_method := Some ''simplii_processor'',
                           confidence_level := Some ''high''\<rparr>))"

definition simplii_page :: "nat \<Rightarrow> string \<Rightarrow> tx list" where
  "simplii_page page_num text =
     section_lines
       (\<lambda>line. (contains line ''Trans'' \<and> contains line ''Post'' \<and> contains line ''date'')
                \<or> (contains line ''Card number'' \<and> contains line ''XXXX''))
       (\<lambda>line. any_in [''total for'', ''total payments'', ''page'', ''information about'']
                  (lower line))
       (\<lambda>in_transaction_section line. in_transaction_section \<and> is_simplii_transaction line)
       (\<lambda>line. parse_simplii_transaction line page_num)
       False (split_lines text)"

subsection \<open>The TD credit card\<close>

text \<open>\<open>^[A-Z]{3}\s*\d{1,2}\s+[A-Z]{3}\s*\d{1,2}\<close>, \<open>-?\$[\d,]+\.\d{2}\<close>,
  \<open>^([A-Z]{3}\s*\d{1,2})\s+([A-Z]{3}\s*\d{1,2})\s+(.*?)\s+(-?\$?[\d,]+\.\d{2})\<close> and
  \<open>^([A-Z]{3})(\d{1,2})$\<close>.\<close>

definition td_credit_date :: rx where
  "td_credit_date = rx_seq [rx_times 3 rx_upper, rx_star rx_space, rx_between 1 2 rx_digit]"

definition td_credit_start_pattern :: rx where
  "td_credit_start_pattern = rx_seq [Bol, td_credit_date, rx_plus rx_space, td_credit_date]"

definition signed_dollar_amount_pattern :: rx where
  "signed_dollar_amount_pattern = rx_seq [rx_opt (rx_lit ''-''), rx_lit ''$'', rx_amount]"

definition td_credit_line_pattern :: rx where
  "td_credit_line_pattern =
     rx_seq [Bol, Grp 1 td_credit_date, rx_plus rx_space, Grp 2 td_credit_date, rx_plus rx_space,
             Grp 3 (rx_star_lazy rx_any), rx_plus rx_space,
             Grp 4 (rx_seq [rx_opt (rx_lit ''-''), rx_opt_dollar, rx_amount])]"

definition td_credit_month_day_pattern :: rx where
  "td_credit_month_day_pattern =
     rx_seq [Bol, Grp 1 (rx_times 3 rx_upper), Grp 2 (rx_between 1 2 rx_digit), Eol]"

definition is_td_credit_transaction :: "string \<Rightarrow> bool" where
  "is_td_credit_transaction line =
     (if any_in [''previous statement'', ''activity description'', ''amount'', ''date'',
                 ''continued'', ''net amount'', ''total'', ''balance'', ''payment'',
                 ''foreign currency'', ''@exchange rate''] (lower line)
      then False
      else
        let has_dual_date = (re_search td_credit_start_pattern line \<noteq> None);
            has_amount = (re_search signed_dollar_amount_pattern line \<noteq> None)
        in has_dual_date \<and> has_amount \<and> length line > 15)"

text \<open>\<open>_parse_td_credit_date\<close>: "FEB 26" first, by its two words; "FEB26" next, by the
  pattern. A first word that is no month leaves the second way open.\<close>

definition parse_td_credit_date :: "string \<Rightarrow> string" where
  "parse_td_credit_date date_str0 =
     (let date_str = strip date_str0;
          parts = split_ws date_str;
          spaced = (if length parts \<ge> 2
                    then month_day (lower (parts ! 0)) (zfill2 (parts ! 1))
                    else None)
      in case spaced of
           Some d \<Rightarrow> d
         | None \<Rightarrow>
             (case re_match td_credit_month_day_pattern (upper date_str) of
                None \<Rightarrow> ''Unknown''
              | Some m \<Rightarrow>
                  (case month_day (lower (grp m 1)) (zfill2 (grp m 2)) of
                     Some d \<Rightarrow> d
                   | None \<Rightarrow> ''Unknown'')))"

definition parse_td_credit_transaction :: "string \<Rightarrow> nat \<Rightarrow> tx option" where
  "parse_td_credit_transaction line page_num =
     (case re_search td_credit_line_pattern line of
        None \<Rightarrow> None
      | Some m \<Rightarrow>
          let trans_date = grp m 1;
              post_date = grp m 2;
              desc = strip (grp m 3);
              a = clean_amount (grp m 4);
              parsed_trans_date = parse_td_credit_date trans_date;
              parsed_post_date = parse_td_credit_date post_date
          in if parsed_trans_date = ''Unknown'' then None
             else Some ((new_tx parsed_trans_date desc a page_num ''TD Credit Card'' 0.9)
                          \<lparr>posting_date := Some parsed_post_date,
                           transaction_type := Some (if a > 0 then ''debit'' else ''credit''),
                           is_spending := Some (a > 0),
                           abs_amount := Some \<bar>a\<bar>,
                           processing_method := Some ''td_credit_card_processor'',
                           confidence_level := Some ''high''\<rparr>))"

definition td_credit_page :: "nat \<Rightarrow> string \<Rightarrow> tx list" where
  "td_credit_page page_num text =
     section_lines
       (\<lambda>line. contains line ''ACTIVITY DESCRIPTION'' \<or> contains line ''TRANSACTIO'')
       (\<lambda>line. any_in [''NET AMOUNT OF MONTHLY'', ''TOTAL NEW BALANCE'',
                        ''CALCULATING YOUR BALANCE'', ''PAYMENT INFORMATION''] line)
       (\<lambda>in_transaction_section line. in_transaction_section \<and> is_td_credit_transaction line)
       (\<lambda>line. parse_td_credit_transaction line page_num)
       False (split_lines text)"

subsection \<open>The Tangerine credit card\<close>

text \<open>The patterns of this extractor hold an en dash, which is outside ASCII; the
  character 0x96 stands for it here. The text of a statement, ASCII in this model, never
  holds it.\<close>

definition en_dash :: string where
  "en_dash = [CHR 0x96]"

text \<open>\<open>\d{2}-[A-Z][a-z]{2}-\d{4}\<close>, twice with blanks between for the test, and
  \<open>(\d{2}-[A-Z][a-z]{2}-\d{4})\s+(\d{2}-[A-Z][a-z]{2}-\d{4})\s+(.*?)\s+(-?\$?[\d,]+\.\d{2})\<close>
  followed by the optional \<open>(?:\s+\$?([\d,]+\.\d{2}|D))?\<close>, where \<open>D\<close> is the en dash; \<open>\s+(QC|ON|BC|AB|MB|SK|NB|NS|PE|NL)(\s|$)\<close>.\<close>

definition tangerine_credit_date :: rx where
  "tangerine_credit_date =
     rx_seq [rx_times 2 rx_digit, rx_lit ''-'', rx_upper, rx_times 2 rx_lower, rx_lit ''-'',
             rx_times 4 rx_digit]"

definition tangerine_credit_dates_pattern :: rx where
  "tangerine_credit_dates_pattern =
     rx_seq [tangerine_credit_date, rx_plus rx_space, tangerine_credit_date]"

definition tangerine_credit_line_pattern :: rx where
  "tangerine_credit_line_pattern =
     rx_seq [Grp 1 tangerine_credit_date, rx_plus rx_space, Grp 2 tangerine_credit_date,
             rx_plus rx_space, Grp 3 (rx_star_lazy rx_any), rx_plus rx_space,
             Grp 4 (rx_seq [rx_opt (rx_lit ''-''), rx_opt_dollar, rx_amount]),
             rx_opt (rx_seq [rx_plus rx_space, rx_opt_dollar,
                             Grp 5 (Alt rx_amount (rx_lit en_dash))])]"

definition province_pattern :: rx where
  "province_pattern =
     rx_seq [rx_plus rx_space,
             Grp 1 (rx_alts (map rx_lit [''QC'', ''ON'', ''BC'', ''AB'', ''MB'', ''SK'', ''NB'',
                                         ''NS'', ''PE'', ''NL''])),
             Grp 2 (Alt rx_space Eol)]"

definition is_tangerine_credit_transaction :: "string \<Rightarrow> bool" where
  "is_tangerine_credit_transaction line =
     (if any_in [''transaction posted'', ''description'', ''category'', ''amount'', ''reward'',
                 ''previous balance'', ''your chosen'', ''currently earning'', ''money-back'',
                 ''purchases'', ''cash advances'', ''quebec''] (lower line)
      then False
      else
        let has_dual_date = (re_search tangerine_credit_dates_pattern line \<noteq> None);
            has_amount = (re_search signed_dollar_amount_pattern line \<noteq> None)
        in has_dual_date \<and> has_amount \<and> length line > 25)"

definition parse_tangerine_credit_date :: "string \<Rightarrow> string" where
  "parse_tangerine_credit_date date_str =
     (let parts = split_on (CHR ''-'') date_str in
      if length parts \<ge> 3
      then (let day = zfill2 (parts ! 0);
                month_abbr = lower (parts ! 1)
            in case month_day month_abbr day of Some d \<Rightarrow> d | None \<Rightarrow> ''Unknown'')
      else ''Unknown'')"

definition parse_tangerine_credit_transaction :: "string \<Rightarrow> nat \<Rightarrow> tx option" where
  "parse_tangerine_credit_transaction line page_num =
     (case re_search tangerine_credit_line_pattern line of
        None \<Rightarrow> None
      | Some m \<Rightarrow>
          let trans_date = grp m 1;
              post_date = grp m 2;
              desc0 = strip (grp m 3);
              a = clean_amount (grp m 4);
              reward = (case mgroup m 5 of
                          Some g \<Rightarrow> if g \<noteq> [] \<and> g \<noteq> en_dash then g else ''0.00''
                        | None \<Rightarrow> ''0.00'');
              parsed_trans_date = parse_tangerine_credit_date trans_date;
              parsed_post_date = parse_tangerine_credit_date post_date
          in if parsed_trans_date = ''Unknown'' then None
             else
               let desc = join_sp (split_ws (re_sub_empty province_pattern desc0))
               in Some ((new_tx parsed_trans_date desc a page_num ''Tangerine Credit Card'' 0.9)
                          \<lparr>posting_date := Some parsed_post_date,
                           reward_earned :=
                             Some (if reward \<noteq> ''0.00'' then clean_amount reward else 0),
                           transaction_type := Some (if a > 0 then ''debit'' else ''credit''),
                           is_spending := Some (a > 0),
                           abs_amount := Some \<bar>a\<bar>,
                           processing_method := Some ''tangerine_credit_card_processor'',
                           confidence_level := Some ''high''\<rparr>))"

text \<open>The flag \<open>in_transaction_section\<close> is set and cleared by the loop, and the test
  before parsing does not read it.\<close>

definition tangerine_credit_page :: "nat \<Rightarrow> string \<Rightarrow> tx list" where
  "tangerine_credit_page page_num text =
     section_lines
       (\<lambda>line. contains line ''Transaction Posted Description Category Amount Reward'')
       (\<lambda>line. any_in [''Tangerine.ca:'', ''Minimum Payment:'', ''Transaction/Posting Date'',
                        ''Interest and Grace Period'', ''Foreign Currency Transactions''] line)
       (\<lambda>in_transaction_section line. is_tangerine_credit_transaction line)
       (\<lambda>line. parse_tangerine_credit_transaction line page_num)
       False (split_lines text)"

subsection \<open>The CIBC Visa card\<close>

text \<open>\<open>^[A-Z]{3}\s+\d{1,2}\s+[A-Z]{3}\s+\d{1,2}\<close>, \<open>[\d,]+\.\d{2}$\<close>,
  \<open>^([A-Z]{3}\s+\d{1,2})\s+([A-Z]{3}\s+\d{1,2})\s+(.*?)\s+([\d,]+\.\d{2})$\<close> and
  \<open>^([\d,]+\.\d{2})\s+CAD\s+@\s+([\d.]+)\<close>.\<close>

definition cibc_visa_date :: rx where
  "cibc_visa_date = rx_seq [rx_times 3 rx_upper, rx_plus rx_space, rx_between 1 2 rx_digit]"

definition cibc_visa_start_pattern :: rx where
  "cibc_visa_start_pattern = rx_seq [Bol, cibc_visa_date, rx_plus rx_space, cibc_visa_date]"

definition amount_end_pattern :: rx where
  "amount_end_pattern = rx_seq [rx_amount, Eol]"

definition cibc_visa_line_pattern :: rx where
  "cibc_visa_line_pattern =
     rx_seq [Bol, Grp 1 cibc_visa_date, rx_plus rx_space, Grp 2 cibc_visa_date, rx_plus rx_space,
             Grp 3 (rx_star_lazy rx_any), rx_plus rx_space, Grp 4 rx_amount, Eol]"

definition exchange_pattern :: rx where
  "exchange_pattern =
     rx_seq [Bol, Grp 1 rx_amount, rx_plus rx_space, rx_lit ''CAD'', rx_plus rx_space, rx_lit ''@'',
             rx_plus rx_space, Grp 2 (rx_plus (Ch (OneOf (digit_chars @ ''.''))))]"

definition is_cibc_visa_transaction :: "string \<Rightarrow> bool" where
  "is_cibc_visa_transaction line =
     (if any_in [''trans post'', ''date date'', ''description'', ''amount'', ''card number'',
                 ''prepared for'', ''account number'', ''information about''] (lower line)
      then False
      else
        let has_dual_date = (re_search cibc_visa_start_pattern line \<noteq> None);
            has_amount = (re_search amount_end_pattern line \<noteq> None)
        in has_dual_date \<and> has_amount \<and> length line > 20)"

definition parse_cibc_visa_date :: "string \<Rightarrow> string" where
  "parse_cibc_visa_date date_str =
     (let parts = split_ws (strip date_str) in
      if length parts \<ge> 2
      then (let month_abbr = lower (parts ! 0);
                day = zfill2 (parts ! 1)
            in case month_day month_abbr day of Some d \<Rightarrow> d | None \<Rightarrow> ''Unknown'')
      else ''Unknown'')"

text \<open>\<open>_parse_cibc_visa_multiline_transaction(lines, start_idx, page_num)\<close>, for
  \<open>start_idx < len(lines)\<close> as the caller has it: the record and the index of the next
  line to read.\<close>

definition parse_cibc_visa_multiline_transaction ::
  "string list \<Rightarrow> nat \<Rightarrow> nat \<Rightarrow> tx option \<times> nat" where
  "parse_cibc_visa_multiline_transaction lines start_idx page_num =
     (let line = strip (lines ! start_idx) in
      case re_search cibc_visa_line_pattern line of
        None \<Rightarrow> (None, start_idx + 1)
      | Some m \<Rightarrow>
          let trans_date = grp m 1;
              post_date = grp m 2;
              description_and_location = strip (grp m 3);
              a = clean_amount (grp m 4);
              desc_parts = split_ws description_and_location;
              (desc, loc) =
                 (if length desc_parts > 1 \<and> isupper (last desc_parts) \<and>
                     length (last desc_parts) > 2
                  then (join_sp (butlast desc_parts), last desc_parts)
                  else (description_and_location, ''''));
              parsed_trans_date = parse_cibc_visa_date trans_date;
              parsed_post_date = parse_cibc_visa_date post_date
          in if parsed_trans_date = ''Unknown'' then (None, start_idx + 1)
             else
               let exchange_match =
                     (if start_idx + 1 < length lines
                      then re_search exchange_pattern (strip (lines ! (start_idx + 1)))
                      else None);
                   cad = map_option (\<lambda>em. clean_amount (grp em 1)) exchange_match;
                   info = map_option (\<lambda>em. (clean_amount (grp em 1), grp em 2)) exchange_match;
                   next_idx = (if exchange_match \<noteq> None then start_idx + 2 else start_idx + 1)
               in (Some ((new_tx parsed_trans_date desc a page_num ''CIBC Visa'' 0.9)
                           \<lparr>posting_date := Some parsed_post_date,
                            location := Some loc,
                            currency := Some ''USD'',
                            cad_amount := cad,
                            exchange_rate_info := info,
                            transaction_type := Some (if a > 0 then ''debit'' else ''credit''),
                            is_spending := Some (a > 0),
                            abs_amount := Some \<bar>a\<bar>,
                            processing_method := Some ''cibc_visa_processor'',
                            confidence_level := Some ''high''\<rparr>),
                   next_idx))"

lemma cibc_visa_next_index:
  "parse_cibc_visa_multiline_transaction lines i page_num = (t, n) \<Longrightarrow> i < n"
  unfolding parse_cibc_visa_multiline_transaction_def Let_def
  by (auto split: option.splits if_splits prod.splits)

text \<open>The loop \<open>while i < len(lines)\<close> of \<open>extract_transactions\<close>: the header is two
  lines, a line with a stop word clears the flag and is then read like any other.\<close>

function cibc_visa_loop :: "nat \<Rightarrow> string list \<Rightarrow> bool \<Rightarrow> nat \<Rightarrow> tx list" where
  "cibc_visa_loop page_num lines in_transaction_section i =
     (if i < length lines
      then
        (let line = strip (lines ! i) in
         if contains line ''Trans Post'' \<and> i + 1 < length lines \<and>
            contains (lines ! (i + 1)) ''date date Description''
         then cibc_visa_loop page_num lines True (i + 2)
         else
           let section =
                 (if any_in [''Information about your CIBC'', ''Payment options'',
                             ''Interest charges'', ''Foreign currency''] line
                  then False else in_transaction_section)
           in if section \<and> is_cibc_visa_transaction line
              then (case parse_cibc_visa_multiline_transaction lines i page_num of
                      (t, next_i) \<Rightarrow>
                        (case t of None \<Rightarrow> [] | Some r \<Rightarrow> [r])
                        @ cibc_visa_loop page_num lines section next_i)
              else cibc_visa_loop page_num lines section (i + 1))
      else [])"
  by pat_completeness auto
termination
  by (relation "measure (\<lambda>(page_num, lines, sec, i). length lines - i)")
     (auto dest: cibc_visa_next_index[OF sym])

declare cibc_visa_loop.simps [simp del]

definition cibc_visa_page :: "nat \<Rightarrow> string \<Rightarrow> tx list" where
  "cibc_visa_page page_num text = cibc_visa_loop page_num (split_lines text) False 0"

section \<open>BMO accounts: the net of the two columns\<close>

text \<open>\<open>^[A-Z][a-z]{2}\d{1,2}\<close>, with the group \<open>^([A-Z][a-z]{2}\d{1,2})\<close> for the parser,
  and \<open>^([A-Z][a-z]{2})(\d{1,2})$\<close>.\<close>

definition bmo_account_date_pattern :: rx where
  "bmo_account_date_pattern =
     rx_seq [Bol, Grp 1 (rx_seq [rx_upper, rx_times 2 rx_lower, rx_between 1 2 rx_digit])]"

definition bmo_account_month_day_pattern :: rx where
  "bmo_account_month_day_pattern =
     rx_seq [Bol, Grp 1 (rx_seq [rx_upper, rx_times 2 rx_lower]), Grp 2 (rx_between 1 2 rx_digit),
             Eol]"

definition is_bmo_account_transaction :: "string \<Rightarrow> bool" where
  "is_bmo_account_transaction line =
     (if any_in [''date description'', ''amounts deducted'', ''amounts added'', ''balance'',
                 ''primary chequing account'', ''continued'', ''opening balance'',
                 ''closing totals''] (lower line)
      then False
      else
        let has_date = (re_search bmo_account_date_pattern line \<noteq> None);
            has_amount = (re_search amount_pattern line \<noteq> None)
        in has_date \<and> has_amount \<and> length line > 10)"

definition parse_bmo_account_date :: "string \<Rightarrow> string" where
  "parse_bmo_account_date date_str =
     (case re_match bmo_account_month_day_pattern date_str of
        None \<Rightarrow> ''Unknown''
      | Some m \<Rightarrow>
          let month_abbr = lower (grp m 1);
              day = zfill2 (grp m 2)
          in case month_day month_abbr day of Some d \<Rightarrow> d | None \<Rightarrow> ''Unknown'')"

text \<open>The loop \<open>for amount in amounts: desc_part = desc_part.replace(amount, '', 1).strip()\<close>.\<close>

fun remove_amounts :: "string \<Rightarrow> string list \<Rightarrow> string" where
  "remove_amounts desc_part [] = desc_part"
| "remove_amounts desc_part (a # as) = remove_amounts (strip (replace_first desc_part a [])) as"

text \<open>\<open>deducted_amount\<close>, \<open>added_amount\<close> and \<open>balance\<close> from the amounts of the line and
  the words of the description.\<close>

definition bmo_account_columns :: "string list \<Rightarrow> string \<Rightarrow> real \<times> real \<times> real option" where
  "bmo_account_columns amounts desc =
     (if length amounts = 1 then (0, 0, Some (clean_amount (amounts ! 0)))
      else if length amounts = 2
      then
        (let transaction_amount = clean_amount (amounts ! 0);
             bal = clean_amount (amounts ! 1)
         in if any_in [''transfersent'', ''transfer sent'', ''debitcardpurchase'',
                       ''debit card purchase'', ''fee'', ''charge'', ''returned item'',
                       ''overdraft''] (lower desc)
            then (transaction_amount, 0, Some bal)
            else (0, transaction_amount, Some bal))
      else if length amounts \<ge> 3
      then (clean_amount (amounts ! 0), clean_amount (amounts ! 1),
            Some (clean_amount (amounts ! 2)))
      else (0, 0, None))"

definition parse_bmo_account_transaction :: "string \<Rightarrow> nat \<Rightarrow> tx option" where
  "parse_bmo_account_transaction line page_num =
     (case re_match bmo_account_date_pattern line of
        None \<Rightarrow> None
      | Some date_match \<Rightarrow>
          let date_str = grp date_match 1;
              rest_of_line = strip (drop (length date_str) line);
              amounts = re_findall amount_pattern rest_of_line
          in if amounts = [] then None
             else
               let desc_part = remove_amounts rest_of_line amounts;
                   desc = strip (rstrip_chars (strip desc_part) '','');
                   (deducted, added, bal) = bmo_account_columns amounts desc;
                   parsed_date = parse_bmo_account_date date_str
               in if parsed_date = ''Unknown'' then None
                  else
                    let net_amount = added - deducted
                    in Some ((new_tx parsed_date desc net_amount page_num ''BMO Account'' 0.9)
                               \<lparr>deducted_amount := Some deducted,
                                added_amount := Some added,
                                balance := bal,
                                transaction_type :=
                                  Some (if net_amount < 0 then ''debit'' else ''credit''),
                                is_spending := Some (net_amount < 0),
                                abs_amount := Some \<bar>net_amount\<bar>,
                                processing_method := Some ''bmo_account_processor'',
                                confidence_level := Some ''high''\<rparr>))"

definition bmo_account_page :: "nat \<Rightarrow> string \<Rightarrow> tx list" where
  "bmo_account_page page_num text =
     section_lines
       (\<lambda>line. contains line ''Date Description'' \<or> contains line ''Amountsdeducted'')
       (\<lambda>line. any_in [''Please report any errors'', ''Trade-marks'', ''Important information'',
                        ''Alternatively, you can bring'', ''GST-'', ''QST-''] line)
       (\<lambda>in_transaction_section line. in_transaction_section \<and> is_bmo_account_transaction line)
       (\<lambda>line. parse_bmo_account_transaction line page_num)
       False (split_lines text)"

section \<open>CIBC accounts: carried dates\<close>

text \<open>\<open>([A-Za-z]{3})\s+(\d{1,2})\<close> is \<open>simplii_date_pattern\<close> above; the date parser tests
  \<open>^[A-Za-z]{3}\s+\d{1,2}$\<close>.\<close>

definition cibc_whole_date_pattern :: rx where
  "cibc_whole_date_pattern =
     rx_seq [Bol, rx_times 3 rx_alpha, rx_plus rx_space, rx_between 1 2 rx_digit, Eol]"

text \<open>\<open>_parse_cibc_date\<close>: an index out of range and the \<open>ValueError\<close> of \<open>int\<close> are caught
  by its handler, which returns "Unknown".\<close>

definition parse_cibc_date :: "string \<Rightarrow> string" where
  "parse_cibc_date date_str =
     (if re_match cibc_whole_date_pattern date_str \<noteq> None
      then
        (let parts = split_ws (strip date_str) in
         if length parts < 2 then ''Unknown''
         else
           let month = lower (parts ! 0) in
           case int_of_digits (parts ! 1) of
             None \<Rightarrow> ''Unknown''
           | Some day \<Rightarrow>
               let month_num = (case map_of month_map (take 3 month) of
                                  Some mm \<Rightarrow> mm | None \<Rightarrow> ''00'')
               in month_num @ ''-'' @ format_02d day)
      else ''Unknown'')"

definition parse_cibc_transaction_line :: "string \<Rightarrow> string \<Rightarrow> nat \<Rightarrow> tx option" where
  "parse_cibc_transaction_line d line page_num =
     (if line = [] \<or> length (strip line) < 5 then None
      else
        let line_lower = lower line in
        if any_in [''opening balance'', ''closing balance'', ''balance forward'', ''total'',
                   ''summary'', ''continued'', ''transaction details''] line_lower
        then None
        else
          let amounts = re_findall amount_pattern line in
          case amounts of
            [] \<Rightarrow> None
          | amount_match # _ \<Rightarrow>
              let a = clean_amount amount_match in
              if a \<le> 0 then None
              else
                let desc0 = strip (slice line 0 (find_int line amount_match));
                    desc = join_sp (split_ws (re_sub_empty edge_nonword_pattern desc0))
                in if length desc < 3 then None
                   else
                     let description_lower = lower desc;
                         (ttype, spending) =
                           (if any_in [''deposit'', ''e-transfer'', ''transfer in'', ''interest'',
                                       ''refund'', ''rebate''] description_lower
                            then (''credit'', False)
                            else if any_in [''retail purchase'', ''purchase'', ''withdrawal'',
                                            ''teller withdrawal'', ''instant teller'', ''atm'',
                                            ''fee'', ''charge'', ''payment''] description_lower
                            then (''debit'', True)
                            else (''debit'', True))
                     in if d = [] \<or> d = ''Unknown'' then None
                        else Some ((new_tx d desc a page_num ''CIBC'' 0.85)
                                     \<lparr>balance := (if length amounts > 1
                                                  then Some (clean_amount (amounts ! 1))
                                                  else None),
                                      transaction_type := Some ttype,
                                      is_spending := Some spending,
                                      abs_amount := Some \<bar>a\<bar>,
                                      processing_method := Some ''cibc_processor'',
                                      confidence_level := Some ''medium''\<rparr>))"

text \<open>The test for a date in a line, as in the RBC extractor: the first match of the
  pattern, accepted when its three letters are a month.\<close>

definition cibc_date_match :: "string \<Rightarrow> rmatched option" where
  "cibc_date_match line =
     (case re_search simplii_date_pattern line of
        None \<Rightarrow> None
      | Some date_match \<Rightarrow>
          if lower (grp date_match 1) \<in> set valid_months then Some date_match else None)"

definition cibc_line :: "nat \<Rightarrow> string option \<Rightarrow> string \<Rightarrow> string option \<times> tx list" where
  "cibc_line page_num current_date l =
     (let line = strip l in
      if line = [] then (current_date, [])
      else if any_in [''date'', ''description'', ''withdrawals'', ''deposits'', ''balance'']
                (lower line)
      then (current_date, [])
      else
        case cibc_date_match line of
          Some date_match \<Rightarrow>
            (let new_date = parse_cibc_date (whole date_match);
                 clean_line = strip (replace line (whole date_match) [])
             in (Some new_date,
                 if clean_line \<noteq> []
                 then (case parse_cibc_transaction_line new_date clean_line (page_num + 1) of
                         None \<Rightarrow> [] | Some t \<Rightarrow> [t])
                 else []))
        | None \<Rightarrow>
            (current_date,
             case current_date of
               None \<Rightarrow> []
             | Some d \<Rightarrow>
                 if d \<noteq> []
                 then (case parse_cibc_transaction_line d line (page_num + 1) of
                         None \<Rightarrow> [] | Some t \<Rightarrow> [t])
                 else []))"

fun cibc_lines :: "nat \<Rightarrow> string option \<Rightarrow> string list \<Rightarrow> tx list" where
  "cibc_lines page_num current_date [] = []"
| "cibc_lines page_num current_date (l # ls) =
     (case cibc_line page_num current_date l of
        (next_date, found) \<Rightarrow> found @ cibc_lines page_num next_date ls)"

text \<open>The pages from the second on, \<open>for page_num in range(1, len(pdf.pages))\<close>. The
  source tests \<open>"Transaction details" in text\<close> without a test of \<open>text\<close> before it: on a
  page whose \<open>extract_text()\<close> is \<open>None\<close> the test raises, and the handler returns \<open>[]\<close>
  for the whole file. \<open>None\<close> is that exception.\<close>

fun cibc_pages :: "nat \<Rightarrow> string option list \<Rightarrow> tx list option" where
  "cibc_pages page_num [] = Some []"
| "cibc_pages page_num (p # ps) =
     (case p of
        None \<Rightarrow> None
      | Some text \<Rightarrow>
          (case cibc_pages (page_num + 1) ps of
             None \<Rightarrow> None
           | Some found \<Rightarrow>
               Some ((if contains text ''Transaction details''
                      then cibc_lines page_num None (split_lines text) else [])
                     @ found)))"

definition cibc_extract_transactions :: "pdf_file \<Rightarrow> tx list" where
  "cibc_extract_transactions f =
     (case content f of
        None \<Rightarrow> []
      | Some pages \<Rightarrow> (case cibc_pages 1 (drop 1 pages) of None \<Rightarrow> [] | Some found \<Rightarrow> found))"

section \<open>The generic text extractor: lines of a table region\<close>

definition month_names :: "string list" where
  "month_names = [''Jan'', ''Feb'', ''Mar'', ''Apr'', ''May'', ''Jun'',
                  ''Jul'', ''Aug'', ''Sep'', ''Oct'', ''Nov'', ''Dec'']"

text \<open>\<open>(Jan|Feb|...|Dec)\<close> under \<open>re.IGNORECASE\<close>, \<open>[/-]\<close> and \<open>(?:,\d{3})*\<close>.\<close>

definition rx_month :: rx where
  "rx_month = Grp 1 (rx_alts (map rx_lit_i month_names))"

definition rx_date_sep :: rx where
  "rx_date_sep = Ch (OneOf ''/-'')"

definition rx_thousands :: rx where
  "rx_thousands = rx_star (rx_seq [rx_lit '','', rx_times 3 rx_digit])"

text \<open>\<open>self.date_patterns\<close> of \<open>TextBasedExtractor\<close>, searched with \<open>re.IGNORECASE\<close>:
  \<open>\d{1,2}[/-]\d{1,2}[/-]\d{2,4}\<close>, \<open>\d{4}[/-]\d{1,2}[/-]\d{1,2}\<close>,
  \<open>(Jan|...|Dec)\.?\s*\d{1,2},?\s*\d{4}\<close>, \<open>\d{1,2}\s+(Jan|...|Dec)\<close>,
  \<open>(Jan|...|Dec)\.\d{1,2},\d{4}\<close> and \<open>(Jan|...|Dec)\.\d{1,2}\b\<close>.\<close>

definition date_patterns :: "rx list" where
  "date_patterns =
     [rx_seq [rx_between 1 2 rx_digit, rx_date_sep, rx_between 1 2 rx_digit, rx_date_sep,
              rx_between 2 4 rx_digit],
      rx_seq [rx_times 4 rx_digit, rx_date_sep, rx_between 1 2 rx_digit, rx_date_sep,
              rx_between 1 2 rx_digit],
      rx_seq [rx_month, rx_opt (rx_lit ''.''), rx_star rx_space, rx_between 1 2 rx_digit,
              rx_opt (rx_lit '',''), rx_star rx_space, rx_times 4 rx_digit],
      rx_seq [rx_between 1 2 rx_digit, rx_plus rx_space, rx_month],
      rx_seq [rx_month, rx_lit ''.'', rx_between 1 2 rx_digit, rx_lit '','', rx_times 4 rx_digit],
      rx_seq [rx_month, rx_lit ''.'', rx_between 1 2 rx_digit, Wb]]"

text \<open>\<open>self.amount_patterns\<close>: \<open>\$\d{1,3}(?:,\d{3})*\.\d{2}\<close>, \<open>\$\d+\.\d{2}\<close>,
  \<open>\(\$\d+\.\d{2}\)\<close>, \<open>\+\$?\d{1,3}(?:,\d{3})*\.\d{2}\<close>,
  \<open>-\$?\d{1,3}(?:,\d{3})*\.\d{2}\<close>, \<open>\b\d{1,3}(?:,\d{3})*\.\d{2}\b\<close> and
  \<open>\b\d+\.\d{2}\b\<close>.\<close>

definition amount_patterns :: "rx list" where
  "amount_patterns =
     [rx_seq [rx_lit ''$'', rx_between 1 3 rx_digit, rx_thousands, rx_lit ''.'', rx_times 2 rx_digit],
      rx_seq [rx_lit ''$'', rx_plus rx_digit, rx_lit ''.'', rx_times 2 rx_digit],
      rx_seq [rx_lit ''($'', rx_plus rx_digit, rx_lit ''.'', rx_times 2 rx_digit, rx_lit '')''],
      rx_seq [rx_lit ''+'', rx_opt (rx_lit ''$''), rx_between 1 3 rx_digit, rx_thousands,
              rx_lit ''.'', rx_times 2 rx_digit],
      rx_seq [rx_lit ''-'', rx_opt (rx_lit ''$''), rx_between 1 3 rx_digit, rx_thousands,
              rx_lit ''.'', rx_times 2 rx_digit],
      rx_seq [Wb, rx_between 1 3 rx_digit, rx_thousands, rx_lit ''.'', rx_times 2 rx_digit, Wb],
      rx_seq [Wb, rx_plus rx_digit, rx_lit ''.'', rx_times 2 rx_digit, Wb]]"

text \<open>\<open>any(re.search(pattern, line) for pattern in patterns)\<close>.\<close>

definition any_search :: "rx list \<Rightarrow> string \<Rightarrow> bool" where
  "any_search patterns line = list_ex (\<lambda>p. re_search p line \<noteq> None) patterns"

definition is_header_line :: "string \<Rightarrow> bool" where
  "is_header_line line =
     (let line_lower = lower line;
          header_count = length (filter (contains line_lower)
             [''date'', ''transaction'', ''description'', ''amount'', ''debit'', ''credit'',
              ''balance'']);
          has_date = any_search date_patterns line;
          has_amount = any_search amount_patterns line
      in header_count \<ge> 2 \<and> \<not> (has_date \<and> has_amount))"

definition is_summary_line :: "string \<Rightarrow> bool" where
  "is_summary_line line =
     any_in [''total'', ''subtotal'', ''balance'', ''opening'', ''closing'', ''previous'',
             ''carried forward''] (lower line)"

text \<open>\<open>_extract_date\<close>: the text of the first pattern that matches.\<close>

fun extract_date :: "rx list \<Rightarrow> string \<Rightarrow> string option" where
  "extract_date [] line = None"
| "extract_date (p # ps) line =
     (case re_search p line of Some m \<Rightarrow> Some (whole m) | None \<Rightarrow> extract_date ps line)"

text \<open>\<open>_extract_amount\<close>: \<open>re.sub(r'[^\d.]', '', amount_str)\<close> keeps the digits and
  the periods; a pattern whose text \<open>float\<close> rejects is passed over.\<close>

fun extract_amount :: "rx list \<Rightarrow> string \<Rightarrow> real option" where
  "extract_amount [] line = None"
| "extract_amount (p # ps) line =
     (case re_search p line of
        None \<Rightarrow> extract_amount ps line
      | Some m \<Rightarrow>
          (let amount_str = whole m;
               is_negative = (CHR ''('' \<in> set amount_str \<or> startswith amount_str ''-'')
           in case py_float (filter (\<lambda>c. c \<in> set (digit_chars @ ''.'')) amount_str) of
                Some a \<Rightarrow> Some (if is_negative then - a else a)
              | None \<Rightarrow> extract_amount ps line))"

text \<open>\<open>_extract_description\<close>; its parameter \<open>short\<close> is the text that stands in for a
  description under five characters.\<close>

definition extract_description :: "rx list \<Rightarrow> string \<Rightarrow> string \<Rightarrow> string \<Rightarrow> string" where
  "extract_description patterns short line d =
     (let without_date = (if d \<noteq> [] then replace line d [] else line);
          without_amounts = foldl (\<lambda>text p. re_sub_empty p text) without_date patterns;
          desc = strip (join_sp (split_ws without_amounts))
      in if length desc < 5 then short else desc)"

text \<open>The records of the generic extractors have no \<open>bank\<close> key.\<close>

definition generic_tx :: "string \<Rightarrow> string \<Rightarrow> real \<Rightarrow> nat \<Rightarrow> real \<Rightarrow> string \<Rightarrow> tx" where
  "generic_tx d desc a pg c method =
     (new_tx d desc a pg [] c)\<lparr>bank := None, extraction_method := Some method\<rparr>"

definition parse_transaction_line :: "string \<Rightarrow> nat \<Rightarrow> tx option" where
  "parse_transaction_line line page_num =
     (case extract_date date_patterns line of
        None \<Rightarrow> None
      | Some d \<Rightarrow>
          if d = [] then None
          else
            (case extract_amount amount_patterns line of
               None \<Rightarrow> None
             | Some a \<Rightarrow>
                 Some (generic_tx d (extract_description amount_patterns ''Transaction'' line d)
                         a page_num 0.85 ''text_pattern'')))"

text \<open>\<open>_extract_from_table_region\<close>, on the lines of the region.\<close>

fun extract_from_table_region :: "string list \<Rightarrow> nat \<Rightarrow> tx list" where
  "extract_from_table_region [] page_num = []"
| "extract_from_table_region (line # lines) page_num =
     (if is_header_line line then extract_from_table_region lines page_num
      else if is_summary_line line then extract_from_table_region lines page_num
      else (case parse_transaction_line line page_num of
              None \<Rightarrow> [] | Some t \<Rightarrow> [t])
           @ extract_from_table_region lines page_num)"

section \<open>Document types and the OCR path of \<open>DocumentProcessor\<close>\<close>

text \<open>The average of \<open>len(text.strip())\<close> over the first \<open>min(3, len(pdf.pages))\<close> pages,
  0 for a file without pages.\<close>

definition avg_text :: "string option list \<Rightarrow> real" where
  "avg_text pages =
     (let sample_pages = min 3 (length pages);
          total_text = sum_list (map (\<lambda>page. case page of
                                                 None \<Rightarrow> 0
                                               | Some text \<Rightarrow>
                                                   if text = [] then 0 else int (length (strip text)))
                                   (take sample_pages pages))
      in if sample_pages > 0 then real_of_int total_text / real sample_pages else 0)"

definition detect_document_type :: "pdf_file \<Rightarrow> string" where
  "detect_document_type f =
     (case content f of
        None \<Rightarrow> ''mixed''
      | Some pages \<Rightarrow>
          if avg_text pages > 500 then ''text_based''
          else if avg_text pages < 100 then ''scanned_image''
          else ''mixed'')"

text \<open>
  \<open>DocumentProcessor\<close> with what it finds at start-up: the path of the rasterizer
  (\<open>None\<close> when it is not installed) and the OCR reader (\<open>None\<close> when it could not be
  created). The rasterizer \<open>pdf2image.convert_from_path\<close> and the reader are outside the
  repository: \<open>convert_from_path\<close> gives the page images or raises (\<open>None\<close>), and a reader
  maps a page image, after \<open>_preprocess_image\<close>, to the texts it recognises with their
  confidences, or raises (\<open>None\<close>).
\<close>

record 'img document_processor =
  poppler_path :: "string option"
  ocr_reader :: "('img \<Rightarrow> (string \<times> real) list option) option"
  convert_from_path :: "string \<Rightarrow> pdf_file \<Rightarrow> 'img list option"

text \<open>\<open>self.date_patterns\<close> and \<open>self.amount_patterns\<close> of \<open>OCRExtractor\<close>:
  \<open>\d{1,2}[/-]\d{1,2}[/-]\d{2,4}\<close>, \<open>\d{4}[/-]\d{1,2}[/-]\d{1,2}\<close>,
  \<open>(Jan|...|Dec)\s+\d{1,2}\<close>; \<open>\$\d{1,3}(?:,\d{3})*\.\d{2}\<close>, \<open>\$\d+\.\d{2}\<close>,
  \<open>\(\$\d+\.\d{2}\)\<close>.\<close>

definition ocr_date_patterns :: "rx list" where
  "ocr_date_patterns =
     [rx_seq [rx_between 1 2 rx_digit, rx_date_sep, rx_between 1 2 rx_digit, rx_date_sep,
              rx_between 2 4 rx_digit],
      rx_seq [rx_times 4 rx_digit, rx_date_sep, rx_between 1 2 rx_digit, rx_date_sep,
              rx_between 1 2 rx_digit],
      rx_seq [rx_month, rx_plus rx_space, rx_between 1 2 rx_digit]]"

definition ocr_amount_patterns :: "rx list" where
  "ocr_amount_patterns =
     [rx_seq [rx_lit ''$'', rx_between 1 3 rx_digit, rx_thousands, rx_lit ''.'', rx_times 2 rx_digit],
      rx_seq [rx_lit ''$'', rx_plus rx_digit, rx_lit ''.'', rx_times 2 rx_digit],
      rx_seq [rx_lit ''($'', rx_plus rx_digit, rx_lit ''.'', rx_times 2 rx_digit, rx_lit '')'']]"

definition is_transaction_text :: "string \<Rightarrow> bool" where
  "is_transaction_text text =
     (any_search ocr_date_patterns text \<or> any_search ocr_amount_patterns text)"

text \<open>\<open>OCRExtractor._extract_amount\<close>.\<close>

fun ocr_extract_amount :: "rx list \<Rightarrow> string \<Rightarrow> real option" where
  "ocr_extract_amount [] text = None"
| "ocr_extract_amount (p # ps) text =
     (case re_search p text of
        None \<Rightarrow> ocr_extract_amount ps text
      | Some m \<Rightarrow>
          (let amount_str =
                 replace (replace (replace (replace (whole m) ''$'' []) '','' []) ''('' []) '')'' []
           in case py_float amount_str of
                Some a \<Rightarrow> Some (if CHR ''('' \<in> set (whole m) then - a else a)
              | None \<Rightarrow> ocr_extract_amount ps text))"

definition parse_ocr_text :: "string \<Rightarrow> nat \<Rightarrow> real \<Rightarrow> tx option" where
  "parse_ocr_text text page_num ocr_confidence =
     (let found_date = extract_date ocr_date_patterns text;
          found_amount = ocr_extract_amount ocr_amount_patterns text
      in if (found_date = None \<or> found_date = Some []) \<and> found_amount = None then None
         else
           let d = (case found_date of None \<Rightarrow> ''Unknown''
                    | Some x \<Rightarrow> if x = [] then ''Unknown'' else x);
               a = (case found_amount of None \<Rightarrow> 0 | Some x \<Rightarrow> x);
               desc = extract_description ocr_amount_patterns ''OCR Transaction'' text
                        (if d = ''Unknown'' then [] else d)
           in Some (generic_tx d desc a page_num (ocr_confidence * 0.8) ''ocr''))"

text \<open>\<open>OCRExtractor.extract_transactions_from_image\<close>.\<close>

definition extract_transactions_from_image ::
  "'img document_processor \<Rightarrow> 'img \<Rightarrow> nat \<Rightarrow> tx list" where
  "extract_transactions_from_image dp img page_num =
     (case ocr_reader dp of
        None \<Rightarrow> []
      | Some readtext \<Rightarrow>
          (case readtext img of
             None \<Rightarrow> []
           | Some ocr_results \<Rightarrow>
               concat (map (\<lambda>(text, c).
                              if c > 0.7 \<and> length (strip text) > 3 \<and> is_transaction_text text
                              then (case parse_ocr_text text page_num c of
                                      None \<Rightarrow> [] | Some t \<Rightarrow> [t])
                              else [])
                         ocr_results)))"

text \<open>\<open>OCRExtractor.extract_transactions\<close>.\<close>

definition ocr_extract_transactions :: "'img document_processor \<Rightarrow> pdf_file \<Rightarrow> tx list" where
  "ocr_extract_transactions dp f =
     (case poppler_path dp of
        None \<Rightarrow> []
      | Some pp \<Rightarrow>
          if pp = [] then []
          else
            (case convert_from_path dp pp f of
               None \<Rightarrow> []
             | Some images \<Rightarrow>
                 concat (map (\<lambda>(page_num, img). extract_transactions_from_image dp img page_num)
                           (enumerate 1 images))))"

text \<open>The dictionary the paths of \<open>DocumentProcessor\<close> return.\<close>

record doc_result =
  dr_processing_method :: string
  dr_transactions :: "tx list"
  dr_confidence :: string
  dr_processing_time :: "string option"
  dr_error :: "string option"

definition process_scanned_pdf :: "'img document_processor \<Rightarrow> pdf_file \<Rightarrow> doc_result" where
  "process_scanned_pdf dp f =
     \<lparr>dr_processing_method = ''ocr_extraction'',
      dr_transactions = ocr_extract_transactions dp f,
      dr_confidence = ''medium'',
      dr_processing_time = Some ''slow'',
      dr_error = None\<rparr>"

text \<open>\<open>DocumentProcessor.process_document\<close>. The paths for text-based and for mixed
  documents are not part of this development and are its first two arguments.\<close>

definition dp_process_document ::
  "(pdf_file \<Rightarrow> doc_result) \<Rightarrow> (pdf_file \<Rightarrow> doc_result) \<Rightarrow>
   'img document_processor \<Rightarrow> pdf_file \<Rightarrow> doc_result" where
  "dp_process_document process_text_based_pdf process_mixed_pdf dp f =
     (let doc_type = detect_document_type f in
      if doc_type = ''text_based'' then process_text_based_pdf f
      else if doc_type = ''scanned_image'' then process_scanned_pdf dp f
      else process_mixed_pdf f)"

section \<open>The orchestrator \<open>SmartDocumentProcessor\<close>\<close>

text \<open>The text of the first three pages, each followed by a newline; a page without
  text adds nothing.\<close>

definition sample_text :: "string option list \<Rightarrow> string" where
  "sample_text pages =
     concat (map (\<lambda>page. case page of
                            None \<Rightarrow> []
                          | Some text \<Rightarrow> if text = [] then [] else text @ [CHR 0x0A])
               (take 3 pages))"

text \<open>The loop \<open>for processor in self.processors\<close> of \<open>identify_bank\<close>.\<close>

fun first_processor :: "processor list \<Rightarrow> string \<Rightarrow> string \<Rightarrow> processor option" where
  "first_processor [] text filename = None"
| "first_processor (p # ps) text filename =
     (if can_process p text filename then Some p else first_processor ps text filename)"

text \<open>\<open>identify_bank\<close>: a file that cannot be opened raises, and the handler returns
  \<open>None\<close>.\<close>

definition identify_bank :: "processor list \<Rightarrow> pdf_file \<Rightarrow> processor option" where
  "identify_bank procs f =
     (case content f of
        None \<Rightarrow> None
      | Some pages \<Rightarrow> first_processor procs (sample_text pages) (basename (path f)))"

definition credit_card_banks :: "string list" where
  "credit_card_banks =
     [''BMO'', ''RBC Visa'', ''Scotia Credit Card'', ''Amex'', ''Simplii'', ''Wise'',
      ''TD Credit Card'', ''Tangerine Credit Card'', ''CIBC Visa'']"

definition is_credit_card_bank :: "string \<Rightarrow> bool" where
  "is_credit_card_bank name = (name \<in> set credit_card_banks)"

text \<open>
  The body of the loop \<open>for tx in transactions\<close>. \<open>tx['bank']\<close> and \<open>tx['amount']\<close>
  raise \<open>KeyError\<close> on a dictionary without the key; \<open>Inl\<close> carries \<open>str(e)\<close>, the key
  in quotes.
\<close>

definition key_error :: "string \<Rightarrow> string" where
  "key_error k = [CHR 0x27] @ k @ [CHR 0x27]"

text \<open>The assignments under \<open>if 'transaction_type' not in tx or 'is_spending' not in tx\<close>.\<close>

definition default_rule :: "string \<Rightarrow> real \<Rightarrow> tx \<Rightarrow> tx" where
  "default_rule bname a t =
     (if is_credit_card_bank bname
      then t\<lparr>transaction_type := Some (if a > 0 then ''debit'' else ''credit''),
             is_spending := Some (a > 0)\<rparr>
      else t\<lparr>transaction_type := Some (if a < 0 then ''debit'' else ''credit''),
             is_spending := Some (a < 0)\<rparr>)"

text \<open>The assignments to \<open>abs_amount\<close>, \<open>processing_method\<close> and \<open>confidence_level\<close>.\<close>

definition standard_fields :: "string \<Rightarrow> real \<Rightarrow> tx \<Rightarrow> tx" where
  "standard_fields bname a t =
     t\<lparr>abs_amount := Some \<bar>a\<bar>,
       processing_method := Some (replace (lower bname) '' '' ''_'' @ ''_processor''),
       confidence_level :=
         Some (if (case confidence t of Some c \<Rightarrow> c | None \<Rightarrow> 0) \<ge> 0.9
               then ''high'' else ''medium'')\<rparr>"

definition classify_tx :: "tx \<Rightarrow> string + tx" where
  "classify_tx t =
     (case bank t of
        None \<Rightarrow> Inl (key_error ''bank'')
      | Some bname \<Rightarrow>
          (case amount t of
             None \<Rightarrow> Inl (key_error ''amount'')
           | Some a \<Rightarrow>
               Inr (standard_fields bname a
                      (if transaction_type t = None \<or> is_spending t = None
                       then default_rule bname a t else t))))"

text \<open>The loop: the first exception ends it.\<close>

fun classify_all :: "tx list \<Rightarrow> string + tx list" where
  "classify_all [] = Inr []"
| "classify_all (t # ts) =
     (case classify_tx t of
        Inl e \<Rightarrow> Inl e
      | Inr t' \<Rightarrow> (case classify_all ts of Inl e \<Rightarrow> Inl e | Inr ts' \<Rightarrow> Inr (t' # ts')))"

text \<open>The dictionary \<open>process_document\<close> returns; a key that only some of its three
  shapes have is optional.\<close>

record result =
  res_processing_method :: string
  res_transactions :: "tx list"
  res_confidence :: string
  res_error :: "string option"
  res_bank :: "string option"
  res_transaction_count :: "nat option"
  res_debit_count :: "nat option"
  res_credit_count :: "nat option"
  res_spending_transactions :: "tx list option"

definition process_document :: "processor list \<Rightarrow> pdf_file \<Rightarrow> result" where
  "process_document procs f =
     (case identify_bank procs f of
        None \<Rightarrow>
          \<lparr>res_processing_method = ''unidentified'', res_transactions = [],
           res_confidence = ''low'', res_error = Some ''No suitable processor found'',
           res_bank = None, res_transaction_count = None, res_debit_count = None,
           res_credit_count = None, res_spending_transactions = None\<rparr>
      | Some p \<Rightarrow>
          (case classify_all (extract_transactions p f) of
             Inl e \<Rightarrow>
               \<lparr>res_processing_method = bank_name p @ ''_failed'', res_transactions = [],
                res_confidence = ''low'', res_error = Some e,
                res_bank = None, res_transaction_count = None, res_debit_count = None,
                res_credit_count = None, res_spending_transactions = None\<rparr>
           | Inr txs \<Rightarrow>
               \<lparr>res_processing_method = bank_name p @ ''_processor'', res_transactions = txs,
                res_confidence = ''high'', res_error = None,
                res_bank = Some (bank_name p), res_transaction_count = Some (length txs),
                res_debit_count =
                  Some (length (filter (\<lambda>t. transaction_type t = Some ''debit'') txs)),
                res_credit_count =
                  Some (length (filter (\<lambda>t. transaction_type t = Some ''credit'') txs)),
                res_spending_transactions =
                  Some (filter (\<lambda>t. is_spending t = Some True) txs)\<rparr>))"

text \<open>A record that carries a direction and the spending flag that goes with it.\<close>

definition classified :: "tx \<Rightarrow> bool" where
  "classified t =
     ((transaction_type t = Some ''debit'' \<and> is_spending t = Some True) \<or>
      (transaction_type t = Some ''credit'' \<and> is_spending t = Some False))"

section \<open>The registry\<close>

text \<open>
  The processors of \<open>SmartDocumentProcessor.__init__\<close>, in its order; the clock is what
  the EQ Bank extractor reads.
\<close>

definition BMOAccountProcessor :: processor where
  "BMOAccountProcessor =
     \<lparr>bank_name = ''BMO Account'',
      can_process = (\<lambda>text filename.
         any_in [''Your Everyday Banking statement'', ''Everyday Banking'',
                 ''Primary Chequing Account'', ''BMO Bank of Montreal''] text
         \<and> any_in [''deducted($)'', ''added($)'', ''Opening'', ''Closing totals'',
                    ''Primary Chequing'', ''INTERAC e-Transfer'', ''Direct Deposit''] text
         \<and> \<not> any_in [''Previous Balance'', ''Credit Limit'', ''Minimum Payment'',
                      ''Payment Due Date'', ''Interest Rate'', ''Cash Advance''] text),
      extract_transactions = over_pages bmo_account_page\<rparr>"

definition TDCreditCardProcessor :: processor where
  "TDCreditCardProcessor =
     \<lparr>bank_name = ''TD Credit Card'',
      can_process = (\<lambda>text filename.
         any_in [''TD CASH BACK CARD'', ''CASH BACK CARD'', ''TD Credit Card''] text
         \<and> any_in [''PREVIOUS STATEMENT BALANCE'', ''Minimum Payment'', ''Credit Card'',
                    ''ACTIVITY DESCRIPTION'', ''Cash Back Dollars''] text),
      extract_transactions = over_pages td_credit_page\<rparr>"

definition TangerineCreditCardProcessor :: processor where
  "TangerineCreditCardProcessor =
     \<lparr>bank_name = ''Tangerine Credit Card'',
      can_process = (\<lambda>text filename.
         any_in [''Tangerine Money-Back Credit Card'', ''Money-Back Credit Card'',
                 ''Here'' @ [CHR 0x27] @ ''s your latest statement for your Tangerine''] text
         \<and> any_in [''Credit limit'', ''Cash advance limit'', ''Money-Back Rewards'',
                    ''Transaction Posted Description Category Amount Reward''] text
         \<and> \<not> any_in [''Transaction Date'', ''Transaction Description'', ''Orange Key'',
                      ''Interest Paid'', ''Opening Balance'', ''Closing Balance''] text),
      extract_transactions = over_pages tangerine_credit_page\<rparr>"

definition RBCVisaProcessor :: processor where
  "RBCVisaProcessor =
     \<lparr>bank_name = ''RBC Visa'',
      can_process = (\<lambda>text filename.
         any_in [''RBC Visa'', ''Visa Infinite'', ''Avion''] text
         \<and> contains (lower filename) ''visa''),
      extract_transactions = over_pages rbc_visa_page\<rparr>"

definition SimpliiProcessor :: processor where
  "SimpliiProcessor =
     \<lparr>bank_name = ''Simplii'',
      can_process = (\<lambda>text filename.
         any_in [''Simplii Financial'', ''Cash Back Visa'', ''simplii.com''] text),
      extract_transactions = over_pages simplii_page\<rparr>"

definition CIBCVisaProcessor :: processor where
  "CIBCVisaProcessor =
     \<lparr>bank_name = ''CIBC Visa'',
      can_process = (\<lambda>text filename.
         any_in [''CIBC U.S. Dollar Aventura'', ''Aventura Gold Visa Card'', ''CIBC Visa'',
                 ''U.S. Dollar Aventura''] text
         \<and> any_in [''Amount Due'', ''Minimum Payment'', ''Credit Card'', ''Aventura Points'',
                    ''Trans Post'', ''date date Description Amount''] text
         \<and> \<not> any_in [''Opening Balance'', ''Closing Balance'', ''Direct Deposit'',
                      ''Account Balance Summary'', ''DAILY BALANCE''] text),
      extract_transactions = over_pages cibc_visa_page\<rparr>"

definition CIBCProcessor :: processor where
  "CIBCProcessor =
     \<lparr>bank_name = ''CIBC'',
      can_process = (\<lambda>text filename.
         any_in [''CIBC Account Statement'', ''CIBC'', ''Branch transit number''] text),
      extract_transactions = cibc_extract_transactions\<rparr>"

definition AmexProcessor :: processor where
  "AmexProcessor =
     \<lparr>bank_name = ''Amex'',
      can_process = (\<lambda>text filename.
         any_in [''AmericanExpress'', ''Amex Bank of Canada'', ''Statement of Account''] text
         \<and> contains (lower filename) ''amex''),
      extract_transactions = over_pages amex_page\<rparr>"

definition scotia_credit_terms :: "string list" where
  "scotia_credit_terms = [''scene'', ''credit card'', ''minimum payment'', ''credit limit'']"

definition ScotiaBankProcessor :: processor where
  "ScotiaBankProcessor =
     \<lparr>bank_name = ''Scotiabank'',
      can_process = (\<lambda>text filename.
         if contains (lower filename) ''scotia'' \<and> contains (lower filename) ''bank'' then True
         else if any_in [''scotiabank'', ''scotia''] (lower text)
         then any_in [''deposits'', ''withdrawals'', ''mb-billpayment'', ''service charge'',
                      ''mb-transfer'', ''chequing'', ''savings'', ''balance brought forward'']
                (lower text)
              \<and> \<not> any_in scotia_credit_terms (lower text)
         else False),
      extract_transactions = over_pages scotia_bank_page\<rparr>"

definition ScotiaProcessor :: processor where
  "ScotiaProcessor =
     \<lparr>bank_name = ''Scotia Credit Card'',
      can_process = (\<lambda>text filename.
         if any_in [''scotia'', ''scotiabank''] (lower text)
         then any_in scotia_credit_terms (lower text)
         else False),
      extract_transactions = over_pages scotia_page\<rparr>"

definition WiseProcessor :: processor where
  "WiseProcessor =
     \<lparr>bank_name = ''Wise'',
      can_process = (\<lambda>text filename.
         if contains (lower filename) ''wise'' then True
         else any_in [''Wise'', ''wise.com'', ''Credit Card Statement'', ''xxxx-xxxx-xxxx''] text),
      extract_transactions = wise_extract_transactions\<rparr>"

definition processors :: "clock \<Rightarrow> processor list" where
  "processors now =
     [BMOAccountProcessor,
      BMOProcessor,
      EQBankProcessor now,
      TDProcessor,
      TDCreditCardProcessor,
      TangerineProcessor,
      TangerineCreditCardProcessor,
      RBCBankProcessor,
      RBCVisaProcessor,
      SimpliiProcessor,
      CIBCVisaProcessor,
      CIBCProcessor,
      AmexProcessor,
      ScotiaBankProcessor,
      ScotiaProcessor,
      WiseProcessor]"

section \<open>Example statements\<close>

text \<open>Small statements in the formats above, for the examples that follow.\<close>

definition newline :: string where
  "newline = [CHR 0x0A]"

definition registry :: "processor list" where
  "registry = processors \<lparr>now_year = 2025, now_month = 6\<rparr>"

definition eq_statement :: pdf_file where
  "eq_statement =
     \<lparr>path = ''statements/eq.pdf'',
      content = Some [Some (''EQ Bank'' @ newline @
                            ''Sep 28 PRESTO ETIK/HSR****2590, TORON -$5.60'')]\<rparr>"

definition bmo_statement :: pdf_file where
  "bmo_statement =
     \<lparr>path = ''statements/card.pdf'',
      content = Some [None,
                      Some (''MasterCard'' @ newline @
                            ''Nov.3 Nov.8 TIM HORTONS #1234 TORONTO ON 1234567890123 50.00'')]\<rparr>"

definition td_statement :: pdf_file where
  "td_statement =
     \<lparr>path = ''statements/td.pdf'',
      content = Some [Some (''STATEMENT OF ACCOUNT'' @ newline @
                            ''DAILY ACCOUNT ACTIVITY'' @ newline @
                            ''Credits'' @ newline @
                            ''07/02 ATM WITHDRAWAL FEE 3,750.00'' @ newline @
                            ''Debits'' @ newline @
                            ''07/03 DEPOSIT REFUND 20.00'')]\<rparr>"

definition rbc_statement :: pdf_file where
  "rbc_statement =
     \<lparr>path = ''statements/rbc.pdf'',
      content = Some [Some (''Royal Bank of Canada'' @ newline @
                            ''Details of your account activity'' @ newline @
                            ''3 Mar  DEPOSIT  100.00'' @ newline @
                            ''  WITHDRAWAL  20.00'')]\<rparr>"

text \<open>A BMO account statement: the header of the table, a transfer received and a
  transfer sent, each with the balance after it.\<close>

definition bmo_account_statement :: pdf_file where
  "bmo_account_statement =
     \<lparr>path = ''statements/chequing.pdf'',
      content = Some [Some (''Your Everyday Banking statement'' @ newline @
                            ''Date Description Amountsdeducted($) Amountsadded($) Balance($)''
                            @ newline @
                            ''Nov27 INTERACe-TransferReceived 30.00 9.29'' @ newline @
                            ''Nov28 INTERACe-TransferSent 205.00 104.91'')]\<rparr>"

text \<open>The same statement with a card purchase between the two lines: the merchant
  number 4512 is followed by the merchant's name, which starts with the letters of a
  month.\<close>

definition rbc_reference_statement :: pdf_file where
  "rbc_reference_statement =
     \<lparr>path = ''statements/rbc2.pdf'',
      content = Some [Some (''Royal Bank of Canada'' @ newline @
                            ''Details of your account activity'' @ newline @
                            ''3 Mar  DEPOSIT  100.00'' @ newline @
                            ''Contactless Interac purchase - 4512 DECATHLON  25.00'' @ newline @
                            ''  WITHDRAWAL  20.00'')]\<rparr>"

text \<open>A scan of one page, and a \<open>DocumentProcessor\<close> that found neither the rasterizer
  nor an OCR reader at start-up. \<open>other_path\<close> stands for the two paths of
  \<open>DocumentProcessor\<close> that the scan does not take.\<close>

definition scanned_statement :: pdf_file where
  "scanned_statement = \<lparr>path = ''statements/scan.pdf'', content = Some [Some ''  scan '']\<rparr>"

definition no_ocr :: "unit document_processor" where
  "no_ocr = \<lparr>poppler_path = None, ocr_reader = None, convert_from_path = (\<lambda>pp f. None)\<rparr>"

definition other_path :: "pdf_file \<Rightarrow> doc_result" where
  "other_path f =
     \<lparr>dr_processing_method = ''hybrid_extraction'', dr_transactions = [],
      dr_confidence = ''medium'', dr_processing_time = Some ''medium'', dr_error = None\<rparr>"

text \<open>A Tangerine statement and a TD statement whose first line after the header is an
  opening balance with an amount that is not zero.\<close>

definition tangerine_statement :: pdf_file where
  "tangerine_statement =
     \<lparr>path = ''statements/tangerine.pdf'',
      content = Some [Some (''Orange Key 12345678S1'' @ newline @
                            ''Transaction Date Transaction Description Amount Balance'' @ newline @
                            ''01 Oct 2021 Opening Balance 100.00 664.54'' @ newline @
                            ''01 Oct 2021'' @ newline @
                            ''Interac Transfer'' @ newline @
                            ''45.00 619.54'')]\<rparr>"

definition td_opening_statement :: pdf_file where
  "td_opening_statement =
     \<lparr>path = ''statements/td2.pdf'',
      content = Some [Some (''STATEMENT OF ACCOUNT'' @ newline @
                            ''Credits'' @ newline @
                            ''07/01 Opening Balance 3,750.00'')]\<rparr>"

section \<open>Amount parsing\<close>

text \<open>
  C2: \<open>clean_amount\<close> maps "$1,234.56" to 1234.56, "($45.00)" to -45.00, "-$3.20" to
  -3.20 and "12.00" to 12.00.
\<close>

theorem clean_amount_examples:
  "clean_amount ''$1,234.56'' = 1234.56 \<and>
   clean_amount ''($45.00)'' = - 45.00 \<and>
   clean_amount ''-$3.20'' = - 3.20 \<and>
   clean_amount ''12.00'' = 12.00"
  by code_simp

section \<open>Bank identification\<close>

lemma first_processor_find:
  "first_processor procs text fn = List.find (\<lambda>p. can_process p text fn) procs"
  by (induction procs) auto

lemma identify_bank_at:
  assumes "content f = Some pages" and "i < length procs"
      and "can_process (procs ! i) (sample_text pages) (basename (path f))"
      and "\<forall>j < i. \<not> can_process (procs ! j) (sample_text pages) (basename (path f))"
  shows "identify_bank procs f = Some (procs ! i)"
  using assms
  by (auto simp: identify_bank_def first_processor_find find_Some_iff)

text \<open>
  C7: for a file that opens, \<open>identify_bank\<close> returns the first processor of the registry,
  in its order, whose \<open>can_process\<close> holds of the sampled text and the file name, and
  \<open>None\<close> exactly when no processor's does.
\<close>

theorem identify_bank_first_match:
  assumes "content f = Some pages"
  shows "(identify_bank procs f = None \<longleftrightarrow>
            (\<forall>p \<in> set procs. \<not> can_process p (sample_text pages) (basename (path f)))) \<and>
         (\<forall>p. identify_bank procs f = Some p \<longleftrightarrow>
            (\<exists>i < length procs. procs ! i = p \<and>
               can_process p (sample_text pages) (basename (path f)) \<and>
               (\<forall>j < i. \<not> can_process (procs ! j) (sample_text pages) (basename (path f)))))"
  using assms
  by (auto simp: identify_bank_def first_processor_find find_None_iff find_Some_iff)

theorem identify_bank_first_match_witness:
  "content rbc_statement \<noteq> None \<and>
   identify_bank registry rbc_statement = Some (registry ! 7) \<and>
   bank_name (registry ! 7) = ''RBC Bank''"
proof -
  define pages where "pages = [Some (''Royal Bank of Canada'' @ newline @
                            ''Details of your account activity'' @ newline @
                            ''3 Mar  DEPOSIT  100.00'' @ newline @
                            ''  WITHDRAWAL  20.00'')]"
  have c: "content rbc_statement = Some pages"
    by (simp add: rbc_statement_def pages_def)
  have len: "7 < length registry"
    by (simp add: registry_def processors_def)
  have yes: "can_process (registry ! 7) (sample_text pages) (basename (path rbc_statement))"
    unfolding pages_def by code_simp
  have no: "list_all (\<lambda>j. \<not> can_process (registry ! j) (sample_text pages)
                              (basename (path rbc_statement))) [0..<7]"
    unfolding pages_def by code_simp
  then have no': "\<forall>j < 7. \<not> can_process (registry ! j) (sample_text pages)
                              (basename (path rbc_statement))"
    by (simp add: list_all_iff)
  from identify_bank_first_match[OF c, of registry] len yes no'
  have "identify_bank registry rbc_statement = Some (registry ! 7)"
    by blast
  moreover have "bank_name (registry ! 7) = ''RBC Bank''"
    by code_simp
  ultimately show ?thesis using c by simp
qed

section \<open>Direction and spending flag\<close>

lemma standard_fields_sel [simp]:
  "transaction_type (standard_fields b a t) = transaction_type t"
  "is_spending (standard_fields b a t) = is_spending t"
  "amount (standard_fields b a t) = amount t"
  "abs_amount (standard_fields b a t) = Some \<bar>a\<bar>"
  "processing_method (standard_fields b a t) \<noteq> None"
  "confidence_level (standard_fields b a t) \<noteq> None"
  by (simp_all add: standard_fields_def)

lemma default_rule_sel [simp]:
  "transaction_type (default_rule b a t) =
     Some (if is_credit_card_bank b then (if a > 0 then ''debit'' else ''credit'')
           else (if a < 0 then ''debit'' else ''credit''))"
  "is_spending (default_rule b a t) = Some (if is_credit_card_bank b then a > 0 else a < 0)"
  "amount (default_rule b a t) = amount t"
  by (simp_all add: default_rule_def)

lemma classify_tx_Inr:
  assumes "classify_tx t = Inr t'"
  obtains b a where "bank t = Some b" "amount t = Some a"
    "t' = standard_fields b a (if transaction_type t = None \<or> is_spending t = None
                               then default_rule b a t else t)"
  using assms unfolding classify_tx_def by (cases "bank t"; cases "amount t") simp_all

lemma classify_all_Inr:
  "classify_all ts = Inr ts' \<Longrightarrow>
     length ts' = length ts \<and> (\<forall>i < length ts. classify_tx (ts ! i) = Inr (ts' ! i))"
proof (induction ts arbitrary: ts')
  case Nil
  then show ?case by simp
next
  case (Cons t ts)
  from Cons.prems obtain u us where u: "classify_tx t = Inr u" and us: "classify_all ts = Inr us"
    and ts': "ts' = u # us"
    by (auto split: sum.splits)
  from Cons.IH[OF us] have ih: "length us = length ts"
    "\<forall>i < length ts. classify_tx (ts ! i) = Inr (us ! i)"
    by auto
  show ?case
  proof (intro conjI allI impI)
    show "length ts' = length (t # ts)" using ih ts' by simp
  next
    fix i assume "i < length (t # ts)"
    then show "classify_tx ((t # ts) ! i) = Inr (ts' ! i)"
      using u ih ts' by (cases i) auto
  qed
qed

lemma process_document_success:
  assumes "res_error (process_document procs f) = None"
  shows "\<exists>p. identify_bank procs f = Some p \<and>
             classify_all (extract_transactions p f)
               = Inr (res_transactions (process_document procs f))"
  using assms by (auto simp: process_document_def split: option.splits sum.splits)

lemma classify_tx_default:
  assumes "classify_tx t = Inr t'" and "transaction_type t = None \<or> is_spending t = None"
  shows "\<exists>b a. bank t = Some b \<and> amount t = Some a \<and>
     transaction_type t' =
       Some (if is_credit_card_bank b then (if a > 0 then ''debit'' else ''credit'')
             else (if a < 0 then ''debit'' else ''credit'')) \<and>
     is_spending t' = Some (if is_credit_card_bank b then a > 0 else a < 0)"
proof -
  from assms(1) obtain b a where ba: "bank t = Some b" "amount t = Some a"
    and t': "t' = standard_fields b a (if transaction_type t = None \<or> is_spending t = None
                                       then default_rule b a t else t)"
    by (rule classify_tx_Inr)
  from t' assms(2) have "t' = standard_fields b a (default_rule b a t)" by simp
  then have "transaction_type t' =
       Some (if is_credit_card_bank b then (if a > 0 then ''debit'' else ''credit'')
             else (if a < 0 then ''debit'' else ''credit''))"
     "is_spending t' = Some (if is_credit_card_bank b then a > 0 else a < 0)"
    by (simp_all only: standard_fields_sel default_rule_sel)
  with ba show ?thesis by blast
qed



section \<open>What the extractors classify\<close>

text \<open>A record that carries a direction and the matching spending flag.\<close>

lemma over_pages_set:
  assumes "t \<in> set (over_pages per_page f)"
  shows "\<exists>page_num text. t \<in> set (per_page page_num text)"
  using assms
  by (auto simp: over_pages_def split: option.splits if_splits)

lemma new_tx_sel [simp]:
  "bank (new_tx d desc a pg b c) = Some b"
  "amount (new_tx d desc a pg b c) = Some a"
  "transaction_type (new_tx d desc a pg b c) = None"
  "is_spending (new_tx d desc a pg b c) = None"
  by (simp_all add: new_tx_def)

lemma parse_td_transaction_fields:
  assumes "parse_td_transaction line pg section = Some t"
  shows "bank t = Some ''TD Bank'' \<and> amount t \<noteq> None \<and>
         transaction_type t = Some (if section = ''debits'' then ''debit'' else ''credit'') \<and>
         is_spending t = Some (section = ''debits'')"
proof -
  from assms obtain m where m: "re_match td_line_pattern line = Some m"
    by (cases "re_match td_line_pattern line") (simp_all add: parse_td_transaction_def)
  have neq: "''credits'' \<noteq> ''debits''" by simp
  show ?thesis
  proof (cases "section = ''credits''")
    case True
    with assms m neq show ?thesis
      by (auto simp: parse_td_transaction_def Let_def)
  next
    case False
    with assms m show ?thesis
      by (cases "section = ''debits''") (auto simp: parse_td_transaction_def Let_def)
  qed
qed

lemma in_guarded_option:
  "t \<in> set (if c then (case p of None \<Rightarrow> [] | Some u \<Rightarrow> [u]) else []) \<Longrightarrow> c \<and> p = Some t"
  by (cases c; cases p) simp_all

lemma in_option_list:
  "t \<in> set (case p of None \<Rightarrow> [] | Some u \<Rightarrow> [u]) \<Longrightarrow> p = Some t"
  by (cases p) simp_all

lemma td_line_cases:
  "td_lines pg sec (l # ls) =
     (if strip l = ''Credits'' then td_lines pg (Some ''credits'') ls
      else if strip l = ''Debits'' then td_lines pg (Some ''debits'') ls
      else if contains (strip l) ''DAILY ACCOUNT ACTIVITY'' then td_lines pg (Some ''credits'') ls
      else (case sec of
              None \<Rightarrow> []
            | Some section \<Rightarrow>
                if section \<noteq> [] \<and> is_td_transaction (strip l)
                then (case parse_td_transaction (strip l) pg section of
                        None \<Rightarrow> [] | Some t \<Rightarrow> [t])
                else [])
           @ td_lines pg sec ls)"
  by (simp add: Let_def)

lemma td_lines_from_parse:
  "t \<in> set (td_lines pg sec ls) \<Longrightarrow>
     \<exists>line section. parse_td_transaction line pg section = Some t"
proof (induction ls arbitrary: sec)
  case Nil
  then show ?case by simp
next
  case (Cons l ls)
  show ?case
  proof (cases "strip l = ''Credits'' \<or> strip l = ''Debits'' \<or>
                contains (strip l) ''DAILY ACCOUNT ACTIVITY''")
    case True
    then have "td_lines pg sec (l # ls) = td_lines pg (Some ''credits'') ls
               \<or> td_lines pg sec (l # ls) = td_lines pg (Some ''debits'') ls"
      by (auto simp only: td_line_cases split: if_splits)
    with Cons.prems obtain sec' where "t \<in> set (td_lines pg sec' ls)"
      by auto
    then show ?thesis by (rule Cons.IH)
  next
    case False
    then have eq: "td_lines pg sec (l # ls) =
        (case sec of
           None \<Rightarrow> []
         | Some section \<Rightarrow>
             if section \<noteq> [] \<and> is_td_transaction (strip l)
             then (case parse_td_transaction (strip l) pg section of
                     None \<Rightarrow> [] | Some t \<Rightarrow> [t])
             else [])
        @ td_lines pg sec ls"
      by (simp only: td_line_cases if_False de_Morgan_disj)
    show ?thesis
    proof (cases sec)
      case None
      with eq have "td_lines pg sec (l # ls) = td_lines pg sec ls"
        by (simp only: option.case append_Nil)
      with Cons.prems have "t \<in> set (td_lines pg sec ls)" by (simp only:)
      then show ?thesis by (rule Cons.IH)
    next
      case (Some s)
      with eq have "set (td_lines pg sec (l # ls)) =
          set (if s \<noteq> [] \<and> is_td_transaction (strip l)
               then (case parse_td_transaction (strip l) pg s of
                       None \<Rightarrow> [] | Some t \<Rightarrow> [t])
               else [])
          \<union> set (td_lines pg sec ls)"
        by (simp only: set_append option.case)
      with Cons.prems have
        "t \<in> set (if s \<noteq> [] \<and> is_td_transaction (strip l)
                     then (case parse_td_transaction (strip l) pg s of
                             None \<Rightarrow> [] | Some t \<Rightarrow> [t])
                     else [])
         \<or> t \<in> set (td_lines pg sec ls)"
        by blast
      then show ?thesis
      proof
        assume "t \<in> set (td_lines pg sec ls)"
        then show ?thesis by (rule Cons.IH)
      next
        assume "t \<in> set (if s \<noteq> [] \<and> is_td_transaction (strip l)
                     then (case parse_td_transaction (strip l) pg s of
                             None \<Rightarrow> [] | Some t \<Rightarrow> [t])
                     else [])"
        then have "parse_td_transaction (strip l) pg s = Some t"
          by (blast dest: in_guarded_option)
        then show ?thesis by blast
      qed
    qed
  qed
qed

lemma td_lines_section:
  assumes "\<forall>l \<in> set ls. strip l \<noteq> ''Credits'' \<and> strip l \<noteq> ''Debits'' \<and>
                        \<not> contains (strip l) ''DAILY ACCOUNT ACTIVITY''"
      and "t \<in> set (td_lines pg (Some s) ls)"
  shows "\<exists>line. parse_td_transaction line pg s = Some t"
  using assms
proof (induction ls)
  case Nil
  then show ?case by simp
next
  case (Cons l ls)
  from Cons.prems(1) have no: "strip l \<noteq> ''Credits''" "strip l \<noteq> ''Debits''"
    "\<not> contains (strip l) ''DAILY ACCOUNT ACTIVITY''"
    and others: "\<forall>l \<in> set ls. strip l \<noteq> ''Credits'' \<and> strip l \<noteq> ''Debits'' \<and>
                        \<not> contains (strip l) ''DAILY ACCOUNT ACTIVITY''"
    by auto
  from no have eq: "td_lines pg (Some s) (l # ls) =
      (if s \<noteq> [] \<and> is_td_transaction (strip l)
       then (case parse_td_transaction (strip l) pg s of
               None \<Rightarrow> [] | Some t \<Rightarrow> [t])
       else [])
      @ td_lines pg (Some s) ls"
    by (simp add: td_line_cases)
  from eq have "set (td_lines pg (Some s) (l # ls)) =
      set (if s \<noteq> [] \<and> is_td_transaction (strip l)
           then (case parse_td_transaction (strip l) pg s of
                   None \<Rightarrow> [] | Some t \<Rightarrow> [t])
           else [])
      \<union> set (td_lines pg (Some s) ls)"
    by (simp only: set_append)
  with Cons.prems(2) have
    "t \<in> set (if s \<noteq> [] \<and> is_td_transaction (strip l)
                then (case parse_td_transaction (strip l) pg s of
                        None \<Rightarrow> [] | Some t \<Rightarrow> [t])
                else [])
     \<or> t \<in> set (td_lines pg (Some s) ls)"
    by blast
  then show ?case
  proof
    assume "t \<in> set (td_lines pg (Some s) ls)"
    with others show ?thesis by (rule Cons.IH)
  next
    assume "t \<in> set (if s \<noteq> [] \<and> is_td_transaction (strip l)
                then (case parse_td_transaction (strip l) pg s of
                        None \<Rightarrow> [] | Some t \<Rightarrow> [t])
                else [])"
    then have "parse_td_transaction (strip l) pg s = Some t"
      by (blast dest: in_guarded_option)
    then show ?thesis by blast
  qed
qed

lemma classify_tx_preset:
  assumes "bank t = Some b" and "amount t = Some a"
      and "transaction_type t \<noteq> None" and "is_spending t \<noteq> None"
  shows "classify_tx t = Inr (standard_fields b a t)"
  using assms by (auto simp: classify_tx_def)

lemma classify_all_preset:
  assumes "\<forall>t \<in> set ts. bank t \<noteq> None \<and> amount t \<noteq> None \<and>
                         transaction_type t \<noteq> None \<and> is_spending t \<noteq> None"
  shows "\<exists>ts'. classify_all ts = Inr ts' \<and>
               map transaction_type ts' = map transaction_type ts \<and>
               map is_spending ts' = map is_spending ts"
  using assms
proof (induction ts)
  case Nil
  then show ?case by simp
next
  case (Cons t ts)
  from Cons.prems obtain b a where ba: "bank t = Some b" "amount t = Some a"
    and set: "transaction_type t \<noteq> None" "is_spending t \<noteq> None"
    by auto
  from Cons.prems Cons.IH obtain ts' where ts': "classify_all ts = Inr ts'"
    "map transaction_type ts' = map transaction_type ts"
    "map is_spending ts' = map is_spending ts"
    by auto
  from classify_tx_preset[OF ba set] ts'
  have "classify_all (t # ts) = Inr (standard_fields b a t # ts')"
    by simp
  with ts' show ?case by simp
qed

lemma process_document_result:
  assumes "identify_bank procs f = Some p"
      and "classify_all (extract_transactions p f) = Inr ts'"
  shows "res_error (process_document procs f) = None \<and>
         res_transactions (process_document procs f) = ts'"
  using assms by (simp add: process_document_def)

lemma td_records_fields:
  assumes "t \<in> set (extract_transactions TDProcessor f)"
  shows "bank t \<noteq> None \<and> amount t \<noteq> None \<and>
         ((transaction_type t = Some ''debit'' \<and> is_spending t = Some True) \<or>
          (transaction_type t = Some ''credit'' \<and> is_spending t = Some False))"
proof -
  from assms have "t \<in> set (over_pages td_page f)"
    by (simp add: TDProcessor_def)
  then obtain pg body where "t \<in> set (td_page pg body)"
    by (blast dest: over_pages_set)
  then obtain line s where "parse_td_transaction line pg s = Some t"
    unfolding td_page_def by (blast dest: td_lines_from_parse)
  from parse_td_transaction_fields[OF this] show ?thesis
    by (cases "s = ''debits''") simp_all
qed

section \<open>Section headers\<close>

text \<open>
  C3: in the TD Bank format a line parsed in the section \<open>Debits\<close> gives a record with
  \<open>transaction_type = debit\<close> and \<open>is_spending = True\<close>, a line parsed in the section
  \<open>Credits\<close> one with \<open>credit\<close> and \<open>False\<close>, whatever the line says and whatever the
  sign of its amount: a header line sets the section, and the lines after it up to the
  next header are classified by it. \<open>process_document\<close> succeeds on the records of the
  TD extractor and leaves their direction and their spending flag as the extractor set
  them.
\<close>

theorem td_section_classification:
  assumes "identify_bank procs f = Some p"
      and "extract_transactions p f = extract_transactions TDProcessor f"
  shows "(\<forall>line pg t. parse_td_transaction line pg ''debits'' = Some t \<longrightarrow>
            transaction_type t = Some ''debit'' \<and> is_spending t = Some True) \<and>
         (\<forall>line pg t. parse_td_transaction line pg ''credits'' = Some t \<longrightarrow>
            transaction_type t = Some ''credit'' \<and> is_spending t = Some False) \<and>
         (\<forall>pg sec ls. td_lines pg sec (''Debits'' # ls) = td_lines pg (Some ''debits'') ls \<and>
                      td_lines pg sec (''Credits'' # ls) = td_lines pg (Some ''credits'') ls) \<and>
         (\<forall>pg ls. (\<forall>l \<in> set ls. strip l \<noteq> ''Credits'' \<and> strip l \<noteq> ''Debits'' \<and>
                                 \<not> contains (strip l) ''DAILY ACCOUNT ACTIVITY'') \<longrightarrow>
            (\<forall>t \<in> set (td_lines pg (Some ''debits'') ls).
               transaction_type t = Some ''debit'' \<and> is_spending t = Some True) \<and>
            (\<forall>t \<in> set (td_lines pg (Some ''credits'') ls).
               transaction_type t = Some ''credit'' \<and> is_spending t = Some False)) \<and>
         res_error (process_document procs f) = None \<and>
         map transaction_type (res_transactions (process_document procs f))
           = map transaction_type (extract_transactions TDProcessor f) \<and>
         map is_spending (res_transactions (process_document procs f))
           = map is_spending (extract_transactions TDProcessor f)"
proof -
  have debits: "transaction_type t = Some ''debit'' \<and> is_spending t = Some True"
    if "parse_td_transaction line pg ''debits'' = Some t" for line pg t
    using parse_td_transaction_fields[OF that] by simp
  have credits: "transaction_type t = Some ''credit'' \<and> is_spending t = Some False"
    if "parse_td_transaction line pg ''credits'' = Some t" for line pg t
    using parse_td_transaction_fields[OF that] by simp
  have headers: "td_lines pg sec (''Debits'' # ls) = td_lines pg (Some ''debits'') ls \<and>
                 td_lines pg sec (''Credits'' # ls) = td_lines pg (Some ''credits'') ls"
    for pg sec ls
  proof -
    have "strip ''Debits'' = ''Debits''" "strip ''Credits'' = ''Credits''"
      by code_simp+
    then show ?thesis by (simp add: td_line_cases)
  qed
  have run: "(\<forall>t \<in> set (td_lines pg (Some ''debits'') ls).
               transaction_type t = Some ''debit'' \<and> is_spending t = Some True) \<and>
            (\<forall>t \<in> set (td_lines pg (Some ''credits'') ls).
               transaction_type t = Some ''credit'' \<and> is_spending t = Some False)"
    if "\<forall>l \<in> set ls. strip l \<noteq> ''Credits'' \<and> strip l \<noteq> ''Debits'' \<and>
                          \<not> contains (strip l) ''DAILY ACCOUNT ACTIVITY''" for pg ls
    using td_lines_section[OF that] debits credits by blast
  have "\<forall>t \<in> set (extract_transactions p f).
          bank t \<noteq> None \<and> amount t \<noteq> None \<and>
          transaction_type t \<noteq> None \<and> is_spending t \<noteq> None"
    using td_records_fields[of _ f] assms(2) by auto
  from classify_all_preset[OF this] obtain ts' where
    ts': "classify_all (extract_transactions p f) = Inr ts'"
    "map transaction_type ts' = map transaction_type (extract_transactions p f)"
    "map is_spending ts' = map is_spending (extract_transactions p f)"
    by blast
  from process_document_result[OF assms(1) ts'(1)] ts'(2,3) assms(2)
  have through: "res_error (process_document procs f) = None \<and>
         map transaction_type (res_transactions (process_document procs f))
           = map transaction_type (extract_transactions TDProcessor f) \<and>
         map is_spending (res_transactions (process_document procs f))
           = map is_spending (extract_transactions TDProcessor f)"
    by simp
  from debits credits headers run through show ?thesis by blast
qed

text \<open>The witness: in the TD statement the line under \<open>Credits\<close> speaks of a withdrawal
  fee and the line under \<open>Debits\<close> of a deposit refund; the sections decide.\<close>

theorem td_section_classification_witness:
  "map_option bank_name (identify_bank registry td_statement) = Some ''TD Bank'' \<and>
   res_error (process_document registry td_statement) = None \<and>
   map description (extract_transactions TDProcessor td_statement)
     = [''ATM WITHDRAWAL FEE'', ''DEPOSIT REFUND''] \<and>
   map transaction_type (res_transactions (process_document registry td_statement))
     = [Some ''credit'', Some ''debit''] \<and>
   map is_spending (res_transactions (process_document registry td_statement))
     = [Some False, Some True]"
proof -
  let ?p = "registry ! 3"
  let ?pages = "[Some (''STATEMENT OF ACCOUNT'' @ newline @
                            ''DAILY ACCOUNT ACTIVITY'' @ newline @
                            ''Credits'' @ newline @
                            ''07/02 ATM WITHDRAWAL FEE 3,750.00'' @ newline @
                            ''Debits'' @ newline @
                            ''07/03 DEPOSIT REFUND 20.00'')]"
  have c: "content td_statement = Some ?pages"
    by (simp add: td_statement_def)
  have len: "3 < length registry"
    by (simp add: registry_def processors_def)
  have yes: "can_process ?p (sample_text ?pages) (basename (path td_statement))"
    by code_simp
  have "list_all (\<lambda>j. \<not> can_process (registry ! j) (sample_text ?pages)
                              (basename (path td_statement))) [0..<3]"
    by code_simp
  then have no: "\<forall>j < 3. \<not> can_process (registry ! j) (sample_text ?pages)
                              (basename (path td_statement))"
    by (simp add: list_all_iff)
  from identify_bank_at[OF c len yes no]
  have ident: "identify_bank registry td_statement = Some ?p" .
  have p: "?p = TDProcessor"
    by (simp add: registry_def processors_def)
  then have same: "extract_transactions ?p td_statement
                     = extract_transactions TDProcessor td_statement"
    by simp
  have records:
    "map description (extract_transactions TDProcessor td_statement)
       = [''ATM WITHDRAWAL FEE'', ''DEPOSIT REFUND'']"
    "map transaction_type (extract_transactions TDProcessor td_statement)
       = [Some ''credit'', Some ''debit'']"
    "map is_spending (extract_transactions TDProcessor td_statement)
       = [Some False, Some True]"
    by code_simp+
  have name: "bank_name TDProcessor = ''TD Bank''"
    by (simp add: TDProcessor_def)
  from td_section_classification[OF ident same] records ident p name
  show ?thesis by simp
qed

section \<open>What the other extractors classify\<close>

lemma tangerine_classify_cases:
  "tangerine_classify dl by_sign = (''credit'', False) \<or>
   tangerine_classify dl by_sign = (''debit'', True) \<or>
   tangerine_classify dl by_sign = by_sign"
  by (simp add: tangerine_classify_def)

lemma tangerine_record_classified:
  assumes "by_sign = (''credit'', False) \<or> by_sign = (''debit'', True)"
  shows "classified (tangerine_record d desc a bal pg (tangerine_classify dl by_sign))"
  using assms tangerine_classify_cases[of dl by_sign]
  by (auto simp: tangerine_record_def classified_def)

lemma tangerine_record_fields [simp]:
  "bank (tangerine_record d desc a bal pg cls) = Some ''Tangerine''"
  "amount (tangerine_record d desc a bal pg cls) = Some a"
  by (simp_all add: tangerine_record_def)

lemma tangerine_record_classified_cases:
  "classified (tangerine_record d desc a bal pg (tangerine_classify dl (''credit'', False)))"
  "classified (tangerine_record d desc a bal pg (tangerine_classify dl (''debit'', True)))"
  "0 < x \<Longrightarrow>
     classified (tangerine_record d desc a bal pg (tangerine_classify dl (''credit'', x \<le> (0::real))))"
  "\<not> 0 < x \<Longrightarrow>
     classified (tangerine_record d desc a bal pg (tangerine_classify dl (''debit'', x \<le> (0::real))))"
proof -
  show "classified (tangerine_record d desc a bal pg (tangerine_classify dl (''credit'', False)))"
    by (rule tangerine_record_classified) simp
  show "classified (tangerine_record d desc a bal pg (tangerine_classify dl (''debit'', True)))"
    by (rule tangerine_record_classified) simp
  show "classified (tangerine_record d desc a bal pg (tangerine_classify dl (''credit'', x \<le> 0)))"
    if "0 < x"
    using that by (intro tangerine_record_classified) simp
  show "classified (tangerine_record d desc a bal pg (tangerine_classify dl (''debit'', x \<le> 0)))"
    if "\<not> 0 < x"
    using that by (intro tangerine_record_classified) simp
qed

lemma parse_tangerine_transaction_classified:
  assumes "parse_tangerine_transaction line pg = Some t"
  shows "classified t \<and> bank t \<noteq> None \<and> amount t \<noteq> None"
  using assms
  unfolding parse_tangerine_transaction_def Let_def
  by (auto split: if_splits simp: tangerine_record_classified_cases)

lemma finish_multiline_classified:
  assumes "finish_multiline ds desc a bal pg n = (Some t, n')"
  shows "classified t \<and> bank t \<noteq> None \<and> amount t \<noteq> None"
  using assms
  unfolding finish_multiline_def Let_def
  by (auto split: if_splits simp: tangerine_record_classified_cases)

lemma parse_tangerine_multiline_classified:
  assumes "parse_tangerine_multiline_transaction lines i pg = (Some t, n)"
  shows "classified t \<and> bank t \<noteq> None \<and> amount t \<noteq> None"
  using assms
  unfolding parse_tangerine_multiline_transaction_def Let_def
  by (auto split: if_splits prod.splits option.splits
           dest: parse_tangerine_transaction_classified finish_multiline_classified)

lemma tangerine_loop_from_parse:
  "t \<in> set (tangerine_loop pg lines sec i) \<Longrightarrow>
     \<exists>j n. parse_tangerine_multiline_transaction lines j pg = (Some t, n)"
proof (induction pg lines sec i rule: tangerine_loop.induct)
  case (1 pg lines sec i)
  show ?case
  proof (cases "i < length lines")
    case False
    with "1.prems" show ?thesis by (simp add: tangerine_loop.simps)
  next
    case True
    define line where "line = strip (lines ! i)"
    define header where "header \<longleftrightarrow>
       (contains line ''Transaction Date'' \<and> contains line ''Transaction Description'')
       \<or> (contains line ''Transaction Date'' \<and> contains line ''Amount'')"
    define reset where "reset \<longleftrightarrow>
       contains line ''Current Interest Rate'' \<or> contains line ''The Details -''"
    consider (a) header | (b) "\<not> header" reset
      | (c) "\<not> header" "\<not> reset" "sec \<and> is_tangerine_transaction line"
      | (d) "\<not> header" "\<not> reset" "\<not> (sec \<and> is_tangerine_transaction line)"
      by blast
    then show ?thesis
    proof cases
      case a
      with True have "tangerine_loop pg lines sec i = tangerine_loop pg lines True (i + 1)"
        unfolding header_def line_def
        by (subst tangerine_loop.simps) (auto simp: Let_def)
      with "1.prems" have "t \<in> set (tangerine_loop pg lines True (i + 1))"
        by (simp only:)
      with "1.IH"(1)[OF True line_def] a show ?thesis
        by (simp add: header_def)
    next
      case b
      with True have "tangerine_loop pg lines sec i = tangerine_loop pg lines False (i + 1)"
        unfolding header_def reset_def line_def
        by (subst tangerine_loop.simps) (auto simp: Let_def)
      with "1.prems" have "t \<in> set (tangerine_loop pg lines False (i + 1))"
        by (simp only:)
      with "1.IH"(2)[OF True line_def] b show ?thesis
        by (simp add: header_def reset_def)
    next
      case c
      obtain r n where rn: "parse_tangerine_multiline_transaction lines i pg = (r, n)"
        by (cases "parse_tangerine_multiline_transaction lines i pg")
      with c True have "tangerine_loop pg lines sec i =
          (case r of None \<Rightarrow> [] | Some u \<Rightarrow> [u]) @ tangerine_loop pg lines sec (i + n)"
        unfolding header_def reset_def line_def
        by (subst tangerine_loop.simps) (auto simp: Let_def)
      then have "set (tangerine_loop pg lines sec i) =
          set (case r of None \<Rightarrow> [] | Some u \<Rightarrow> [u]) \<union> set (tangerine_loop pg lines sec (i + n))"
        by (simp only: set_append)
      with "1.prems" have
        "t \<in> set (case r of None \<Rightarrow> [] | Some u \<Rightarrow> [u])
         \<or> t \<in> set (tangerine_loop pg lines sec (i + n))"
        by blast
      then show ?thesis
      proof
        assume "t \<in> set (case r of None \<Rightarrow> [] | Some u \<Rightarrow> [u])"
        then have "r = Some t" by (rule in_option_list)
        with rn show ?thesis by blast
      next
        assume "t \<in> set (tangerine_loop pg lines sec (i + n))"
        moreover from c have
          "\<not> ((contains line ''Transaction Date'' \<and> contains line ''Transaction Description'')
              \<or> (contains line ''Transaction Date'' \<and> contains line ''Amount''))"
          "\<not> (contains line ''Current Interest Rate'' \<or> contains line ''The Details -'')"
          "sec \<and> is_tangerine_transaction line"
          by (simp_all add: header_def reset_def)
        ultimately show ?thesis
          using "1.IH"(3)[OF True line_def _ _ _ rn[symmetric]] by blast
      qed
    next
      case d
      with True have "tangerine_loop pg lines sec i = tangerine_loop pg lines sec (i + 1)"
        unfolding header_def reset_def line_def
        by (subst tangerine_loop.simps) (auto simp: Let_def)
      with "1.prems" have "t \<in> set (tangerine_loop pg lines sec (i + 1))"
        by (simp only:)
      with "1.IH"(4)[OF True line_def] d show ?thesis
        by (simp add: header_def reset_def)
    qed
  qed
qed

lemma parse_rbc_transaction_line_fields:
  assumes "parse_rbc_transaction_line d line pg = Some t"
  shows "classified t \<and> bank t \<noteq> None \<and> amount t \<noteq> None \<and> date t = d"
  using assms
  unfolding parse_rbc_transaction_line_def Let_def
  by (auto split: if_splits list.splits prod.splits simp: classified_def new_tx_def)

lemma rbc_line_skip:
  assumes "strip l = [] \<or>
           any_in [''date'', ''description'', ''withdrawals'', ''deposits'', ''balance'']
             (lower (strip l))"
  shows "rbc_line pg cur l = (cur, [])"
  using assms by (auto simp: rbc_line_def Let_def)

lemma rbc_line_dated:
  assumes "strip l \<noteq> []"
      and "\<not> any_in [''date'', ''description'', ''withdrawals'', ''deposits'', ''balance'']
               (lower (strip l))"
      and "rbc_date_match (strip l) = Some dm"
  shows "rbc_line pg cur l =
           (Some (parse_rbc_date (grp dm 1)),
            if strip (replace (strip l) (grp dm 1) []) \<noteq> []
            then (case parse_rbc_transaction_line (parse_rbc_date (grp dm 1))
                         (strip (replace (strip l) (grp dm 1) [])) pg of
                    None \<Rightarrow> [] | Some t \<Rightarrow> [t])
            else [])"
  using assms by (simp add: rbc_line_def Let_def)

lemma rbc_line_carried:
  assumes "strip l \<noteq> []"
      and "\<not> any_in [''date'', ''description'', ''withdrawals'', ''deposits'', ''balance'']
               (lower (strip l))"
      and "rbc_date_match (strip l) = None"
  shows "rbc_line pg cur l =
           (cur,
            case cur of
              None \<Rightarrow> []
            | Some d \<Rightarrow>
                if d \<noteq> []
                then (case parse_rbc_transaction_line d (strip l) pg of
                        None \<Rightarrow> [] | Some t \<Rightarrow> [t])
                else [])"
  using assms by (simp add: rbc_line_def Let_def)

lemma rbc_line_found:
  assumes "t \<in> set (snd (rbc_line pg cur l))"
  shows "\<exists>d line. parse_rbc_transaction_line d line pg = Some t"
proof (cases "strip l = [] \<or>
           any_in [''date'', ''description'', ''withdrawals'', ''deposits'', ''balance'']
             (lower (strip l))")
  case True
  from rbc_line_skip[OF this] assms show ?thesis by simp
next
  case False
  then have ne: "strip l \<noteq> []"
    and ns: "\<not> any_in [''date'', ''description'', ''withdrawals'', ''deposits'', ''balance'']
               (lower (strip l))"
    by auto
  show ?thesis
  proof (cases "rbc_date_match (strip l)")
    case (Some dm)
    from rbc_line_dated[OF ne ns Some] assms
    have "t \<in> set (if strip (replace (strip l) (grp dm 1) []) \<noteq> []
            then (case parse_rbc_transaction_line (parse_rbc_date (grp dm 1))
                         (strip (replace (strip l) (grp dm 1) [])) pg of
                    None \<Rightarrow> [] | Some t \<Rightarrow> [t])
            else [])"
      by (simp only: snd_conv)
    then show ?thesis by (blast dest: in_guarded_option)
  next
    case None
    note carried = rbc_line_carried[OF ne ns None]
    show ?thesis
    proof (cases cur)
      case None
      with carried assms show ?thesis by simp
    next
      case (Some d)
      with carried assms
      have "t \<in> set (if d \<noteq> []
                then (case parse_rbc_transaction_line d (strip l) pg of
                        None \<Rightarrow> [] | Some t \<Rightarrow> [t])
                else [])"
        by (simp only: snd_conv option.case)
      then show ?thesis by (blast dest: in_guarded_option)
    qed
  qed
qed

lemma rbc_lines_from_parse:
  "t \<in> set (rbc_lines pg cur ls) \<Longrightarrow>
     \<exists>d line. parse_rbc_transaction_line d line pg = Some t"
proof (induction ls arbitrary: cur)
  case Nil
  then show ?case by simp
next
  case (Cons l ls)
  obtain nd found where step: "rbc_line pg cur l = (nd, found)"
    by (cases "rbc_line pg cur l")
  then have "set (rbc_lines pg cur (l # ls)) = set found \<union> set (rbc_lines pg nd ls)"
    by simp
  with Cons.prems have "t \<in> set found \<or> t \<in> set (rbc_lines pg nd ls)"
    by blast
  then show ?case
  proof
    assume "t \<in> set found"
    with step have "t \<in> set (snd (rbc_line pg cur l))" by simp
    then show ?thesis by (rule rbc_line_found)
  next
    assume "t \<in> set (rbc_lines pg nd ls)"
    then show ?thesis by (rule Cons.IH)
  qed
qed

lemma eq_records_fields:
  assumes "parse_eq_transaction now line pg = Some t"
  shows "bank t \<noteq> None \<and> amount t \<noteq> None \<and> transaction_type t = None"
  using assms
  unfolding parse_eq_transaction_def Let_def
  by (auto split: option.splits if_splits)

lemma bmo_records_fields:
  assumes "parse_bmo_transaction line pg = Some t"
  shows "bank t \<noteq> None \<and> amount t \<noteq> None \<and> transaction_type t = None"
  using assms
  unfolding parse_bmo_transaction_def Let_def
  by (auto split: option.splits if_splits)

lemma in_page_lines:
  assumes "t \<in> set (concat (map (\<lambda>l. let line = strip l in
                                       if c line then (case p line of None \<Rightarrow> [] | Some u \<Rightarrow> [u])
                                       else []) ls))"
  shows "\<exists>line. p line = Some t"
proof -
  from assms obtain l where
    "t \<in> set (let line = strip l in
               if c line then (case p line of None \<Rightarrow> [] | Some u \<Rightarrow> [u]) else [])"
    by auto
  then have "t \<in> set (if c (strip l) then (case p (strip l) of None \<Rightarrow> [] | Some u \<Rightarrow> [u])
                       else [])"
    by (simp only: Let_def)
  then show ?thesis by (blast dest: in_guarded_option)
qed

lemma eq_records_unclassified:
  assumes "t \<in> set (extract_transactions (EQBankProcessor now) f)"
  shows "transaction_type t = None"
proof -
  from assms have "t \<in> set (over_pages (eq_page now) f)"
    by (simp add: EQBankProcessor_def)
  then obtain pg body where "t \<in> set (eq_page now pg body)"
    by (blast dest: over_pages_set)
  then obtain line where "parse_eq_transaction now line pg = Some t"
    unfolding eq_page_def
    using in_page_lines[where c = is_eq_transaction
                          and p = "\<lambda>line. parse_eq_transaction now line pg"]
    by blast
  then show ?thesis by (simp add: eq_records_fields)
qed

lemma bmo_records_unclassified:
  assumes "t \<in> set (extract_transactions BMOProcessor f)"
  shows "transaction_type t = None"
proof -
  from assms have "t \<in> set (over_pages bmo_page f)"
    by (simp add: BMOProcessor_def)
  then obtain pg body where "t \<in> set (bmo_page pg body)"
    by (blast dest: over_pages_set)
  then obtain line where "parse_bmo_transaction line pg = Some t"
    unfolding bmo_page_def
    using in_page_lines[where c = is_bmo_transaction
                          and p = "\<lambda>line. parse_bmo_transaction line pg"]
    by blast
  then show ?thesis by (simp add: bmo_records_fields)
qed

lemma td_records_classified:
  assumes "t \<in> set (extract_transactions TDProcessor f)"
  shows "classified t"
  using td_records_fields[OF assms] by (simp add: classified_def)

lemma rbc_records_classified:
  assumes "t \<in> set (extract_transactions RBCBankProcessor f)"
  shows "classified t"
proof -
  from assms have "t \<in> set (over_pages rbc_page f)"
    by (simp add: RBCBankProcessor_def)
  then obtain pg body where "t \<in> set (rbc_page pg body)"
    by (blast dest: over_pages_set)
  then have "t \<in> set (rbc_lines pg None (split_lines body))"
    by (cases "contains body ''Details of your account activity''") (simp_all add: rbc_page_def)
  then obtain d line where "parse_rbc_transaction_line d line pg = Some t"
    by (blast dest: rbc_lines_from_parse)
  then show ?thesis by (simp add: parse_rbc_transaction_line_fields)
qed

lemma tangerine_records_classified:
  assumes "t \<in> set (extract_transactions TangerineProcessor f)"
  shows "classified t"
proof -
  from assms have "t \<in> set (over_pages tangerine_page f)"
    by (simp add: TangerineProcessor_def)
  then obtain pg body where "t \<in> set (tangerine_page pg body)"
    by (blast dest: over_pages_set)
  then obtain j n where
    "parse_tangerine_multiline_transaction (split_lines body) j pg = (Some t, n)"
    unfolding tangerine_page_def by (blast dest: tangerine_loop_from_parse)
  then show ?thesis by (simp add: parse_tangerine_multiline_classified)
qed

lemma identified_in_registry:
  assumes "identify_bank procs f = Some p"
  shows "p \<in> set procs"
  using assms
  by (auto simp: identify_bank_def first_processor_find find_Some_iff split: option.splits)

lemma default_rule_classified:
  "classified (default_rule b a t)"
  by (simp add: classified_def)

section \<open>The extractors of the other formats\<close>

lemma plain_lines_from_parse:
  assumes "t \<in> set (plain_lines accept parse text)"
  shows "\<exists>line. parse line = Some t"
  using assms unfolding plain_lines_def
  by (rule in_page_lines)

lemma section_lines_from_parse:
  "t \<in> set (section_lines header stop accept parse sec ls) \<Longrightarrow> \<exists>line. parse line = Some t"
proof (induction ls arbitrary: sec)
  case Nil
  then show ?case by simp
next
  case (Cons l ls)
  define line where "line = strip l"
  consider (h) "header line" | (s) "\<not> header line" "stop line"
    | (o) "\<not> header line" "\<not> stop line"
    by blast
  then show ?case
  proof cases
    case h
    with Cons.prems have "t \<in> set (section_lines header stop accept parse True ls)"
      by (simp add: line_def Let_def)
    then show ?thesis by (rule Cons.IH)
  next
    case s
    with Cons.prems have "t \<in> set (section_lines header stop accept parse False ls)"
      by (simp add: line_def Let_def)
    then show ?thesis by (rule Cons.IH)
  next
    case o
    then have "section_lines header stop accept parse sec (l # ls) =
        (if accept sec line then (case parse line of None \<Rightarrow> [] | Some u \<Rightarrow> [u]) else [])
        @ section_lines header stop accept parse sec ls"
      by (simp add: line_def Let_def)
    then have "set (section_lines header stop accept parse sec (l # ls)) =
        set (if accept sec line then (case parse line of None \<Rightarrow> [] | Some u \<Rightarrow> [u]) else [])
        \<union> set (section_lines header stop accept parse sec ls)"
      by (simp only: set_append)
    with Cons.prems have
      "t \<in> set (if accept sec line then (case parse line of None \<Rightarrow> [] | Some u \<Rightarrow> [u]) else [])
       \<or> t \<in> set (section_lines header stop accept parse sec ls)"
      by blast
    then show ?thesis
    proof
      assume "t \<in> set (if accept sec line
                        then (case parse line of None \<Rightarrow> [] | Some u \<Rightarrow> [u]) else [])"
      then show ?thesis by (blast dest: in_guarded_option)
    next
      assume "t \<in> set (section_lines header stop accept parse sec ls)"
      then show ?thesis by (rule Cons.IH)
    qed
  qed
qed

text \<open>The four extractors that leave the direction to the orchestrator.\<close>

lemma parse_rbc_visa_transaction_fields:
  assumes "parse_rbc_visa_transaction line pg = Some t"
  shows "transaction_type t = None"
  using assms unfolding parse_rbc_visa_transaction_def Let_def
  by (auto split: option.splits)

lemma parse_amex_transaction_fields:
  assumes "parse_amex_transaction line pg = Some t"
  shows "transaction_type t = None"
  using assms unfolding parse_amex_transaction_def Let_def
  by (auto split: option.splits if_splits)

lemma parse_scotia_transaction_fields:
  assumes "parse_scotia_transaction line pg = Some t"
  shows "transaction_type t = None"
  using assms unfolding parse_scotia_transaction_def Let_def
  by (auto split: option.splits if_splits prod.splits)

lemma parse_wise_transaction_fields:
  assumes "parse_wise_transaction line pg period = Some t"
  shows "transaction_type t = None"
  using assms unfolding parse_wise_transaction_def Let_def
  by (auto split: option.splits if_splits)

lemma rbc_visa_records_unclassified:
  assumes "t \<in> set (extract_transactions RBCVisaProcessor f)"
  shows "transaction_type t = None"
proof -
  from assms have "t \<in> set (over_pages rbc_visa_page f)"
    by (simp add: RBCVisaProcessor_def)
  then obtain pg body where "t \<in> set (rbc_visa_page pg body)"
    by (blast dest: over_pages_set)
  then obtain line where "parse_rbc_visa_transaction line pg = Some t"
    unfolding rbc_visa_page_def by (blast dest: plain_lines_from_parse)
  then show ?thesis by (rule parse_rbc_visa_transaction_fields)
qed

lemma amex_records_unclassified:
  assumes "t \<in> set (extract_transactions AmexProcessor f)"
  shows "transaction_type t = None"
proof -
  from assms have "t \<in> set (over_pages amex_page f)"
    by (simp add: AmexProcessor_def)
  then obtain pg body where "t \<in> set (amex_page pg body)"
    by (blast dest: over_pages_set)
  then obtain line where "parse_amex_transaction line pg = Some t"
    unfolding amex_page_def by (blast dest: plain_lines_from_parse)
  then show ?thesis by (rule parse_amex_transaction_fields)
qed

lemma scotia_records_unclassified:
  assumes "t \<in> set (extract_transactions ScotiaProcessor f)"
  shows "transaction_type t = None"
proof -
  from assms have "t \<in> set (over_pages scotia_page f)"
    by (simp add: ScotiaProcessor_def)
  then obtain pg body where "t \<in> set (scotia_page pg body)"
    by (blast dest: over_pages_set)
  then obtain line where "parse_scotia_transaction line pg = Some t"
    unfolding scotia_page_def by (blast dest: plain_lines_from_parse)
  then show ?thesis by (rule parse_scotia_transaction_fields)
qed

lemma wise_pages_from_parse:
  "t \<in> set (wise_pages pg period ps) \<Longrightarrow>
     \<exists>line n sp. parse_wise_transaction line n sp = Some t"
proof (induction ps arbitrary: pg period)
  case Nil
  then show ?case by simp
next
  case (Cons p ps)
  show ?case
  proof (cases p)
    case None
    with Cons.prems have "t \<in> set (wise_pages (pg + 1) period ps)" by simp
    then show ?thesis by (rule Cons.IH)
  next
    case (Some body)
    show ?thesis
    proof (cases "body = []")
      case True
      with Some Cons.prems have "t \<in> set (wise_pages (pg + 1) period ps)" by simp
      then show ?thesis by (rule Cons.IH)
    next
      case False
      define sp where "sp = wise_period (split_lines body) period"
      from False Some have "wise_pages pg period (p # ps) =
          plain_lines is_wise_transaction (\<lambda>line. parse_wise_transaction line pg sp) body
          @ wise_pages (pg + 1) sp ps"
        by (simp add: Let_def sp_def)
      then have "set (wise_pages pg period (p # ps)) =
          set (plain_lines is_wise_transaction (\<lambda>line. parse_wise_transaction line pg sp) body)
          \<union> set (wise_pages (pg + 1) sp ps)"
        by (simp only: set_append)
      with Cons.prems have
        "t \<in> set (plain_lines is_wise_transaction
                    (\<lambda>line. parse_wise_transaction line pg sp) body)
         \<or> t \<in> set (wise_pages (pg + 1) sp ps)"
        by blast
      then show ?thesis
      proof
        assume "t \<in> set (plain_lines is_wise_transaction
                            (\<lambda>line. parse_wise_transaction line pg sp) body)"
        then show ?thesis by (blast dest: plain_lines_from_parse)
      next
        assume "t \<in> set (wise_pages (pg + 1) sp ps)"
        then show ?thesis by (rule Cons.IH)
      qed
    qed
  qed
qed

lemma wise_records_unclassified:
  assumes "t \<in> set (extract_transactions WiseProcessor f)"
  shows "transaction_type t = None"
proof -
  from assms have t: "t \<in> set (wise_extract_transactions f)"
    by (simp add: WiseProcessor_def)
  then obtain pages where "content f = Some pages" and "t \<in> set (wise_pages 1 None pages)"
    by (cases "content f") (simp_all add: wise_extract_transactions_def)
  then obtain line n sp where "parse_wise_transaction line n sp = Some t"
    by (blast dest: wise_pages_from_parse)
  then show ?thesis by (rule parse_wise_transaction_fields)
qed

text \<open>The cards that set the direction by the sign of the amount, and the BMO account by
  the sign of the net amount.\<close>

lemma parse_simplii_transaction_classified:
  assumes "parse_simplii_transaction line pg = Some t"
  shows "classified t"
  using assms unfolding parse_simplii_transaction_def Let_def
  by (auto simp: classified_def split: option.splits if_splits)

lemma parse_td_credit_transaction_classified:
  assumes "parse_td_credit_transaction line pg = Some t"
  shows "classified t"
  using assms unfolding parse_td_credit_transaction_def Let_def
  by (auto simp: classified_def split: option.splits if_splits)

lemma parse_tangerine_credit_transaction_classified:
  assumes "parse_tangerine_credit_transaction line pg = Some t"
  shows "classified t"
  using assms unfolding parse_tangerine_credit_transaction_def Let_def
  by (auto simp: classified_def split: option.splits if_splits)

lemma parse_bmo_account_transaction_classified:
  assumes "parse_bmo_account_transaction line pg = Some t"
  shows "classified t"
  using assms unfolding parse_bmo_account_transaction_def Let_def
  by (auto simp: classified_def split: option.splits if_splits prod.splits)

lemma simplii_records_classified:
  assumes "t \<in> set (extract_transactions SimpliiProcessor f)"
  shows "classified t"
proof -
  from assms have "t \<in> set (over_pages simplii_page f)"
    by (simp add: SimpliiProcessor_def)
  then obtain pg body where "t \<in> set (simplii_page pg body)"
    by (blast dest: over_pages_set)
  then obtain line where "parse_simplii_transaction line pg = Some t"
    unfolding simplii_page_def by (blast dest: section_lines_from_parse)
  then show ?thesis by (rule parse_simplii_transaction_classified)
qed

lemma td_credit_records_classified:
  assumes "t \<in> set (extract_transactions TDCreditCardProcessor f)"
  shows "classified t"
proof -
  from assms have "t \<in> set (over_pages td_credit_page f)"
    by (simp add: TDCreditCardProcessor_def)
  then obtain pg body where "t \<in> set (td_credit_page pg body)"
    by (blast dest: over_pages_set)
  then obtain line where "parse_td_credit_transaction line pg = Some t"
    unfolding td_credit_page_def by (blast dest: section_lines_from_parse)
  then show ?thesis by (rule parse_td_credit_transaction_classified)
qed

lemma tangerine_credit_records_classified:
  assumes "t \<in> set (extract_transactions TangerineCreditCardProcessor f)"
  shows "classified t"
proof -
  from assms have "t \<in> set (over_pages tangerine_credit_page f)"
    by (simp add: TangerineCreditCardProcessor_def)
  then obtain pg body where "t \<in> set (tangerine_credit_page pg body)"
    by (blast dest: over_pages_set)
  then obtain line where "parse_tangerine_credit_transaction line pg = Some t"
    unfolding tangerine_credit_page_def by (blast dest: section_lines_from_parse)
  then show ?thesis by (rule parse_tangerine_credit_transaction_classified)
qed

lemma bmo_account_records_classified:
  assumes "t \<in> set (extract_transactions BMOAccountProcessor f)"
  shows "classified t"
proof -
  from assms have "t \<in> set (over_pages bmo_account_page f)"
    by (simp add: BMOAccountProcessor_def)
  then obtain pg body where "t \<in> set (bmo_account_page pg body)"
    by (blast dest: over_pages_set)
  then obtain line where "parse_bmo_account_transaction line pg = Some t"
    unfolding bmo_account_page_def by (blast dest: section_lines_from_parse)
  then show ?thesis by (rule parse_bmo_account_transaction_classified)
qed

text \<open>The accounts that read the direction from the words of the line.\<close>

lemma parse_scotia_bank_transaction_classified:
  assumes "parse_scotia_bank_transaction line cur pg = Some t"
  shows "classified t"
  using assms unfolding parse_scotia_bank_transaction_def Let_def
  by (auto simp: classified_def split: option.splits if_splits prod.splits)

lemma scotia_bank_line_found:
  assumes "t \<in> set (snd (scotia_bank_line pg cur l))"
  shows "\<exists>line d. parse_scotia_bank_transaction line d pg = Some t"
proof -
  have "\<exists>nd. snd (scotia_bank_line pg cur l) =
      (if is_scotia_bank_transaction (strip l)
       then (case parse_scotia_bank_transaction (strip l) nd pg of None \<Rightarrow> [] | Some u \<Rightarrow> [u])
       else [])"
    unfolding scotia_bank_line_def Let_def snd_conv by (rule exI) (rule refl)
  then obtain nd where "snd (scotia_bank_line pg cur l) =
      (if is_scotia_bank_transaction (strip l)
       then (case parse_scotia_bank_transaction (strip l) nd pg of None \<Rightarrow> [] | Some u \<Rightarrow> [u])
       else [])"
    by blast
  with assms have "t \<in> set (if is_scotia_bank_transaction (strip l)
       then (case parse_scotia_bank_transaction (strip l) nd pg of None \<Rightarrow> [] | Some u \<Rightarrow> [u])
       else [])"
    by (simp only:)
  then show ?thesis by (blast dest: in_guarded_option)
qed

lemma scotia_bank_lines_from_parse:
  "t \<in> set (scotia_bank_lines pg cur ls) \<Longrightarrow>
     \<exists>line d. parse_scotia_bank_transaction line d pg = Some t"
proof (induction ls arbitrary: cur)
  case Nil
  then show ?case by simp
next
  case (Cons l ls)
  obtain nd found where step: "scotia_bank_line pg cur l = (nd, found)"
    by (cases "scotia_bank_line pg cur l")
  then have "set (scotia_bank_lines pg cur (l # ls)) = set found \<union> set (scotia_bank_lines pg nd ls)"
    by simp
  with Cons.prems have "t \<in> set found \<or> t \<in> set (scotia_bank_lines pg nd ls)"
    by blast
  then show ?case
  proof
    assume "t \<in> set found"
    with step have "t \<in> set (snd (scotia_bank_line pg cur l))" by simp
    then show ?thesis by (rule scotia_bank_line_found)
  next
    assume "t \<in> set (scotia_bank_lines pg nd ls)"
    then show ?thesis by (rule Cons.IH)
  qed
qed

lemma scotia_bank_records_classified:
  assumes "t \<in> set (extract_transactions ScotiaBankProcessor f)"
  shows "classified t"
proof -
  from assms have "t \<in> set (over_pages scotia_bank_page f)"
    by (simp add: ScotiaBankProcessor_def)
  then obtain pg body where "t \<in> set (scotia_bank_page pg body)"
    by (blast dest: over_pages_set)
  then obtain line d where "parse_scotia_bank_transaction line d pg = Some t"
    unfolding scotia_bank_page_def by (blast dest: scotia_bank_lines_from_parse)
  then show ?thesis by (rule parse_scotia_bank_transaction_classified)
qed

lemma parse_cibc_transaction_line_classified:
  assumes "parse_cibc_transaction_line d line pg = Some t"
  shows "classified t"
  using assms unfolding parse_cibc_transaction_line_def Let_def
  by (auto simp: classified_def split: if_splits list.splits prod.splits)

lemma cibc_line_found:
  assumes "t \<in> set (snd (cibc_line pg cur l))"
  shows "\<exists>d line n. parse_cibc_transaction_line d line n = Some t"
proof (cases "strip l = [] \<or>
           any_in [''date'', ''description'', ''withdrawals'', ''deposits'', ''balance'']
             (lower (strip l))")
  case True
  then have "cibc_line pg cur l = (cur, [])"
    by (auto simp: cibc_line_def Let_def)
  with assms show ?thesis by simp
next
  case False
  then have ne: "strip l \<noteq> []"
    and ns: "\<not> any_in [''date'', ''description'', ''withdrawals'', ''deposits'', ''balance'']
               (lower (strip l))"
    by auto
  show ?thesis
  proof (cases "cibc_date_match (strip l)")
    case (Some dm)
    with ne ns have "snd (cibc_line pg cur l) =
        (if strip (replace (strip l) (whole dm) []) \<noteq> []
         then (case parse_cibc_transaction_line (parse_cibc_date (whole dm))
                      (strip (replace (strip l) (whole dm) [])) (pg + 1) of
                 None \<Rightarrow> [] | Some u \<Rightarrow> [u])
         else [])"
      by (simp add: cibc_line_def Let_def)
    with assms have "t \<in> set (if strip (replace (strip l) (whole dm) []) \<noteq> []
         then (case parse_cibc_transaction_line (parse_cibc_date (whole dm))
                      (strip (replace (strip l) (whole dm) [])) (pg + 1) of
                 None \<Rightarrow> [] | Some u \<Rightarrow> [u])
         else [])"
      by (simp only:)
    then show ?thesis by (blast dest: in_guarded_option)
  next
    case None
    with ne ns have carried: "snd (cibc_line pg cur l) =
        (case cur of
           None \<Rightarrow> []
         | Some d \<Rightarrow>
             if d \<noteq> []
             then (case parse_cibc_transaction_line d (strip l) (pg + 1) of
                     None \<Rightarrow> [] | Some u \<Rightarrow> [u])
             else [])"
      by (simp add: cibc_line_def Let_def)
    show ?thesis
    proof (cases cur)
      case None
      with carried assms show ?thesis by simp
    next
      case (Some d)
      with carried assms
      have "t \<in> set (if d \<noteq> []
                then (case parse_cibc_transaction_line d (strip l) (pg + 1) of
                        None \<Rightarrow> [] | Some u \<Rightarrow> [u])
                else [])"
        by (simp only: option.case)
      then show ?thesis by (blast dest: in_guarded_option)
    qed
  qed
qed

lemma cibc_lines_from_parse:
  "t \<in> set (cibc_lines pg cur ls) \<Longrightarrow>
     \<exists>d line n. parse_cibc_transaction_line d line n = Some t"
proof (induction ls arbitrary: cur)
  case Nil
  then show ?case by simp
next
  case (Cons l ls)
  obtain nd found where step: "cibc_line pg cur l = (nd, found)"
    by (cases "cibc_line pg cur l")
  then have "set (cibc_lines pg cur (l # ls)) = set found \<union> set (cibc_lines pg nd ls)"
    by simp
  with Cons.prems have "t \<in> set found \<or> t \<in> set (cibc_lines pg nd ls)"
    by blast
  then show ?case
  proof
    assume "t \<in> set found"
    with step have "t \<in> set (snd (cibc_line pg cur l))" by simp
    then show ?thesis by (rule cibc_line_found)
  next
    assume "t \<in> set (cibc_lines pg nd ls)"
    then show ?thesis by (rule Cons.IH)
  qed
qed

lemma cibc_pages_from_parse:
  "cibc_pages pg ps = Some found \<Longrightarrow> t \<in> set found \<Longrightarrow>
     \<exists>d line n. parse_cibc_transaction_line d line n = Some t"
proof (induction ps arbitrary: pg found)
  case Nil
  then show ?case by simp
next
  case (Cons p ps)
  from Cons.prems(1) obtain body later where p: "p = Some body"
    and later: "cibc_pages (pg + 1) ps = Some later"
    and found: "found = (if contains body ''Transaction details''
                         then cibc_lines pg None (split_lines body) else []) @ later"
    by (auto split: option.splits)
  from found Cons.prems(2) have
    "t \<in> set (if contains body ''Transaction details''
               then cibc_lines pg None (split_lines body) else [])
     \<or> t \<in> set later"
    by (simp only: set_append Un_iff)
  then show ?case
  proof
    assume "t \<in> set (if contains body ''Transaction details''
                      then cibc_lines pg None (split_lines body) else [])"
    then have "t \<in> set (cibc_lines pg None (split_lines body))"
      by (cases "contains body ''Transaction details''") simp_all
    then show ?thesis by (rule cibc_lines_from_parse)
  next
    assume "t \<in> set later"
    with later show ?thesis by (rule Cons.IH)
  qed
qed

lemma cibc_records_classified:
  assumes "t \<in> set (extract_transactions CIBCProcessor f)"
  shows "classified t"
proof -
  from assms have t: "t \<in> set (cibc_extract_transactions f)"
    by (simp add: CIBCProcessor_def)
  then obtain pages where pages: "content f = Some pages"
    by (cases "content f") (simp_all add: cibc_extract_transactions_def)
  with t obtain found where "cibc_pages 1 (drop 1 pages) = Some found" and "t \<in> set found"
    by (cases "cibc_pages 1 (drop 1 pages)") (simp_all add: cibc_extract_transactions_def)
  then obtain d line n where "parse_cibc_transaction_line d line n = Some t"
    by (blast dest: cibc_pages_from_parse)
  then show ?thesis by (rule parse_cibc_transaction_line_classified)
qed

lemma parse_cibc_visa_multiline_classified:
  assumes "parse_cibc_visa_multiline_transaction lines i pg = (Some t, n)"
  shows "classified t"
  using assms unfolding parse_cibc_visa_multiline_transaction_def Let_def
  by (auto simp: classified_def split: option.splits if_splits prod.splits)

lemma cibc_visa_loop_from_parse:
  "t \<in> set (cibc_visa_loop pg lines sec i) \<Longrightarrow>
     \<exists>j n. parse_cibc_visa_multiline_transaction lines j pg = (Some t, n)"
proof (induction "length lines - i" arbitrary: i sec rule: less_induct)
  case less
  show ?case
  proof (cases "i < length lines")
    case False
    with less.prems show ?thesis by (simp add: cibc_visa_loop.simps)
  next
    case True
    define line where "line = strip (lines ! i)"
    define header where "header \<longleftrightarrow>
       contains line ''Trans Post'' \<and> i + 1 < length lines \<and>
       contains (lines ! (i + 1)) ''date date Description''"
    define flag where "flag =
       (if any_in [''Information about your CIBC'', ''Payment options'', ''Interest charges'',
                   ''Foreign currency''] line
        then False else sec)"
    obtain r n where rn: "parse_cibc_visa_multiline_transaction lines i pg = (r, n)"
      by (cases "parse_cibc_visa_multiline_transaction lines i pg")
    from rn have n: "i < n" by (rule cibc_visa_next_index)
    consider (a) header | (b) "\<not> header" "flag \<and> is_cibc_visa_transaction line"
      | (c) "\<not> header" "\<not> (flag \<and> is_cibc_visa_transaction line)"
      by blast
    then show ?thesis
    proof cases
      case a
      with True have "cibc_visa_loop pg lines sec i = cibc_visa_loop pg lines True (i + 2)"
        unfolding header_def line_def
        by (subst cibc_visa_loop.simps) (auto simp: Let_def)
      with less.prems have "t \<in> set (cibc_visa_loop pg lines True (i + 2))"
        by (simp only:)
      moreover from True have "length lines - (i + 2) < length lines - i" by simp
      ultimately show ?thesis by (rule less.hyps[rotated])
    next
      case b
      with True rn have "cibc_visa_loop pg lines sec i =
          (case r of None \<Rightarrow> [] | Some u \<Rightarrow> [u]) @ cibc_visa_loop pg lines flag n"
        unfolding header_def flag_def line_def
        by (subst cibc_visa_loop.simps) (auto simp: Let_def)
      then have "set (cibc_visa_loop pg lines sec i) =
          set (case r of None \<Rightarrow> [] | Some u \<Rightarrow> [u]) \<union> set (cibc_visa_loop pg lines flag n)"
        by (simp only: set_append)
      with less.prems have
        "t \<in> set (case r of None \<Rightarrow> [] | Some u \<Rightarrow> [u])
         \<or> t \<in> set (cibc_visa_loop pg lines flag n)"
        by blast
      then show ?thesis
      proof
        assume "t \<in> set (case r of None \<Rightarrow> [] | Some u \<Rightarrow> [u])"
        then have "r = Some t" by (rule in_option_list)
        with rn show ?thesis by blast
      next
        assume "t \<in> set (cibc_visa_loop pg lines flag n)"
        moreover from True n have "length lines - n < length lines - i" by simp
        ultimately show ?thesis by (rule less.hyps[rotated])
      qed
    next
      case c
      with True have "cibc_visa_loop pg lines sec i = cibc_visa_loop pg lines flag (i + 1)"
        unfolding header_def flag_def line_def
        by (subst cibc_visa_loop.simps) (auto simp: Let_def)
      with less.prems have "t \<in> set (cibc_visa_loop pg lines flag (i + 1))"
        by (simp only:)
      moreover from True have "length lines - (i + 1) < length lines - i" by simp
      ultimately show ?thesis by (rule less.hyps[rotated])
    qed
  qed
qed

lemma cibc_visa_records_classified:
  assumes "t \<in> set (extract_transactions CIBCVisaProcessor f)"
  shows "classified t"
proof -
  from assms have "t \<in> set (over_pages cibc_visa_page f)"
    by (simp add: CIBCVisaProcessor_def)
  then obtain pg body where "t \<in> set (cibc_visa_page pg body)"
    by (blast dest: over_pages_set)
  then obtain j n where
    "parse_cibc_visa_multiline_transaction (split_lines body) j pg = (Some t, n)"
    unfolding cibc_visa_page_def by (blast dest: cibc_visa_loop_from_parse)
  then show ?thesis by (rule parse_cibc_visa_multiline_classified)
qed

section \<open>The records of a successful run\<close>

lemma standard_fields_classified:
  "classified (standard_fields b a t) = classified t"
  by (simp add: classified_def)

lemma classify_tx_invariant:
  assumes "classify_tx t = Inr t'"
      and "transaction_type t \<noteq> None \<Longrightarrow> is_spending t \<noteq> None \<Longrightarrow> classified t"
  shows "classified t' \<and> (\<exists>a. amount t' = Some a \<and> abs_amount t' = Some \<bar>a\<bar>) \<and>
         processing_method t' \<noteq> None \<and> confidence_level t' \<noteq> None"
proof -
  from assms(1) obtain b a where ba: "bank t = Some b" "amount t = Some a"
    and t': "t' = standard_fields b a (if transaction_type t = None \<or> is_spending t = None
                                       then default_rule b a t else t)"
    by (rule classify_tx_Inr)
  show ?thesis
  proof (cases "transaction_type t = None \<or> is_spending t = None")
    case True
    with t' have "t' = standard_fields b a (default_rule b a t)" by simp
    with ba show ?thesis
      by (simp add: standard_fields_classified default_rule_classified)
  next
    case False
    with t' have "t' = standard_fields b a t" by simp
    moreover from False assms(2) have "classified t" by blast
    ultimately show ?thesis using ba
      by (simp add: standard_fields_classified)
  qed
qed

lemma output_invariant:
  assumes "res_error (process_document procs f) = None"
      and "\<And>p t. identify_bank procs f = Some p \<Longrightarrow> t \<in> set (extract_transactions p f) \<Longrightarrow>
                  transaction_type t \<noteq> None \<Longrightarrow> is_spending t \<noteq> None \<Longrightarrow> classified t"
      and "t' \<in> set (res_transactions (process_document procs f))"
  shows "classified t' \<and> (\<exists>a. amount t' = Some a \<and> abs_amount t' = Some \<bar>a\<bar>) \<and>
         processing_method t' \<noteq> None \<and> confidence_level t' \<noteq> None"
proof -
  let ?rs = "res_transactions (process_document procs f)"
  from process_document_success[OF assms(1)] obtain p where
    p: "identify_bank procs f = Some p"
    and c: "classify_all (extract_transactions p f) = Inr ?rs"
    by blast
  from assms(3) obtain i where i: "i < length ?rs" "?rs ! i = t'"
    by (auto simp: in_set_conv_nth)
  from classify_all_Inr[OF c] i
  have len: "i < length (extract_transactions p f)"
    and ci: "classify_tx (extract_transactions p f ! i) = Inr t'"
    by auto
  from len have "extract_transactions p f ! i \<in> set (extract_transactions p f)"
    by simp
  from classify_tx_invariant[OF ci assms(2)[OF p this]] show ?thesis .
qed

lemma registry_cases:
  assumes "p \<in> set (processors now)"
  shows "p = BMOAccountProcessor \<or> p = BMOProcessor \<or> p = EQBankProcessor now \<or>
         p = TDProcessor \<or> p = TDCreditCardProcessor \<or> p = TangerineProcessor \<or>
         p = TangerineCreditCardProcessor \<or> p = RBCBankProcessor \<or> p = RBCVisaProcessor \<or>
         p = SimpliiProcessor \<or> p = CIBCVisaProcessor \<or> p = CIBCProcessor \<or>
         p = AmexProcessor \<or> p = ScotiaBankProcessor \<or> p = ScotiaProcessor \<or>
         p = WiseProcessor"
  using assms
  by (simp only: processors_def list.set insert_iff empty_iff simp_thms)

text \<open>Whatever processor of the registry reads the file, a record of its that carries
  both \<open>transaction_type\<close> and \<open>is_spending\<close> carries a direction and the matching flag.\<close>

lemma registry_records:
  assumes p: "p \<in> set (processors now)"
      and t: "t \<in> set (extract_transactions p f)"
      and set: "transaction_type t \<noteq> None" "is_spending t \<noteq> None"
  shows "classified t"
proof -
  from registry_cases[OF p]
  consider (bmo_account) "p = BMOAccountProcessor" | (bmo) "p = BMOProcessor"
    | (eq) "p = EQBankProcessor now" | (td) "p = TDProcessor"
    | (td_credit) "p = TDCreditCardProcessor" | (tangerine) "p = TangerineProcessor"
    | (tangerine_credit) "p = TangerineCreditCardProcessor" | (rbc) "p = RBCBankProcessor"
    | (rbc_visa) "p = RBCVisaProcessor" | (simplii) "p = SimpliiProcessor"
    | (cibc_visa) "p = CIBCVisaProcessor" | (cibc) "p = CIBCProcessor"
    | (amex) "p = AmexProcessor" | (scotia_bank) "p = ScotiaBankProcessor"
    | (scotia) "p = ScotiaProcessor" | (wise) "p = WiseProcessor"
    by blast
  then show ?thesis
  proof cases
    case bmo_account
    with t show ?thesis by (simp add: bmo_account_records_classified)
  next
    case bmo
    with t set show ?thesis by (simp add: bmo_records_unclassified)
  next
    case eq
    with t set show ?thesis by (simp add: eq_records_unclassified)
  next
    case td
    with t show ?thesis by (simp add: td_records_classified)
  next
    case td_credit
    with t show ?thesis by (simp add: td_credit_records_classified)
  next
    case tangerine
    with t show ?thesis by (simp add: tangerine_records_classified)
  next
    case tangerine_credit
    with t show ?thesis by (simp add: tangerine_credit_records_classified)
  next
    case rbc
    with t show ?thesis by (simp add: rbc_records_classified)
  next
    case rbc_visa
    with t set show ?thesis by (simp add: rbc_visa_records_unclassified)
  next
    case simplii
    with t show ?thesis by (simp add: simplii_records_classified)
  next
    case cibc_visa
    with t show ?thesis by (simp add: cibc_visa_records_classified)
  next
    case cibc
    with t show ?thesis by (simp add: cibc_records_classified)
  next
    case amex
    with t set show ?thesis by (simp add: amex_records_unclassified)
  next
    case scotia_bank
    with t show ?thesis by (simp add: scotia_bank_records_classified)
  next
    case scotia
    with t set show ?thesis by (simp add: scotia_records_unclassified)
  next
    case wise
    with t set show ?thesis by (simp add: wise_records_unclassified)
  qed
qed

text \<open>
  C10: every record that a successful \<open>process_document\<close> returns carries
  \<open>transaction_type\<close>, \<open>is_spending\<close>, \<open>abs_amount\<close>, \<open>processing_method\<close> and
  \<open>confidence_level\<close>; \<open>abs_amount\<close> is the absolute value of \<open>amount\<close>,
  \<open>transaction_type\<close> is \<open>debit\<close> or \<open>credit\<close>, and \<open>is_spending\<close> is true exactly for
  \<open>debit\<close>. The registry is the source's, with its sixteen extractors, at any date of
  the run and for any file.
\<close>

theorem orchestrator_output_invariant:
  assumes "res_error (process_document (processors now) f) = None"
  shows "\<forall>t \<in> set (res_transactions (process_document (processors now) f)).
           (transaction_type t = Some ''debit'' \<or> transaction_type t = Some ''credit'') \<and>
           is_spending t \<noteq> None \<and>
           (is_spending t = Some True \<longleftrightarrow> transaction_type t = Some ''debit'') \<and>
           (\<exists>a. amount t = Some a \<and> abs_amount t = Some \<bar>a\<bar>) \<and>
           processing_method t \<noteq> None \<and> confidence_level t \<noteq> None"
proof
  fix t' assume t': "t' \<in> set (res_transactions (process_document (processors now) f))"
  have ext: "classified t"
    if p: "identify_bank (processors now) f = Some p"
      and t: "t \<in> set (extract_transactions p f)"
      and set: "transaction_type t \<noteq> None" "is_spending t \<noteq> None" for p t
    using identified_in_registry[OF p] t set by (rule registry_records)
  have "classified t' \<and> (\<exists>a. amount t' = Some a \<and> abs_amount t' = Some \<bar>a\<bar>) \<and>
        processing_method t' \<noteq> None \<and> confidence_level t' \<noteq> None"
    by (rule output_invariant[OF assms(1) _ t']) (rule ext; assumption)
  then have "classified t'" and rest:
    "(\<exists>a. amount t' = Some a \<and> abs_amount t' = Some \<bar>a\<bar>) \<and>
     processing_method t' \<noteq> None \<and> confidence_level t' \<noteq> None"
    by blast+
  from \<open>classified t'\<close> have
    "(transaction_type t' = Some ''debit'' \<or> transaction_type t' = Some ''credit'') \<and>
     is_spending t' \<noteq> None \<and>
     (is_spending t' = Some True \<longleftrightarrow> transaction_type t' = Some ''debit'')"
    by (auto simp: classified_def)
  with rest show
    "(transaction_type t' = Some ''debit'' \<or> transaction_type t' = Some ''credit'') \<and>
     is_spending t' \<noteq> None \<and>
     (is_spending t' = Some True \<longleftrightarrow> transaction_type t' = Some ''debit'') \<and>
     (\<exists>a. amount t' = Some a \<and> abs_amount t' = Some \<bar>a\<bar>) \<and>
     processing_method t' \<noteq> None \<and> confidence_level t' \<noteq> None"
    by blast
qed

text \<open>The witness: a BMO account statement, read by the first extractor of the
  registry. Its two records, a transfer received and a transfer sent, come out with all
  five fields, the first a credit of 30.00 and the second a debit of 205.00.\<close>

theorem orchestrator_output_invariant_witness:
  "res_error (process_document registry bmo_account_statement) = None \<and>
   map (\<lambda>t. (amount t, transaction_type t, is_spending t))
     (res_transactions (process_document registry bmo_account_statement))
     = [(Some 30, Some ''credit'', Some False), (Some (- 205), Some ''debit'', Some True)] \<and>
   list_all (\<lambda>t. (transaction_type t = Some ''debit'' \<or> transaction_type t = Some ''credit'') \<and>
                  is_spending t \<noteq> None \<and>
                  (is_spending t = Some True \<longleftrightarrow> transaction_type t = Some ''debit'') \<and>
                  (\<exists>a. amount t = Some a \<and> abs_amount t = Some \<bar>a\<bar>) \<and>
                  processing_method t \<noteq> None \<and> confidence_level t \<noteq> None)
     (res_transactions (process_document registry bmo_account_statement))"
proof -
  have ok: "res_error (process_document (processors \<lparr>now_year = 2025, now_month = 6\<rparr>)
                         bmo_account_statement) = None"
    by code_simp
  have records: "map (\<lambda>t. (amount t, transaction_type t, is_spending t))
     (res_transactions (process_document registry bmo_account_statement))
     = [(Some 30, Some ''credit'', Some False), (Some (- 205), Some ''debit'', Some True)]"
    by code_simp
  from orchestrator_output_invariant[OF ok] ok records
  show ?thesis
    unfolding registry_def list_all_iff by blast
qed

section \<open>Document types\<close>

text \<open>
  C8: for a file whose text layer opens, \<open>_detect_document_type\<close> answers \<open>text_based\<close>
  exactly when the average number of characters over the sampled pages (at most three)
  is above 500, \<open>scanned_image\<close> exactly when it is below 100 and \<open>mixed\<close> otherwise; a
  file that cannot be opened is \<open>mixed\<close>.
\<close>

theorem detect_document_type_thresholds:
  "(content f = None \<longrightarrow> detect_document_type f = ''mixed'') \<and>
   (\<forall>pages. content f = Some pages \<longrightarrow>
      (detect_document_type f = ''text_based'' \<longleftrightarrow> avg_text pages > 500) \<and>
      (detect_document_type f = ''scanned_image'' \<longleftrightarrow> avg_text pages < 100) \<and>
      (detect_document_type f = ''mixed'' \<longleftrightarrow> 100 \<le> avg_text pages \<and> avg_text pages \<le> 500))"
  by (auto simp: detect_document_type_def)

text \<open>The witness: a page of 600 characters is text-based, a page of 5 characters
  between blanks is a scan, three pages of 600, 300 and 0 characters are mixed (the
  average is 300), and a file that does not open is mixed.\<close>

theorem detect_document_type_thresholds_witness:
  "avg_text [Some (replicate 600 CHR ''x'')] > 500 \<and>
   detect_document_type \<lparr>path = ''a.pdf'', content = Some [Some (replicate 600 CHR ''x'')]\<rparr>
     = ''text_based'' \<and>
   avg_text [Some ''  scan ''] < 100 \<and>
   detect_document_type \<lparr>path = ''b.pdf'', content = Some [Some ''  scan '']\<rparr>
     = ''scanned_image'' \<and>
   avg_text [Some (replicate 600 CHR ''x''), Some (replicate 300 CHR ''y''), None] = 300 \<and>
   detect_document_type
     \<lparr>path = ''c.pdf'',
      content = Some [Some (replicate 600 CHR ''x''), Some (replicate 300 CHR ''y''), None]\<rparr>
     = ''mixed'' \<and>
   detect_document_type \<lparr>path = ''d.pdf'', content = None\<rparr> = ''mixed''"
proof -
  have a: "avg_text [Some (replicate 600 CHR ''x'')] > 500"
    by code_simp
  have b: "avg_text [Some ''  scan ''] < 100"
    by code_simp
  have c: "avg_text [Some (replicate 600 CHR ''x''), Some (replicate 300 CHR ''y''), None] = 300"
    by code_simp
  from a detect_document_type_thresholds
         [of "\<lparr>path = ''a.pdf'', content = Some [Some (replicate 600 CHR ''x'')]\<rparr>"]
  have ta: "detect_document_type
              \<lparr>path = ''a.pdf'', content = Some [Some (replicate 600 CHR ''x'')]\<rparr>
            = ''text_based''"
    by simp
  from b detect_document_type_thresholds
         [of "\<lparr>path = ''b.pdf'', content = Some [Some ''  scan '']\<rparr>"]
  have tb: "detect_document_type \<lparr>path = ''b.pdf'', content = Some [Some ''  scan '']\<rparr>
            = ''scanned_image''"
    by simp
  from c detect_document_type_thresholds
         [of "\<lparr>path = ''c.pdf'',
              content = Some [Some (replicate 600 CHR ''x''), Some (replicate 300 CHR ''y''),
                              None]\<rparr>"]
  have tc: "detect_document_type
              \<lparr>path = ''c.pdf'',
               content = Some [Some (replicate 600 CHR ''x''), Some (replicate 300 CHR ''y''),
                               None]\<rparr>
            = ''mixed''"
    by simp
  from detect_document_type_thresholds[of "\<lparr>path = ''d.pdf'', content = None\<rparr>"]
  have td: "detect_document_type \<lparr>path = ''d.pdf'', content = None\<rparr> = ''mixed''"
    by simp
  from a b c ta tb tc td show ?thesis by blast
qed

section \<open>Scans without OCR\<close>

lemma ocr_extract_transactions_unavailable:
  assumes "poppler_path dp = None \<or> ocr_reader dp = None"
  shows "ocr_extract_transactions dp f = []"
proof (cases "poppler_path dp")
  case None
  then show ?thesis by (simp add: ocr_extract_transactions_def)
next
  case (Some pp)
  with assms have "ocr_reader dp = None" by simp
  then have "extract_transactions_from_image dp img pg = []" for img pg
    by (simp add: extract_transactions_from_image_def)
  then show ?thesis
    by (auto simp: ocr_extract_transactions_def split: option.splits)
qed

text \<open>
  C4, as the code has it: a document classified \<open>scanned_image\<close>, processed when the
  rasterizer or the OCR reader is missing, gives the result of the OCR path with an
  empty transaction list and no \<open>error\<close> key: method \<open>ocr_extraction\<close>, confidence
  \<open>medium\<close>. It is the result of a scan in which the OCR recognises nothing.
\<close>

theorem scanned_without_ocr:
  assumes "detect_document_type f = ''scanned_image''"
      and "poppler_path dp = None \<or> ocr_reader dp = None"
  shows "dp_process_document process_text_based_pdf process_mixed_pdf dp f =
           \<lparr>dr_processing_method = ''ocr_extraction'', dr_transactions = [],
            dr_confidence = ''medium'', dr_processing_time = Some ''slow'',
            dr_error = None\<rparr> \<and>
         (\<forall>dp' pp readtext images.
            poppler_path dp' = Some pp \<and> pp \<noteq> [] \<and> ocr_reader dp' = Some readtext \<and>
            convert_from_path dp' pp f = Some images \<and>
            (\<forall>img \<in> set images. readtext img = Some []) \<longrightarrow>
            process_scanned_pdf dp' f = process_scanned_pdf dp f)"
proof -
  from assms(2) have none: "process_scanned_pdf dp f =
           \<lparr>dr_processing_method = ''ocr_extraction'', dr_transactions = [],
            dr_confidence = ''medium'', dr_processing_time = Some ''slow'',
            dr_error = None\<rparr>"
    by (simp add: process_scanned_pdf_def ocr_extract_transactions_unavailable)
  with assms(1) have first:
    "dp_process_document process_text_based_pdf process_mixed_pdf dp f =
           \<lparr>dr_processing_method = ''ocr_extraction'', dr_transactions = [],
            dr_confidence = ''medium'', dr_processing_time = Some ''slow'',
            dr_error = None\<rparr>"
    by (simp add: dp_process_document_def)
  have second: "process_scanned_pdf dp' f = process_scanned_pdf dp f"
    if "poppler_path dp' = Some pp \<and> pp \<noteq> [] \<and> ocr_reader dp' = Some readtext \<and>
        convert_from_path dp' pp f = Some images \<and>
        (\<forall>img \<in> set images. readtext img = Some [])"
    for dp' :: "'b document_processor" and pp readtext images
  proof -
    from that have "extract_transactions_from_image dp' img pg = []"
      if "img \<in> set images" for img pg
      using that by (simp add: extract_transactions_from_image_def)
    then have "concat (map (\<lambda>(page_num, img). extract_transactions_from_image dp' img page_num)
                         (enumerate 1 images)) = []"
      by (auto simp: in_set_enumerate_eq)
    with that have "ocr_extract_transactions dp' f = []"
      by (simp add: ocr_extract_transactions_def)
    with none show ?thesis by (simp add: process_scanned_pdf_def)
  qed
  from first second show ?thesis by blast
qed

text \<open>The witness: the scan of one page, with neither rasterizer nor reader.\<close>

theorem scanned_without_ocr_witness:
  "detect_document_type scanned_statement = ''scanned_image'' \<and>
   poppler_path no_ocr = None \<and>
   dp_process_document other_path other_path no_ocr scanned_statement =
     \<lparr>dr_processing_method = ''ocr_extraction'', dr_transactions = [],
      dr_confidence = ''medium'', dr_processing_time = Some ''slow'', dr_error = None\<rparr>"
proof -
  have scan: "detect_document_type scanned_statement = ''scanned_image''"
    by code_simp
  have missing: "poppler_path no_ocr = None \<or> ocr_reader no_ocr = None"
    by (simp add: no_ocr_def)
  have p: "poppler_path no_ocr = None"
    by (simp add: no_ocr_def)
  note r = scanned_without_ocr[OF scan missing, where process_text_based_pdf = other_path
                                 and process_mixed_pdf = other_path, THEN conjunct1]
  from scan p r show ?thesis by (intro conjI)
qed

text \<open>
  C4 as the specification states it asks for an \<open>error\<close> on such a document. The scan
  above, processed without rasterizer and reader, comes back with no error.
\<close>

theorem scanned_without_ocr_counterexample:
  "detect_document_type scanned_statement = ''scanned_image'' \<and>
   poppler_path no_ocr = None \<and> ocr_reader no_ocr = None \<and>
   dr_transactions (dp_process_document other_path other_path no_ocr scanned_statement) = [] \<and>
   dr_error (dp_process_document other_path other_path no_ocr scanned_statement) = None"
proof -
  have "detect_document_type scanned_statement = ''scanned_image''"
    by code_simp
  moreover have "ocr_extract_transactions no_ocr scanned_statement = []"
    by (simp add: ocr_extract_transactions_def no_ocr_def)
  ultimately show ?thesis
    by (simp add: dp_process_document_def process_scanned_pdf_def no_ocr_def)
qed

section \<open>Carried dates\<close>

lemma rbc_date_match_Some:
  assumes "rbc_date_match line = Some dm"
  shows "re_search rbc_date_pattern line = Some dm \<and> lower (grp dm 2) \<in> set valid_months"
proof (cases "re_search rbc_date_pattern line")
  case None
  with assms show ?thesis by (simp add: rbc_date_match_def)
next
  case (Some m)
  with assms show ?thesis
    by (cases "lower (grp m 2) \<in> set valid_months") (simp_all add: rbc_date_match_def)
qed

lemma rbc_line_date_change:
  assumes "fst (rbc_line pg cur l) \<noteq> cur"
  shows "\<exists>dm. re_search rbc_date_pattern (strip l) = Some dm \<and>
              lower (grp dm 2) \<in> set valid_months \<and>
              fst (rbc_line pg cur l) = Some (parse_rbc_date (grp dm 1))"
proof (cases "strip l = [] \<or>
           any_in [''date'', ''description'', ''withdrawals'', ''deposits'', ''balance'']
             (lower (strip l))")
  case True
  from rbc_line_skip[OF this] assms show ?thesis by simp
next
  case False
  then have ne: "strip l \<noteq> []"
    and ns: "\<not> any_in [''date'', ''description'', ''withdrawals'', ''deposits'', ''balance'']
               (lower (strip l))"
    by auto
  show ?thesis
  proof (cases "rbc_date_match (strip l)")
    case None
    from rbc_line_carried[OF ne ns None] assms show ?thesis by simp
  next
    case (Some dm)
    from rbc_line_dated[OF ne ns Some]
    have "fst (rbc_line pg cur l) = Some (parse_rbc_date (grp dm 1))" by simp
    with rbc_date_match_Some[OF Some] show ?thesis by blast
  qed
qed

text \<open>
  C6: on a page with the section "Details of your account activity" and the lines
  "3 Mar  DEPOSIT  100.00" and "  WITHDRAWAL  20.00", both records carry the date
  \<open>03-03\<close>; the claim goes on to say that a token that only looks like a date never
  replaces the carried date. The code tests the three letters that the pattern
  \<open>\d{1,2}\s+[A-Za-z]{3}\<close> captures, and the match may start inside a longer number and
  end inside a longer word. In "Contactless Interac purchase - 4512 DECATHLON  25.00" it
  is "12 DEC": the carried date \<open>03-03\<close> becomes \<open>12-12\<close>, the purchase and the
  withdrawal after it are dated \<open>12-12\<close>, and the description loses the text of the
  match. The line "REF 4512 DECATHLON 5.00" does the same to the carried date.
\<close>

theorem rbc_date_overwritten:
  "map (\<lambda>t. (date t, description t)) (extract_transactions RBCBankProcessor rbc_statement)
     = [(''03-03'', ''DEPOSIT''), (''03-03'', ''WITHDRAWAL'')] \<and>
   map (\<lambda>t. (date t, description t))
     (extract_transactions RBCBankProcessor rbc_reference_statement)
     = [(''03-03'', ''DEPOSIT''),
        (''12-12'', ''Contactless Interac purchase - 45ATHLON''),
        (''12-12'', ''WITHDRAWAL'')] \<and>
   map_option (\<lambda>m. grp m 1)
     (re_search rbc_date_pattern ''Contactless Interac purchase - 4512 DECATHLON  25.00'')
     = Some ''12 DEC'' \<and>
   fst (rbc_line 1 (Some ''03-03'') ''REF 4512 DECATHLON 5.00'') = Some ''12-12''"
  by code_simp

section \<open>Skip rules\<close>

lemma startswith_iff: "startswith s p \<longleftrightarrow> (\<exists>b. s = p @ b)"
  by (induction s p rule: startswith.induct) auto

lemma contains_iff: "contains s p \<longleftrightarrow> (\<exists>a b. s = a @ p @ b)"
proof (induction s)
  case Nil
  then show ?case by auto
next
  case (Cons c cs)
  show ?case
  proof
    assume "contains (c # cs) p"
    then consider "startswith (c # cs) p" | "contains cs p" by auto
    then show "\<exists>a b. c # cs = a @ p @ b"
    proof cases
      case 1
      then obtain b where "c # cs = p @ b" by (auto simp: startswith_iff)
      then have "c # cs = [] @ p @ b" by simp
      then show ?thesis by blast
    next
      case 2
      with Cons.IH obtain a b where "cs = a @ p @ b" by blast
      then have "c # cs = (c # a) @ p @ b" by simp
      then show ?thesis by blast
    qed
  next
    assume "\<exists>a b. c # cs = a @ p @ b"
    then obtain a b where ab: "c # cs = a @ p @ b" by blast
    show "contains (c # cs) p"
    proof (cases a)
      case Nil
      with ab have "startswith (c # cs) p" by (auto simp: startswith_iff)
      then show ?thesis by simp
    next
      case (Cons x xs)
      with ab have "cs = xs @ p @ b" by simp
      with Cons.IH have "contains cs p" by blast
      then show ?thesis by simp
    qed
  qed
qed

lemma contains_lower:
  assumes "contains s p"
  shows "contains (lower s) (lower p)"
proof -
  from assms obtain a b where "s = a @ p @ b" by (auto simp: contains_iff)
  then have "lower s = lower a @ lower p @ lower b" by (simp add: lower_def)
  then show ?thesis unfolding contains_iff by blast
qed

lemma contains_suffix_part:
  assumes "contains s (p @ q)"
  shows "contains s q"
proof -
  from assms obtain a b where "s = a @ (p @ q) @ b" by (auto simp: contains_iff)
  then have "s = (a @ p) @ q @ b" by simp
  then show ?thesis unfolding contains_iff by blast
qed

lemma contains_prefix_part:
  assumes "contains s (p @ q)"
  shows "contains s p"
proof -
  from assms obtain a b where "s = a @ (p @ q) @ b" by (auto simp: contains_iff)
  then have "s = a @ p @ (q @ b)" by simp
  then show ?thesis unfolding contains_iff by blast
qed

lemma dropWhile_keeps:
  assumes "p \<noteq> []" and "\<not> is_space (hd p)"
  shows "\<exists>a'. dropWhile is_space (a @ p @ b) = a' @ p @ b"
proof (induction a)
  case Nil
  from assms obtain x xs where "p = x # xs" "\<not> is_space x" by (cases p) auto
  then have "dropWhile is_space ([] @ p @ b) = [] @ p @ b" by simp
  then show ?case by blast
next
  case (Cons c cs)
  show ?case
  proof (cases "is_space c")
    case True
    with Cons.IH show ?thesis by simp
  next
    case False
    then have "dropWhile is_space ((c # cs) @ p @ b) = (c # cs) @ p @ b" by simp
    then show ?thesis by blast
  qed
qed

lemma contains_strip:
  assumes "contains s p" and "p \<noteq> []" and "\<not> is_space (hd p)" and "\<not> is_space (last p)"
  shows "contains (strip s) p"
proof -
  from assms(1) obtain a b where s: "s = a @ p @ b" by (auto simp: contains_iff)
  from dropWhile_keeps[OF assms(2,3)] obtain a' where
    l: "lstrip s = a' @ p @ b" unfolding lstrip_def s by blast
  from assms(2,4) have "rev p \<noteq> []" "\<not> is_space (hd (rev p))"
    by (simp_all add: hd_rev)
  from dropWhile_keeps[OF this, of "rev b" "rev a'"] obtain b' where
    "dropWhile is_space (rev b @ rev p @ rev a') = b' @ rev p @ rev a'" by blast
  then have "rstrip (a' @ p @ b) = a' @ p @ rev b'"
    by (simp add: rstrip_def)
  with l have "strip s = a' @ p @ rev b'" by (simp add: strip_def)
  then show ?thesis unfolding contains_iff by blast
qed

lemma opening_balance_lower:
  assumes "contains line ''Opening Balance''"
  shows "contains (lower line) ''opening balance''" and "contains (lower line) ''balance''"
    and "contains (lower (strip line)) ''balance''"
proof -
  have low: "lower ''Opening Balance'' = ''opening balance''" by code_simp
  from contains_lower[OF assms] low show 1: "contains (lower line) ''opening balance''"
    by simp
  have split: "''opening balance'' = ''opening '' @ ''balance''" by simp
  from 1 show "contains (lower line) ''balance''"
    unfolding split by (rule contains_suffix_part)
  have "contains (strip line) ''Opening Balance''"
    by (rule contains_strip[OF assms]) (simp_all add: is_space_def space_chars_def)
  from contains_lower[OF this] low have "contains (lower (strip line)) ''opening balance''"
    by simp
  then show "contains (lower (strip line)) ''balance''"
    unfolding split by (rule contains_suffix_part)
qed

lemma tangerine_record_text [simp]:
  "description (tangerine_record d desc a bal pg cls) = desc"
  by (simp add: tangerine_record_def new_tx_def)

lemma parse_tangerine_transaction_skip:
  assumes "parse_tangerine_transaction line pg = Some t"
  shows "\<not> (any_in [''opening balance'', ''closing balance''] (lower (description t)) \<and>
            amount t = Some 0)"
  using assms
  unfolding parse_tangerine_transaction_def Let_def
  by (auto split: if_splits)

lemma finish_multiline_skip:
  assumes "finish_multiline ds desc a bal pg n = (Some t, n')"
  shows "\<not> (any_in [''opening balance'', ''closing balance''] (lower (description t)) \<and>
            amount t = Some 0)"
  using assms
  unfolding finish_multiline_def Let_def
  by (auto split: if_splits)

lemma parse_tangerine_multiline_skip:
  assumes "parse_tangerine_multiline_transaction lines i pg = (Some t, n)"
  shows "\<not> (any_in [''opening balance'', ''closing balance''] (lower (description t)) \<and>
            amount t = Some 0)"
  using assms
  unfolding parse_tangerine_multiline_transaction_def Let_def
  by (auto split: if_splits prod.splits option.splits
           dest: parse_tangerine_transaction_skip finish_multiline_skip)




section \<open>Normalising a date twice\<close>

text \<open>A digit is no letter, no blank and no slash, and \<open>str.lower\<close> leaves a character
  that is no letter as it is.\<close>

lemma digit_not_alpha: "is_digit c \<Longrightarrow> c \<notin> set alpha_chars"
  by (auto simp: is_digit_def digit_chars_def alpha_chars_def upper_chars_def lower_chars_def)

lemma digit_not_space: "is_digit c \<Longrightarrow> \<not> is_space c"
  by (auto simp: is_digit_def digit_chars_def is_space_def space_chars_def)

lemma digit_not_slash: "is_digit c \<Longrightarrow> c \<noteq> CHR ''/''"
  by (auto simp: is_digit_def digit_chars_def)

lemma lower_char_other: "c \<notin> set alpha_chars \<Longrightarrow> lower_char c = c"
  by (auto simp: alpha_chars_def upper_chars_def lower_chars_def)

text \<open>None of the eight formats parses a string that starts with two digits and a
  dash: the \<open>%b\<close> formats need a letter first, the others a slash after one or two
  digits.\<close>

lemma month_name_needs_letter:
  "c \<notin> set alpha_chars \<Longrightarrow> rmatch (directive_rx Pb) \<lparr>prev = p, rest = c # cs, caps = k\<rparr> = []"
  by (simp add: directive_rx_def rx_alts_def month_abbrs_def rx_lit_i_def rx_seq_def consume_def
      upper_char_def alpha_chars_def upper_chars_def lower_chars_def)

lemma strptime_month_name:
  assumes "c \<notin> set alpha_chars"
  shows "strptime (Pb # fmt) (c # cs) = None"
  using month_name_needs_letter[OF assms]
  by (simp add: strptime_def re_match_def first_match_def format_rx_def rx_seq_def)

lemma month_number_needs_slash:
  assumes "b \<noteq> CHR ''/''"
  shows "rmatch (format_rx (Pm # Lt CHR ''/'' # fmt))
           \<lparr>prev = p, rest = a # b # CHR ''-'' # t, caps = k\<rparr> = []"
  using assms
  by (simp add: format_rx_def directive_rx_def rx_alts_def rx_seq_def rx_lit_def consume_def)

lemma day_number_needs_slash:
  assumes "b \<noteq> CHR ''/''"
  shows "rmatch (format_rx (Pd # Lt CHR ''/'' # fmt))
           \<lparr>prev = p, rest = a # b # CHR ''-'' # t, caps = k\<rparr> = []"
  using assms
  by (simp add: format_rx_def directive_rx_def rx_alts_def rx_seq_def rx_lit_def rx_digit_def
      consume_def)

lemma strptime_month_number:
  assumes "b \<noteq> CHR ''/''"
  shows "strptime (Pm # Lt CHR ''/'' # fmt) (a # b # CHR ''-'' # t) = None"
  by (simp add: strptime_def re_match_def first_match_def month_number_needs_slash[OF assms])

lemma strptime_day_number:
  assumes "b \<noteq> CHR ''/''"
  shows "strptime (Pd # Lt CHR ''/'' # fmt) (a # b # CHR ''-'' # t) = None"
  by (simp add: strptime_def re_match_def first_match_def day_number_needs_slash[OF assms])

lemma formats_reject_canonical:
  assumes "is_digit a" and "is_digit b"
  shows "try_formats formats (a # b # CHR ''-'' # t) = None"
  using digit_not_alpha[OF assms(1)] digit_not_slash[OF assms(2)]
  by (simp add: formats_def strptime_month_name strptime_month_number strptime_day_number)

text \<open>The pattern \<open>([A-Za-z]{3})\.?(\d{1,2})\<close> finds nothing in a string without
  letters.\<close>

lemma month_day_needs_letter:
  assumes "rest s = [] \<or> hd (rest s) \<notin> set alpha_chars"
  shows "rmatch month_day_pattern s = []"
  using assms
  by (cases "rest s")
     (simp_all add: month_day_pattern_def rx_seq_def rx_times_def rx_alpha_def consume_def
        rep_from.simps[of _ _ 3])

lemma search_needs_letter:
  "\<forall>c \<in> set s. c \<notin> set alpha_chars \<Longrightarrow> search_from month_day_pattern p i s = None"
  by (induction s arbitrary: p i) (simp_all add: first_match_def month_day_needs_letter)

text \<open>So a string of the form \<open>MM-DD\<close> falls through to the last line of
  \<open>clean_date\<close>, which returns its first five characters: the string itself.\<close>

lemma canonical_form:
  assumes "is_mmdd x"
  obtains a b c e where "x = [a, b, CHR ''-'', c, e]"
    and "is_digit a" and "is_digit b" and "is_digit c" and "is_digit e"
proof -
  from assms have len: "length x = 5" by (simp add: is_mmdd_def)
  then obtain a b m c e where x: "x = [a, b, m, c, e]"
    by (auto simp: length_Suc_conv eval_nat_numeral)
  with assms have "m = CHR ''-''" "is_digit a" "is_digit b" "is_digit c" "is_digit e"
    by (simp_all add: is_mmdd_def eval_nat_numeral)
  with x that show thesis by blast
qed

lemma strip_canonical:
  assumes "is_digit a" and "is_digit e"
  shows "strip [a, b, m, c, e] = [a, b, m, c, e]"
  using digit_not_space[OF assms(1)] digit_not_space[OF assms(2)]
  by (simp add: strip_def lstrip_def rstrip_def)

lemma clean_date_canonical:
  assumes "is_mmdd x"
  shows "clean_date x = x"
proof -
  from assms obtain a b c e where x: "x = [a, b, CHR ''-'', c, e]"
    and d: "is_digit a" "is_digit b" "is_digit c" "is_digit e"
    by (rule canonical_form)
  have dash: "CHR ''-'' \<notin> set alpha_chars"
    by (simp add: alpha_chars_def upper_chars_def lower_chars_def)
  have no_letter: "\<forall>c \<in> set x. c \<notin> set alpha_chars"
    using d dash by (simp add: x digit_not_alpha)
  then have low: "lower x = x"
    by (simp add: lower_def x lower_char_other del: lower_char.simps)
  have stripped: "strip x = x"
    unfolding x using d(1) d(4) by (rule strip_canonical)
  have parse: "try_formats formats x = None"
    unfolding x using d(1) d(2) by (rule formats_reject_canonical)
  have search: "re_search month_day_pattern x = None"
    unfolding re_search_def using no_letter by (rule search_needs_letter)
  have "x \<noteq> []" by (simp add: x)
  moreover have "take 5 x = x" by (simp add: x)
  ultimately show ?thesis
    by (simp add: clean_date_def stripped parse low search)
qed

text \<open>The strings \<open>strftime('%m-%d')\<close> renders have that form, so every date that one
  of the formats parses is normalised to it.\<close>

lemma digit_char_digit: "is_digit (digit_char n)"
proof (cases "map_of (zip digit_vals digit_chars) n")
  case None
  then show ?thesis by (simp add: digit_char_def is_digit_def digit_chars_def)
next
  case (Some c)
  then have "c \<in> set digit_chars" by (blast dest: map_of_SomeD set_zip_rightD)
  with Some show ?thesis by (simp add: digit_char_def is_digit_def)
qed

lemma strftime_md_canonical: "is_mmdd (strftime_md md)"
  by (simp add: is_mmdd_def strftime_md_def two_digits_def digit_char_digit eval_nat_numeral)

lemma try_formats_canonical: "try_formats fmts s = Some r \<Longrightarrow> is_mmdd r"
  by (induction fmts) (auto simp: strftime_md_canonical split: option.splits)

text \<open>
  C9, as the code has it: for every input string \<open>d\<close> whose normalised form
  \<open>clean_date(d)\<close> is a canonical \<open>MM-DD\<close> string (two digits, a dash, two digits),
  \<open>clean_date(clean_date(d)) == clean_date(d)\<close>.
\<close>

theorem clean_date_idempotent_canonical:
  assumes "is_mmdd (clean_date d)"
  shows "clean_date (clean_date d) = clean_date d"
  using assms by (rule clean_date_canonical)

text \<open>The witness: "Sep 28 2024" is normalised to \<open>09-28\<close>, and \<open>09-28\<close> to itself.\<close>

theorem clean_date_idempotent_canonical_witness:
  "is_mmdd (clean_date ''Sep 28 2024'') \<and>
   clean_date (clean_date ''Sep 28 2024'') = clean_date ''Sep 28 2024'' \<and>
   clean_date ''Sep 28 2024'' = ''09-28''"
proof -
  have canonical: "is_mmdd (clean_date ''Sep 28 2024'')"
    by code_simp
  have "clean_date ''Sep 28 2024'' = ''09-28''"
    by code_simp
  with canonical clean_date_idempotent_canonical[OF canonical] show ?thesis
    by (intro conjI)
qed

text \<open>
  C9 as the specification states it holds for every input string. "Jan 2024" is parsed
  by no format and found by no pattern, so \<open>clean_date\<close> returns its first five
  characters, "Jan 2"; that string the format \<open>'%b %d'\<close> parses, and the second call
  returns \<open>01-02\<close>.
\<close>

theorem clean_date_idempotent_counterexample:
  "clean_date ''Jan 2024'' = ''Jan 2'' \<and> clean_date ''Jan 2'' = ''01-02'' \<and>
   clean_date (clean_date ''Jan 2024'') \<noteq> clean_date ''Jan 2024''"
proof -
  have first: "clean_date ''Jan 2024'' = ''Jan 2''"
    by code_simp
  have second: "clean_date ''Jan 2'' = ''01-02''"
    by code_simp
  from first second show ?thesis by simp
qed

end
